theory Spec2Isabelle
  imports Main
begin

section \<open>JavaScript strings\<close>

text \<open>
  A string is a list of code units; the model is exact for strings whose code units are
  below 256 (ASCII and Latin-1), which is what \<^typ>\<open>char\<close> holds.
\<close>

definition isWhiteSpace :: "char \<Rightarrow> bool" where
  \<comment> \<open>the white space and line terminators that \<open>String.prototype.trim\<close> removes, below 256\<close>
  "isWhiteSpace c = ((of_char c :: nat) \<in> {9, 10, 11, 12, 13, 32, 160})"

definition trim :: "string \<Rightarrow> string" where
  "trim s = rev (dropWhile isWhiteSpace (rev (dropWhile isWhiteSpace s)))"

definition toLowerChar :: "char \<Rightarrow> char" where
  "toLowerChar c =
     (let n = (of_char c :: nat)
      in if (65 \<le> n \<and> n \<le> 90) \<or> (192 \<le> n \<and> n \<le> 222 \<and> n \<noteq> 215)
         then char_of (n + 32) else c)"

definition toLowerCase :: "string \<Rightarrow> string" where
  "toLowerCase s = map toLowerChar s"

definition startsWith :: "string \<Rightarrow> string \<Rightarrow> bool" where
  "startsWith s p = (take (length p) s = p)"

definition endsWith :: "string \<Rightarrow> string \<Rightarrow> bool" where
  "endsWith s p = (length p \<le> length s \<and> drop (length s - length p) s = p)"

fun str_includes :: "string \<Rightarrow> string \<Rightarrow> bool" where
  \<comment> \<open>\<open>s.includes(q)\<close>\<close>
  "str_includes [] q = (q = [])"
| "str_includes (c # s) q = (startsWith (c # s) q \<or> str_includes s q)"

definition testPrefixIgnoreCase :: "string \<Rightarrow> string \<Rightarrow> bool" where
  \<comment> \<open>\<open>/^lit/i.test(s)\<close> for a literal \<open>lit\<close> of lower-case ASCII letters and punctuation\<close>
  "testPrefixIgnoreCase lit s = (toLowerCase (take (length lit) s) = lit)"

definition isDigit :: "char \<Rightarrow> bool" where
  \<comment> \<open>the class \<open>\\d\<close>\<close>
  "isDigit c = (let n = (of_char c :: nat) in 48 \<le> n \<and> n \<le> 57)"

definition isAlnumIgnoreCase :: "char \<Rightarrow> bool" where
  \<comment> \<open>the class \<open>[A-Z0-9]\<close> under the flag \<open>i\<close>\<close>
  "isAlnumIgnoreCase c =
     (let n = (of_char c :: nat)
      in (48 \<le> n \<and> n \<le> 57) \<or> (65 \<le> n \<and> n \<le> 90) \<or> (97 \<le> n \<and> n \<le> 122))"

section \<open>Loosely typed values\<close>

datatype jv =
    JUndefined
  | JNull
  | JBool bool
  | JNum int
  | JStr string
  | JArr "jv list"
  | JObj "(string \<times> jv) list"

text \<open>A thrown value: an \<open>Error\<close> object with its message, or any other value.\<close>

datatype Thrown = Error string | NonError jv

section \<open>Configuration objects\<close>

text \<open>
  A configuration object has an identity (\<open>ref\<close>: two objects are the same object iff
  their references are equal) and the one setting the code under study reads,
  \<open>tools?.message?.broadcast?.enabled\<close>, absent when any link of the chain is.
\<close>

record ClawdbotConfig =
  ref :: nat
  broadcastEnabled :: "bool option"

section \<open>directory-cache.ts\<close>

type_synonym ChannelId = string

datatype ChannelDirectoryEntryKind = User | Group

datatype DirectorySource = SourceCache | SourceLive

record 'v CacheEntry =
  entryValue :: 'v
  fetchedAt :: int

record DirectoryCacheKey =
  key_channel :: ChannelId
  key_accountId :: "string option"
  key_kind :: ChannelDirectoryEntryKind
  key_source :: DirectorySource

definition kindString :: "ChannelDirectoryEntryKind \<Rightarrow> string" where
  "kindString k = (case k of User \<Rightarrow> ''user'' | Group \<Rightarrow> ''group'')"

definition sourceString :: "DirectorySource \<Rightarrow> string" where
  "sourceString s = (case s of SourceCache \<Rightarrow> ''cache'' | SourceLive \<Rightarrow> ''live'')"

definition buildDirectoryCacheKey :: "DirectoryCacheKey \<Rightarrow> string" where
  "buildDirectoryCacheKey key =
     key_channel key @ '':''
     @ (case key_accountId key of None \<Rightarrow> ''default'' | Some a \<Rightarrow> a) @ '':''
     @ kindString (key_kind key) @ '':'' @ sourceString (key_source key)"

text \<open>
  The class \<open>DirectoryCache<T>\<close>: its private map, the last configuration object seen
  (\<open>null\<close> at first) and the time to live given to the constructor. \<open>Date.now()\<close> is the
  first argument of \<open>get\<close> and \<open>set\<close>; every method returns the updated cache.
\<close>

record 'v DirectoryCache =
  cache :: "string \<rightharpoonup> 'v CacheEntry"
  lastConfigRef :: "nat option"
  ttlMs :: int

definition newDirectoryCache :: "int \<Rightarrow> 'v DirectoryCache" where
  "newDirectoryCache ttl = \<lparr>cache = Map.empty, lastConfigRef = None, ttlMs = ttl\<rparr>"

definition resetIfConfigChanged :: "ClawdbotConfig \<Rightarrow> 'v DirectoryCache \<Rightarrow> 'v DirectoryCache" where
  "resetIfConfigChanged cfg c =
     (let c1 = (case lastConfigRef c of
                  None \<Rightarrow> c
                | Some r \<Rightarrow> if r \<noteq> ref cfg then c\<lparr>cache := Map.empty\<rparr> else c)
      in c1\<lparr>lastConfigRef := Some (ref cfg)\<rparr>)"

definition DirectoryCache_get ::
  "int \<Rightarrow> string \<Rightarrow> ClawdbotConfig \<Rightarrow> 'v DirectoryCache \<Rightarrow> 'v option \<times> 'v DirectoryCache" where
  "DirectoryCache_get now key cfg c =
     (let c1 = resetIfConfigChanged cfg c
      in case cache c1 key of
           None \<Rightarrow> (None, c1)
         | Some entry \<Rightarrow>
             if now - fetchedAt entry > ttlMs c1
             then (None, c1\<lparr>cache := (cache c1)(key := None)\<rparr>)
             else (Some (entryValue entry), c1))"

definition DirectoryCache_set ::
  "int \<Rightarrow> string \<Rightarrow> 'v \<Rightarrow> ClawdbotConfig \<Rightarrow> 'v DirectoryCache \<Rightarrow> 'v DirectoryCache" where
  "DirectoryCache_set now key v cfg c =
     (let c1 = resetIfConfigChanged cfg c
      in c1\<lparr>cache := (cache c1)(key \<mapsto> \<lparr>entryValue = v, fetchedAt = now\<rparr>)\<rparr>)"

definition clearMatching :: "(string \<Rightarrow> bool) \<Rightarrow> 'v DirectoryCache \<Rightarrow> 'v DirectoryCache" where
  "clearMatching match c = c\<lparr>cache := (\<lambda>key. if match key then None else cache c key)\<rparr>"

definition DirectoryCache_clear :: "ClawdbotConfig option \<Rightarrow> 'v DirectoryCache \<Rightarrow> 'v DirectoryCache" where
  "DirectoryCache_clear cfg c =
     (let c1 = c\<lparr>cache := Map.empty\<rparr>
      in case cfg of None \<Rightarrow> c1 | Some g \<Rightarrow> c1\<lparr>lastConfigRef := Some (ref g)\<rparr>)"

section \<open>target-resolver.ts: the pure part\<close>

datatype TargetResolveKind = KindUser | KindGroup | KindChannel

datatype TargetSource = Normalized | Directory

record ChannelDirectoryEntry =
  entry_kind :: ChannelDirectoryEntryKind
  entry_id :: string
  entry_name :: "string option"
  entry_handle :: "string option"

record ResolvedMessagingTarget =
  target_to :: string
  target_kind :: TargetResolveKind
  target_display :: "string option"
  target_source :: TargetSource

text \<open>
  \<open>{ok: true, target}\<close> or \<open>{ok: false, error, candidates?}\<close>; the error is an
  \<open>Error\<close> object, held by its message.
\<close>

datatype ResolveMessagingTargetResult =
    ResolveOk ResolvedMessagingTarget
  | ResolveFail string "ChannelDirectoryEntry list option"

definition CACHE_TTL_MS :: int where
  "CACHE_TTL_MS = 30 * 60 * 1000"

definition normalizeQuery :: "string \<Rightarrow> string" where
  "normalizeQuery v = toLowerCase (trim v)"

definition stripTargetPrefixes :: "string \<Rightarrow> string" where
  "stripTargetPrefixes v =
     (let v1 = (if testPrefixIgnoreCase ''channel:'' v then drop 8 v
                else if testPrefixIgnoreCase ''group:'' v then drop 6 v
                else if testPrefixIgnoreCase ''user:'' v then drop 5 v
                else v);
          v2 = (case v1 of [] \<Rightarrow> v1
                | c # rest \<Rightarrow> if c = CHR ''@'' \<or> c = CHR ''#'' then rest else v1)
      in trim v2)"

definition preserveTargetCase :: "ChannelId \<Rightarrow> string \<Rightarrow> string \<Rightarrow> string" where
  "preserveTargetCase channel raw normalized =
     (if channel \<noteq> ''slack'' then normalized
      else let trimmed = trim raw
           in if testPrefixIgnoreCase ''channel:'' trimmed \<or> testPrefixIgnoreCase ''user:'' trimmed
              then trimmed
              else if startsWith trimmed ''#'' then ''channel:'' @ trim (drop 1 trimmed)
              else if startsWith trimmed ''@'' then ''user:'' @ trim (drop 1 trimmed)
              else trimmed)"

definition detectTargetKind :: "string \<Rightarrow> TargetResolveKind option \<Rightarrow> TargetResolveKind" where
  "detectTargetKind raw preferred =
     (case preferred of
        Some p \<Rightarrow> p
      | None \<Rightarrow>
          let trimmed = trim raw
          in if trimmed = [] then KindGroup
             else if startsWith trimmed ''@'' \<or> startsWith trimmed ''<@''
                     \<or> testPrefixIgnoreCase ''user:'' trimmed then KindUser
             else if startsWith trimmed ''#'' \<or> testPrefixIgnoreCase ''channel:'' trimmed
                     \<or> testPrefixIgnoreCase ''group:'' trimmed then KindGroup
             else KindGroup)"

text \<open>
  \<open>normalizeTargetForProvider\<close> (pi-embedded-messaging.ts) is a collaborator; it is the
  first argument of the functions that call it.
\<close>

type_synonym Normalizer = "ChannelId \<Rightarrow> string \<Rightarrow> string option"

definition normalizeDirectoryEntryId :: "Normalizer \<Rightarrow> ChannelId \<Rightarrow> ChannelDirectoryEntry \<Rightarrow> string" where
  "normalizeDirectoryEntryId normalizeTargetForProvider channel entry =
     (case normalizeTargetForProvider channel (entry_id entry) of
        Some normalized \<Rightarrow> normalized
      | None \<Rightarrow> trim (entry_id entry))"

definition matchesDirectoryEntry ::
  "Normalizer \<Rightarrow> ChannelId \<Rightarrow> ChannelDirectoryEntry \<Rightarrow> string \<Rightarrow> bool" where
  "matchesDirectoryEntry normalizeTargetForProvider channel entry query0 =
     (let query = normalizeQuery query0
      in if query = [] then False
         else
           let ident = stripTargetPrefixes (normalizeDirectoryEntryId normalizeTargetForProvider channel entry);
               name = (case entry_name entry of
                         None \<Rightarrow> []
                       | Some n \<Rightarrow> if n = [] then [] else stripTargetPrefixes n);
               handle = (case entry_handle entry of
                           None \<Rightarrow> []
                         | Some h \<Rightarrow> if h = [] then [] else stripTargetPrefixes h);
               candidates = filter (\<lambda>v. v \<noteq> []) (map normalizeQuery [ident, name, handle])
           in list_ex (\<lambda>v. v = query \<or> str_includes v query) candidates)"

datatype MatchResult =
    MatchNone
  | MatchSingle ChannelDirectoryEntry
  | MatchAmbiguous "ChannelDirectoryEntry list"

definition resolveMatch ::
  "Normalizer \<Rightarrow> ChannelId \<Rightarrow> ChannelDirectoryEntry list \<Rightarrow> string \<Rightarrow> MatchResult" where
  "resolveMatch normalizeTargetForProvider channel entries query =
     (let matches = filter (\<lambda>entry. matchesDirectoryEntry normalizeTargetForProvider channel entry query)
                      entries
      in case matches of
           [] \<Rightarrow> MatchNone
         | [entry] \<Rightarrow> MatchSingle entry
         | _ \<Rightarrow> MatchAmbiguous matches)"

definition looksLikeId :: "ChannelId \<Rightarrow> string \<Rightarrow> bool" where
  "looksLikeId channel normalized =
     (if normalized = [] then False
      else
        let raw = trim normalized
        in if channel = ''discord'' then
             (let candidate = stripTargetPrefixes raw
              in 6 \<le> length candidate \<and> list_all isDigit candidate)
           else if channel = ''slack'' then
             (let candidate = stripTargetPrefixes raw
              in 8 \<le> length candidate \<and> list_all isAlnumIgnoreCase candidate)
           else if channel = ''msteams'' then
             testPrefixIgnoreCase ''conversation:'' raw \<or> testPrefixIgnoreCase ''user:'' raw
             \<or> str_includes raw ''@thread''
           else if channel = ''telegram'' then
             testPrefixIgnoreCase ''telegram:'' raw \<or> startsWith raw ''@''
           else if channel = ''whatsapp'' then
             (let candidate = stripTargetPrefixes raw;
                  digits = (if startsWith candidate ''+'' then drop 1 candidate else candidate)
              in str_includes candidate ''@''
                 \<or> (3 \<le> length digits \<and> list_all isDigit digits)
                 \<or> endsWith (toLowerCase candidate) ''@g.us'')
           else raw \<noteq> [])"

section \<open>Values exchanged with the collaborators\<close>

type_synonym Params = "string \<rightharpoonup> jv"

definition getProp :: "Params \<Rightarrow> string \<Rightarrow> jv" where
  \<comment> \<open>\<open>params[key]\<close>: an absent key reads as \<open>undefined\<close>\<close>
  "getProp params key = (case params key of None \<Rightarrow> JUndefined | Some v \<Rightarrow> v)"

definition truthy :: "jv \<Rightarrow> bool" where
  "truthy v =
     (case v of
        JUndefined \<Rightarrow> False
      | JNull \<Rightarrow> False
      | JBool b \<Rightarrow> b
      | JNum n \<Rightarrow> n \<noteq> 0
      | JStr s \<Rightarrow> s \<noteq> []
      | JArr _ \<Rightarrow> True
      | JObj _ \<Rightarrow> True)"

record MessageActionRunnerGateway =
  gw_url :: "string option"
  gw_token :: "string option"
  gw_timeoutMs :: "int option"
  gw_clientName :: string
  gw_clientDisplayName :: "string option"
  gw_mode :: string

record RunMessageActionParams =
  in_cfg :: ClawdbotConfig
  in_action :: string
  in_params :: Params
  in_defaultAccountId :: "string option"
  in_toolContext :: "jv option"
  in_gateway :: "MessageActionRunnerGateway option"
  in_deps :: "jv option"
  in_sessionKey :: "string option"
  in_agentId :: "string option"
  in_dryRun :: "bool option"

record AgentToolResult =
  tool_content :: jv
  tool_details :: jv

datatype HandledBy = ByPlugin | ByCore | ByDryRun

record Mirror =
  mirror_sessionKey :: string
  mirror_agentId :: "string option"

text \<open>The arguments of the directory listers of a channel plugin (\<open>limit\<close> is always absent).\<close>

record DirectoryQueryArgs =
  dq_cfg :: ClawdbotConfig
  dq_accountId :: "string option"
  dq_query :: "string option"

text \<open>The arguments of \<open>executeSendAction\<close>, its context flattened.\<close>

record SendActionArgs =
  send_cfg :: ClawdbotConfig
  send_channel :: ChannelId
  send_params :: Params
  send_accountId :: "string option"
  send_gateway :: "MessageActionRunnerGateway option"
  send_toolContext :: "jv option"
  send_deps :: "jv option"
  send_dryRun :: bool
  send_mirror :: "Mirror option"
  send_to :: string
  send_message :: string
  send_mediaUrl :: "string option"
  send_gifPlayback :: bool
  send_bestEffort :: "bool option"

record SendActionOutcome =
  so_handledBy :: HandledBy
  so_payload :: jv
  so_toolResult :: "AgentToolResult option"
  so_sendResult :: "jv option"

record PollActionArgs =
  poll_cfg :: ClawdbotConfig
  poll_channel :: ChannelId
  poll_params :: Params
  poll_accountId :: "string option"
  poll_gateway :: "MessageActionRunnerGateway option"
  poll_toolContext :: "jv option"
  poll_dryRun :: bool
  poll_to :: string
  poll_question :: string
  poll_options :: "string list"
  poll_maxSelections :: nat
  poll_durationHours :: "int option"

record PollActionOutcome =
  po_handledBy :: HandledBy
  po_payload :: jv
  po_toolResult :: "AgentToolResult option"
  po_pollResult :: "jv option"

record DispatchArgs =
  da_channel :: ChannelId
  da_action :: string
  da_cfg :: ClawdbotConfig
  da_params :: Params
  da_accountId :: "string option"
  da_gateway :: "MessageActionRunnerGateway option"
  da_toolContext :: "jv option"
  da_dryRun :: bool

record DecorationArgs =
  dec_cfg :: ClawdbotConfig
  dec_channel :: ChannelId
  dec_target :: string
  dec_toolContext :: jv
  dec_accountId :: "string option"

record AppliedDecoration =
  applied_message :: string
  applied_embeds :: "jv list option"

record PolicyArgs =
  pol_channel :: ChannelId
  pol_action :: string
  pol_args :: Params
  pol_toolContext :: "jv option"
  pol_cfg :: ClawdbotConfig

record ReplyDirectives =
  rd_text :: string
  rd_replyToId :: "string option"
  rd_mediaUrls :: "string list option"
  rd_mediaUrl :: "string option"

record StringParamOptions =
  opt_required :: "bool option"
  opt_trim :: "bool option"
  opt_allowEmpty :: "bool option"

definition noOptions :: StringParamOptions where
  "noOptions = \<lparr>opt_required = None, opt_trim = None, opt_allowEmpty = None\<rparr>"

section \<open>Collaborators, the world and the state\<close>

text \<open>
  The code awaits collaborators that live outside the files under study. Each one is a
  function of the environment \<open>env\<close>. An asynchronous collaborator reads and changes the
  world \<open>'w\<close> (the chat platforms, the network, the clock) and either returns or throws; a
  synchronous helper is a function of its arguments that returns or throws. \<open>stringOf\<close> is
  the conversion \<open>String(v)\<close> of JavaScript, which throws a \<open>TypeError\<close> for a value that has
  no usable \<open>toString\<close> or \<open>valueOf\<close> (an object without prototype, say). \<open>sendDispatch\<close> is
  the network dispatch of a send, and \<open>describeDryRunSend\<close> what a send that is not dispatched
  reports.
\<close>

type_synonym ('w, 'a) Async = "'w \<Rightarrow> (Thrown + 'a) \<times> 'w"

type_synonym 'w DirectoryLister = "DirectoryQueryArgs \<Rightarrow> ('w, ChannelDirectoryEntry list) Async"

record 'w ChannelDirectoryAdapter =
  listPeers :: "'w DirectoryLister option"
  listPeersLive :: "'w DirectoryLister option"
  listGroups :: "'w DirectoryLister option"
  listGroupsLive :: "'w DirectoryLister option"

record 'w ChannelPlugin =
  directory :: "'w ChannelDirectoryAdapter option"

record 'w Env =
  dateNow :: "'w \<Rightarrow> int"
  getChannelPlugin :: "ChannelId \<Rightarrow> 'w ChannelPlugin option"
  normalizeTargetForProvider :: Normalizer
  normalizeChannelTargetInput :: "string \<Rightarrow> string"
  jsonParse :: "string \<Rightarrow> jv option"
  stringOf :: "jv \<Rightarrow> Thrown + string"
  readStringParam :: "Params \<Rightarrow> string \<Rightarrow> StringParamOptions \<Rightarrow> Thrown + string option"
  readStringParamRequired :: "Params \<Rightarrow> string \<Rightarrow> Thrown + string"
  readStringArrayParamRequired :: "Params \<Rightarrow> string \<Rightarrow> Thrown + string list option"
  readIntegerParam :: "Params \<Rightarrow> string \<Rightarrow> Thrown + int option"
  parseReplyDirectives :: "string \<Rightarrow> ReplyDirectives"
  applyTargetToParams :: "string \<Rightarrow> Params \<Rightarrow> Thrown + Params"
  enforceCrossContextPolicy :: "PolicyArgs \<Rightarrow> Thrown option"
  shouldApplyCrossContextMarker :: "string \<Rightarrow> bool"
  applyCrossContextDecoration :: "string \<Rightarrow> jv \<Rightarrow> bool \<Rightarrow> AppliedDecoration"
  buildCrossContextDecoration :: "DecorationArgs \<Rightarrow> ('w, jv option) Async"
  listConfiguredMessageChannels :: "ClawdbotConfig \<Rightarrow> ('w, ChannelId list) Async"
  resolveMessageChannelSelection :: "ClawdbotConfig \<Rightarrow> string option \<Rightarrow> ('w, ChannelId) Async"
  sendDispatch :: "SendActionArgs \<Rightarrow> ('w, SendActionOutcome) Async"
  describeDryRunSend :: "SendActionArgs \<Rightarrow> SendActionOutcome"
  executePollAction :: "PollActionArgs \<Rightarrow> ('w, PollActionOutcome) Async"
  dispatchChannelMessageAction :: "DispatchArgs \<Rightarrow> ('w, AgentToolResult option) Async"

text \<open>
  The log of calls is what a test double would record: one item for each call of
  \<open>listDirectoryEntries\<close> (with the lister of the plugin it invoked, if any) and one for
  each call of a dispatch collaborator.
\<close>

datatype DirectoryFn = ListPeers | ListPeersLive | ListGroups | ListGroupsLive

record DirectoryFetch =
  fetch_source :: DirectorySource
  fetch_kind :: ChannelDirectoryEntryKind
  fetch_channel :: ChannelId
  fetch_args :: DirectoryQueryArgs
  fetch_invoked :: "DirectoryFn option"

datatype Call =
    CallDirectory DirectoryFetch
  | CallSendDispatch SendActionArgs
  | CallExecutePoll PollActionArgs
  | CallDispatchAction DispatchArgs

text \<open>
  The state: the module-level \<open>directoryCache\<close> of target-resolver.ts, the world and the
  log of calls.
\<close>

record 'w State =
  directoryCache :: "ChannelDirectoryEntry list DirectoryCache"
  world :: 'w
  calls :: "Call list"

definition initialState :: "'w \<Rightarrow> 'w State" where
  "initialState w = \<lparr>directoryCache = newDirectoryCache CACHE_TTL_MS, world = w, calls = []\<rparr>"

definition await :: "('w, 'a) Async \<Rightarrow> 'w State \<Rightarrow> (Thrown + 'a) \<times> 'w State" where
  "await f st = (case f (world st) of (r, w) \<Rightarrow> (r, st\<lparr>world := w\<rparr>))"

definition isDispatch :: "Call \<Rightarrow> bool" where
  \<comment> \<open>a logged call of a dispatch collaborator\<close>
  "isDispatch c = (case c of CallDirectory _ \<Rightarrow> False | _ \<Rightarrow> True)"

definition dispatches :: "'w State \<Rightarrow> Call list" where
  \<comment> \<open>the dispatches logged so far, oldest first\<close>
  "dispatches st = filter isDispatch (calls st)"

section \<open>target-resolver.ts: the directory and the cache\<close>

definition resetDirectoryCache :: "ChannelId option \<Rightarrow> string option \<Rightarrow> 'w State \<Rightarrow> 'w State" where
  \<comment> \<open>the arguments are \<open>params?.channel\<close> and \<open>params?.accountId\<close>\<close>
  "resetDirectoryCache channel accountId st =
     (if channel = None \<or> channel = Some [] then
        st\<lparr>directoryCache := DirectoryCache_clear None (directoryCache st)\<rparr>
      else
        let channelKey = (case channel of Some c \<Rightarrow> c | None \<Rightarrow> []);
            accountKey = (case accountId of None \<Rightarrow> ''default'' | Some a \<Rightarrow> a);
            match = (\<lambda>key.
               if \<not> startsWith key (channelKey @ '':'') then False
               else if accountId = None \<or> accountId = Some [] then True
               else startsWith key (channelKey @ '':'' @ accountKey @ '':''))
        in st\<lparr>directoryCache := clearMatching match (directoryCache st)\<rparr>)"

record ListDirectoryParams =
  ld_cfg :: ClawdbotConfig
  ld_channel :: ChannelId
  ld_accountId :: "string option"
  ld_kind :: ChannelDirectoryEntryKind
  ld_query :: "string option"
  ld_source :: DirectorySource

definition pickLister ::
  "'w Env \<Rightarrow> ChannelId \<Rightarrow> ChannelDirectoryEntryKind \<Rightarrow> bool
   \<Rightarrow> (DirectoryFn \<times> 'w DirectoryLister) option" where
  \<comment> \<open>the lister that \<open>listDirectoryEntries\<close> calls, if it calls one: \<open>plugin?.directory\<close> and
      the two assignments to \<open>fn\<close>\<close>
  "pickLister env channel kind useLive =
     (case getChannelPlugin env channel of
        None \<Rightarrow> None
      | Some plugin \<Rightarrow>
          (case directory plugin of
             None \<Rightarrow> None
           | Some d \<Rightarrow>
               if kind = User then
                 (if useLive then
                    (case listPeersLive d of
                       Some f \<Rightarrow> Some (ListPeersLive, f)
                     | None \<Rightarrow> map_option (Pair ListPeers) (listPeers d))
                  else map_option (Pair ListPeers) (listPeers d))
               else
                 (if useLive then
                    (case listGroupsLive d of
                       Some f \<Rightarrow> Some (ListGroupsLive, f)
                     | None \<Rightarrow> map_option (Pair ListGroups) (listGroups d))
                  else map_option (Pair ListGroups) (listGroups d))))"

definition listDirectoryEntries ::
  "'w Env \<Rightarrow> ListDirectoryParams \<Rightarrow> 'w State \<Rightarrow> (Thrown + ChannelDirectoryEntry list) \<times> 'w State" where
  "listDirectoryEntries env p st =
     (let args = \<lparr>dq_cfg = ld_cfg p, dq_accountId = ld_accountId p, dq_query = ld_query p\<rparr>;
          fetch = \<lparr>fetch_source = ld_source p, fetch_kind = ld_kind p, fetch_channel = ld_channel p,
                   fetch_args = args, fetch_invoked = None\<rparr>
      in case pickLister env (ld_channel p) (ld_kind p) (ld_source p = SourceLive) of
           None \<Rightarrow> (Inr [], st\<lparr>calls := calls st @ [CallDirectory fetch]\<rparr>)
         | Some (name, f) \<Rightarrow>
             await (f args)
               (st\<lparr>calls := calls st @ [CallDirectory (fetch\<lparr>fetch_invoked := Some name\<rparr>)]\<rparr>))"

record GetDirectoryParams =
  gd_cfg :: ClawdbotConfig
  gd_channel :: ChannelId
  gd_accountId :: "string option"
  gd_kind :: ChannelDirectoryEntryKind
  gd_query :: "string option"
  gd_preferLiveOnMiss :: bool

definition directoryKey :: "GetDirectoryParams \<Rightarrow> DirectorySource \<Rightarrow> string" where
  "directoryKey p source =
     buildDirectoryCacheKey \<lparr>key_channel = gd_channel p, key_accountId = gd_accountId p,
                             key_kind = gd_kind p, key_source = source\<rparr>"

definition listParams :: "GetDirectoryParams \<Rightarrow> DirectorySource \<Rightarrow> ListDirectoryParams" where
  "listParams p source =
     \<lparr>ld_cfg = gd_cfg p, ld_channel = gd_channel p, ld_accountId = gd_accountId p,
      ld_kind = gd_kind p, ld_query = gd_query p, ld_source = source\<rparr>"

definition cacheSet ::
  "'w Env \<Rightarrow> string \<Rightarrow> ChannelDirectoryEntry list \<Rightarrow> ClawdbotConfig \<Rightarrow> 'w State \<Rightarrow> 'w State" where
  \<comment> \<open>\<open>directoryCache.set(key, value, cfg)\<close>, reading the clock\<close>
  "cacheSet env key v cfg st =
     st\<lparr>directoryCache := DirectoryCache_set (dateNow env (world st)) key v cfg (directoryCache st)\<rparr>"

definition cacheGet ::
  "'w Env \<Rightarrow> string \<Rightarrow> ClawdbotConfig \<Rightarrow> 'w State \<Rightarrow> ChannelDirectoryEntry list option \<times> 'w State" where
  \<comment> \<open>\<open>directoryCache.get(key, cfg)\<close>, reading the clock\<close>
  "cacheGet env key cfg st =
     (case DirectoryCache_get (dateNow env (world st)) key cfg (directoryCache st) of
        (v, c) \<Rightarrow> (v, st\<lparr>directoryCache := c\<rparr>))"

definition getDirectoryEntries ::
  "'w Env \<Rightarrow> GetDirectoryParams \<Rightarrow> 'w State \<Rightarrow> (Thrown + ChannelDirectoryEntry list) \<times> 'w State" where
  "getDirectoryEntries env p st =
     (let cacheKey = directoryKey p SourceCache
      in case cacheGet env cacheKey (gd_cfg p) st of
           (Some cached, st1) \<Rightarrow> (Inr cached, st1)
         | (None, st1) \<Rightarrow>
             (case listDirectoryEntries env (listParams p SourceCache) st1 of
                (Inl err, st2) \<Rightarrow> (Inl err, st2)
              | (Inr entries, st2) \<Rightarrow>
                  if length entries > 0 \<or> \<not> gd_preferLiveOnMiss p
                  then (Inr entries, cacheSet env cacheKey entries (gd_cfg p) st2)
                  else
                    let liveKey = directoryKey p SourceLive
                    in case listDirectoryEntries env (listParams p SourceLive) st2 of
                         (Inl err, st3) \<Rightarrow> (Inl err, st3)
                       | (Inr liveEntries, st3) \<Rightarrow>
                           (Inr liveEntries, cacheSet env liveKey liveEntries (gd_cfg p) st3)))"

record ResolveParams =
  rp_cfg :: ClawdbotConfig
  rp_channel :: ChannelId
  rp_input :: string
  rp_accountId :: "string option"
  rp_preferredKind :: "TargetResolveKind option"

definition directoryLookupParams :: "ResolveParams \<Rightarrow> string \<Rightarrow> GetDirectoryParams" where
  \<comment> \<open>the argument of \<open>getDirectoryEntries\<close> in \<open>resolveMessagingTarget\<close>\<close>
  "directoryLookupParams p raw =
     \<lparr>gd_cfg = rp_cfg p, gd_channel = rp_channel p, gd_accountId = rp_accountId p,
      gd_kind = (if detectTargetKind raw (rp_preferredKind p) = KindUser then User else Group),
      gd_query = Some (stripTargetPrefixes raw), gd_preferLiveOnMiss = True\<rparr>"

definition resolveMessagingTarget ::
  "'w Env \<Rightarrow> ResolveParams \<Rightarrow> 'w State \<Rightarrow> (Thrown + ResolveMessagingTargetResult) \<times> 'w State" where
  \<open>resolveMessagingTarget env p st =
     (let raw = normalizeChannelTargetInput env (rp_input p)
      in if raw = [] then (Inr (ResolveFail ''Target is required'' None), st)
         else
           let kind = detectTargetKind raw (rp_preferredKind p);
               normalized = (case normalizeTargetForProvider env (rp_channel p) raw of
                               Some n \<Rightarrow> n | None \<Rightarrow> raw)
           in if looksLikeId (rp_channel p) normalized then
                (Inr (ResolveOk \<lparr>target_to = preserveTargetCase (rp_channel p) raw normalized,
                                 target_kind = kind,
                                 target_display = Some (stripTargetPrefixes raw),
                                 target_source = Normalized\<rparr>), st)
              else
                let query = stripTargetPrefixes raw
                in case getDirectoryEntries env (directoryLookupParams p raw) st of
                     (Inl err, st1) \<Rightarrow> (Inl err, st1)
                   | (Inr entries, st1) \<Rightarrow>
                       (case resolveMatch (normalizeTargetForProvider env) (rp_channel p) entries query of
                          MatchSingle entry \<Rightarrow>
                            (Inr (ResolveOk
                               \<lparr>target_to = normalizeDirectoryEntryId (normalizeTargetForProvider env)
                                               (rp_channel p) entry,
                                target_kind = kind,
                                target_display =
                                  Some (case entry_name entry of
                                          Some n \<Rightarrow> n
                                        | None \<Rightarrow> (case entry_handle entry of
                                                     Some h \<Rightarrow> h
                                                   | None \<Rightarrow> stripTargetPrefixes (entry_id entry))),
                                target_source = Directory\<rparr>), st1)
                        | MatchAmbiguous matches \<Rightarrow>
                            (Inr (ResolveFail
                               (''Ambiguous target "'' @ raw
                                  @ ''". Provide a unique name or an explicit id.'')
                               (Some matches)), st1)
                        | MatchNone \<Rightarrow>
                            (Inr (ResolveFail
                               (''Unknown target "'' @ raw @ ''" for '' @ rp_channel p @ ''.'')
                               None), st1)))\<close>

definition resolveChannelTarget ::
  "'w Env \<Rightarrow> ResolveParams \<Rightarrow> 'w State \<Rightarrow> (Thrown + ResolveMessagingTargetResult) \<times> 'w State" where
  "resolveChannelTarget env p st = resolveMessagingTarget env p st"

section \<open>message-action-spec.ts\<close>

datatype MessageActionTargetMode = ModeTo | ModeChannelId | ModeNone

definition MESSAGE_ACTION_TARGET_MODE :: "(string \<times> MessageActionTargetMode) list" where
  "MESSAGE_ACTION_TARGET_MODE =
     [(''send'', ModeTo),
      (''broadcast'', ModeNone),
      (''poll'', ModeTo),
      (''react'', ModeTo),
      (''reactions'', ModeTo),
      (''read'', ModeTo),
      (''edit'', ModeTo),
      (''delete'', ModeTo),
      (''pin'', ModeTo),
      (''unpin'', ModeTo),
      (''list-pins'', ModeTo),
      (''permissions'', ModeTo),
      (''thread-create'', ModeTo),
      (''thread-list'', ModeNone),
      (''thread-reply'', ModeTo),
      (''search'', ModeNone),
      (''sticker'', ModeTo),
      (''member-info'', ModeNone),
      (''role-info'', ModeNone),
      (''emoji-list'', ModeNone),
      (''emoji-upload'', ModeNone),
      (''sticker-upload'', ModeNone),
      (''role-add'', ModeNone),
      (''role-remove'', ModeNone),
      (''channel-info'', ModeChannelId),
      (''channel-list'', ModeNone),
      (''channel-create'', ModeNone),
      (''channel-edit'', ModeChannelId),
      (''channel-delete'', ModeChannelId),
      (''channel-move'', ModeChannelId),
      (''category-create'', ModeNone),
      (''category-edit'', ModeNone),
      (''category-delete'', ModeNone),
      (''voice-status'', ModeNone),
      (''event-list'', ModeNone),
      (''event-create'', ModeNone),
      (''timeout'', ModeNone),
      (''kick'', ModeNone),
      (''ban'', ModeNone)]"

definition actionRequiresTarget :: "string \<Rightarrow> bool" where
  \<comment> \<open>a name with no entry reads as \<open>undefined\<close>, which is not \<open>"none"\<close>\<close>
  "actionRequiresTarget action = (map_of MESSAGE_ACTION_TARGET_MODE action \<noteq> Some ModeNone)"

section \<open>message-action-runner.ts\<close>

record SendRunResult =
  sr_channel :: ChannelId
  sr_to :: string
  sr_handledBy :: HandledBy
  sr_payload :: jv
  sr_toolResult :: "AgentToolResult option"
  sr_sendResult :: "jv option"
  sr_dryRun :: bool

record BroadcastOutcome =
  bo_channel :: ChannelId
  bo_to :: string
  bo_ok :: bool
  bo_error :: "string option"
  bo_result :: "jv option"

record BroadcastRunResult =
  br_channel :: ChannelId
  br_handledBy :: HandledBy
  br_results :: "BroadcastOutcome list"
  br_dryRun :: bool

record PollRunResult =
  pr_channel :: ChannelId
  pr_to :: string
  pr_handledBy :: HandledBy
  pr_payload :: jv
  pr_toolResult :: "AgentToolResult option"
  pr_pollResult :: "jv option"
  pr_dryRun :: bool

record ActionRunResult =
  ar_channel :: ChannelId
  ar_action :: string
  ar_handledBy :: HandledBy
  ar_payload :: jv
  ar_toolResult :: "AgentToolResult option"
  ar_dryRun :: bool

datatype MessageActionRunResult =
    RunSend SendRunResult
  | RunBroadcast BroadcastRunResult
  | RunPoll PollRunResult
  | RunAction ActionRunResult

definition isTextBlock :: "jv \<Rightarrow> bool" where
  "isTextBlock block =
     (case block of
        JObj props \<Rightarrow>
          map_of props ''type'' = Some (JStr ''text'')
          \<and> (case map_of props ''text'' of Some (JStr _) \<Rightarrow> True | _ \<Rightarrow> False)
      | _ \<Rightarrow> False)"

definition extractToolPayload :: "'w Env \<Rightarrow> AgentToolResult \<Rightarrow> jv" where
  "extractToolPayload env result =
     (if tool_details result \<noteq> JUndefined then tool_details result
      else
        let textBlock = (case tool_content result of
                           JArr blocks \<Rightarrow> find isTextBlock blocks
                         | _ \<Rightarrow> None);
            text = (case textBlock of
                      Some (JObj props) \<Rightarrow>
                        (case map_of props ''text'' of Some (JStr t) \<Rightarrow> t | _ \<Rightarrow> [])
                    | _ \<Rightarrow> [])
        in if text \<noteq> [] then
             (case jsonParse env text of Some v \<Rightarrow> v | None \<Rightarrow> JStr text)
           else if tool_content result = JUndefined \<or> tool_content result = JNull then
             JObj [(''content'', tool_content result), (''details'', tool_details result)]
           else tool_content result)"

definition applyCrossContextMessageDecoration ::
  "'w Env \<Rightarrow> Params \<Rightarrow> string \<Rightarrow> jv \<Rightarrow> bool \<Rightarrow> string \<times> Params" where
  \<comment> \<open>returns the message and the updated \<open>params\<close>\<close>
  "applyCrossContextMessageDecoration env params message decoration preferEmbeds =
     (let applied = applyCrossContextDecoration env message decoration preferEmbeds;
          params1 = params(''message'' \<mapsto> JStr (applied_message applied));
          params2 = (case applied_embeds applied of
                       Some embeds \<Rightarrow>
                         if embeds \<noteq> [] then params1(''embeds'' \<mapsto> JArr embeds) else params1
                     | None \<Rightarrow> params1)
      in (applied_message applied, params2))"

definition readBooleanParam :: "Params \<Rightarrow> string \<Rightarrow> bool option" where
  "readBooleanParam params key =
     (case getProp params key of
        JBool b \<Rightarrow> Some b
      | JStr raw \<Rightarrow>
          let trimmed = toLowerCase (trim raw)
          in if trimmed = ''true'' then Some True
             else if trimmed = ''false'' then Some False
             else None
      | _ \<Rightarrow> None)"

definition parseButtonsParam :: "'w Env \<Rightarrow> Params \<Rightarrow> Thrown + Params" where
  "parseButtonsParam env params =
     (case getProp params ''buttons'' of
        JStr raw \<Rightarrow>
          let trimmed = trim raw
          in if trimmed = [] then Inr (params(''buttons'' := None))
             else (case jsonParse env trimmed of
                     Some v \<Rightarrow> Inr (params(''buttons'' \<mapsto> v))
                   | None \<Rightarrow> Inl (Error ''--buttons must be valid JSON''))
      | _ \<Rightarrow> Inr params)"

definition resolveChannel ::
  "'w Env \<Rightarrow> ClawdbotConfig \<Rightarrow> Params \<Rightarrow> 'w State \<Rightarrow> (Thrown + ChannelId) \<times> 'w State" where
  "resolveChannel env cfg params st =
     (case readStringParam env params ''channel'' noOptions of
        Inl err \<Rightarrow> (Inl err, st)
      | Inr channelHint \<Rightarrow> await (resolveMessageChannelSelection env cfg channelHint) st)"

definition trimmedStringProp :: "Params \<Rightarrow> string \<Rightarrow> string" where
  \<comment> \<open>\<open>typeof args[key] === "string" ? args[key].trim() : ""\<close>\<close>
  "trimmedStringProp args key = (case getProp args key of JStr s \<Rightarrow> trim s | _ \<Rightarrow> [])"

definition stripChannelGroupPrefix :: "string \<Rightarrow> string" where
  \<comment> \<open>\<open>.replace(/^(channel|group):/i, "")\<close>\<close>
  "stripChannelGroupPrefix v =
     (if testPrefixIgnoreCase ''channel:'' v then drop 8 v
      else if testPrefixIgnoreCase ''group:'' v then drop 6 v
      else v)"

definition resolveActionTarget ::
  "'w Env \<Rightarrow> ClawdbotConfig \<Rightarrow> ChannelId \<Rightarrow> string \<Rightarrow> Params \<Rightarrow> string option \<Rightarrow> 'w State
   \<Rightarrow> (Thrown + Params) \<times> 'w State" where
  \<comment> \<open>returns the updated \<open>args\<close>\<close>
  \<open>resolveActionTarget env cfg channel action args accountId st =
     (let toRaw = trimmedStringProp args ''to'';
          first =
            (if toRaw \<noteq> [] then
               (case resolveChannelTarget env
                       \<lparr>rp_cfg = cfg, rp_channel = channel, rp_input = toRaw,
                        rp_accountId = accountId, rp_preferredKind = None\<rparr> st of
                  (Inl err, st1) \<Rightarrow> (Inl err, st1)
                | (Inr (ResolveOk target), st1) \<Rightarrow> (Inr (args(''to'' \<mapsto> JStr (target_to target))), st1)
                | (Inr (ResolveFail msg _), st1) \<Rightarrow> (Inl (Error msg), st1))
             else (Inr args, st))
      in case first of
           (Inl err, st1) \<Rightarrow> (Inl err, st1)
         | (Inr args1, st1) \<Rightarrow>
             let channelIdRaw = trimmedStringProp args1 ''channelId''
             in if channelIdRaw \<noteq> [] then
                  (case resolveChannelTarget env
                          \<lparr>rp_cfg = cfg, rp_channel = channel, rp_input = channelIdRaw,
                           rp_accountId = accountId, rp_preferredKind = Some KindGroup\<rparr> st1 of
                     (Inl err, st2) \<Rightarrow> (Inl err, st2)
                   | (Inr (ResolveOk target), st2) \<Rightarrow>
                       if target_kind target = KindUser then
                         (Inl (Error (''Channel id "'' @ channelIdRaw @ ''" resolved to a user target.'')),
                          st2)
                       else
                         (Inr (args1(''channelId'' \<mapsto> JStr (stripChannelGroupPrefix (target_to target)))),
                          st2)
                   | (Inr (ResolveFail msg _), st2) \<Rightarrow> (Inl (Error msg), st2))
                else (Inr args1, st1))\<close>

record ResolvedActionContext =
  ctx_cfg :: ClawdbotConfig
  ctx_params :: Params
  ctx_channel :: ChannelId
  ctx_accountId :: "string option"
  ctx_dryRun :: bool
  ctx_gateway :: "MessageActionRunnerGateway option"
  ctx_input :: RunMessageActionParams

definition resolveGateway :: "RunMessageActionParams \<Rightarrow> MessageActionRunnerGateway option" where
  "resolveGateway input =
     (case in_gateway input of
        None \<Rightarrow> None
      | Some g \<Rightarrow>
          Some \<lparr>gw_url = gw_url g, gw_token = gw_token g, gw_timeoutMs = gw_timeoutMs g,
                gw_clientName = gw_clientName g, gw_clientDisplayName = gw_clientDisplayName g,
                gw_mode = gw_mode g\<rparr>)"

definition buildDecoration ::
  "'w Env \<Rightarrow> string \<Rightarrow> ResolvedActionContext \<Rightarrow> string \<Rightarrow> 'w State \<Rightarrow> (Thrown + jv option) \<times> 'w State" where
  \<comment> \<open>the constant \<open>decoration\<close> of \<open>handleSendAction\<close> and of \<open>handlePollAction\<close>\<close>
  "buildDecoration env action ctx to st =
     (case in_toolContext (ctx_input ctx) of
        Some toolContext \<Rightarrow>
          if shouldApplyCrossContextMarker env action then
            await (buildCrossContextDecoration env
                     \<lparr>dec_cfg = ctx_cfg ctx, dec_channel = ctx_channel ctx, dec_target = to,
                      dec_toolContext = toolContext, dec_accountId = ctx_accountId ctx\<rparr>) st
          else (Inr None, st)
      | None \<Rightarrow> (Inr None, st))"

definition mediaFromDirectives :: "ReplyDirectives \<Rightarrow> jv" where
  \<comment> \<open>\<open>parsed.mediaUrls?.[0] || parsed.mediaUrl || undefined\<close>\<close>
  "mediaFromDirectives parsed =
     (let first = (case rd_mediaUrls parsed of Some (u # _) \<Rightarrow> u | _ \<Rightarrow> []);
          single = (case rd_mediaUrl parsed of Some u \<Rightarrow> u | None \<Rightarrow> [])
      in if first \<noteq> [] then JStr first
         else if single \<noteq> [] then JStr single
         else JUndefined)"

definition sendActionArgs ::
  "ResolvedActionContext \<Rightarrow> Params \<Rightarrow> string \<Rightarrow> string \<Rightarrow> string option \<Rightarrow> SendActionArgs" where
  \<comment> \<open>the argument of \<open>executeSendAction\<close> in \<open>handleSendAction\<close>\<close>
  "sendActionArgs ctx params to message mediaUrl =
     \<lparr>send_cfg = ctx_cfg ctx, send_channel = ctx_channel ctx, send_params = params,
      send_accountId = ctx_accountId ctx, send_gateway = ctx_gateway ctx,
      send_toolContext = in_toolContext (ctx_input ctx), send_deps = in_deps (ctx_input ctx),
      send_dryRun = ctx_dryRun ctx,
      send_mirror =
        (case in_sessionKey (ctx_input ctx) of
           Some sessionKey \<Rightarrow>
             if sessionKey \<noteq> [] \<and> \<not> ctx_dryRun ctx
             then Some \<lparr>mirror_sessionKey = sessionKey, mirror_agentId = in_agentId (ctx_input ctx)\<rparr>
             else None
         | None \<Rightarrow> None),
      send_to = to, send_message = message,
      send_mediaUrl = (case mediaUrl of Some u \<Rightarrow> if u \<noteq> [] then Some u else None | None \<Rightarrow> None),
      send_gifPlayback = (case readBooleanParam params ''gifPlayback'' of Some b \<Rightarrow> b | None \<Rightarrow> False),
      send_bestEffort = readBooleanParam params ''bestEffort''\<rparr>"

definition prepareSend ::
  "'w Env \<Rightarrow> ResolvedActionContext \<Rightarrow> 'w State \<Rightarrow> (Thrown + SendActionArgs) \<times> 'w State" where
  \<comment> \<open>\<open>handleSendAction\<close> up to the call of \<open>executeSendAction\<close>: the argument of that call\<close>
  "prepareSend env ctx st =
     (let params = ctx_params ctx
      in case readStringParamRequired env params ''to'' of
           Inl err \<Rightarrow> (Inl err, st)
         | Inr to \<Rightarrow>
        (case readStringParam env params ''media'' (noOptions\<lparr>opt_trim := Some False\<rparr>) of
           Inl err \<Rightarrow> (Inl err, st)
         | Inr mediaHint \<Rightarrow>
        (case readStringParam env params ''message''
                (noOptions\<lparr>opt_required := Some (mediaHint = None \<or> mediaHint = Some []),
                           opt_allowEmpty := Some True\<rparr>) of
           Inl err \<Rightarrow> (Inl err, st)
         | Inr read \<Rightarrow>
             let parsed = parseReplyDirectives env (case read of Some m \<Rightarrow> m | None \<Rightarrow> []);
                 message = rd_text parsed;
                 params1 = params(''message'' \<mapsto> JStr message);
                 params2 = (case rd_replyToId parsed of
                              Some replyToId \<Rightarrow>
                                if \<not> truthy (getProp params1 ''replyTo'') \<and> replyToId \<noteq> []
                                then params1(''replyTo'' \<mapsto> JStr replyToId) else params1
                            | None \<Rightarrow> params1);
                 params3 = (if \<not> truthy (getProp params2 ''media'')
                            then params2(''media'' \<mapsto> mediaFromDirectives parsed) else params2)
             in case buildDecoration env ''send'' ctx to st of
                  (Inl err, st1) \<Rightarrow> (Inl err, st1)
                | (Inr decoration, st1) \<Rightarrow>
                    let (message1, params4) =
                          (case decoration of
                             Some d \<Rightarrow> applyCrossContextMessageDecoration env params3 message d True
                           | None \<Rightarrow> (message, params3))
                    in case readStringParam env params4 ''media'' (noOptions\<lparr>opt_trim := Some False\<rparr>) of
                         Inl err \<Rightarrow> (Inl err, st1)
                       | Inr mediaUrl \<Rightarrow> (Inr (sendActionArgs ctx params4 to message1 mediaUrl), st1))))"

definition executeSendAction ::
  "'w Env \<Rightarrow> SendActionArgs \<Rightarrow> 'w State \<Rightarrow> (Thrown + SendActionOutcome) \<times> 'w State" where
  \<comment> \<open>Modelled from the spec: \<open>executeSendAction\<close> of outbound-send-service.js, a file that
      is not among the sources. By the spec the send handler invokes the external send
      dispatch collaborator with the final message, media and flags, and a dry run only
      skips the final network dispatch (no dispatch collaborator invoked): with \<open>dryRun\<close>
      set the service reports without dispatching, otherwise it dispatches once.\<close>
  "executeSendAction env args st =
     (if send_dryRun args then (Inr (describeDryRunSend env args), st)
      else await (sendDispatch env args) (st\<lparr>calls := calls st @ [CallSendDispatch args]\<rparr>))"

definition dispatchSend ::
  "'w Env \<Rightarrow> ResolvedActionContext \<Rightarrow> SendActionArgs \<Rightarrow> 'w State
   \<Rightarrow> (Thrown + MessageActionRunResult) \<times> 'w State" where
  \<comment> \<open>\<open>handleSendAction\<close> from the call of \<open>executeSendAction\<close> on\<close>
  "dispatchSend env ctx args st =
     (case executeSendAction env args st of
        (Inl err, st1) \<Rightarrow> (Inl err, st1)
      | (Inr send, st1) \<Rightarrow>
          (Inr (RunSend \<lparr>sr_channel = ctx_channel ctx, sr_to = send_to args,
                         sr_handledBy = so_handledBy send, sr_payload = so_payload send,
                         sr_toolResult = so_toolResult send, sr_sendResult = so_sendResult send,
                         sr_dryRun = ctx_dryRun ctx\<rparr>), st1))"

definition handleSendAction ::
  "'w Env \<Rightarrow> ResolvedActionContext \<Rightarrow> 'w State \<Rightarrow> (Thrown + MessageActionRunResult) \<times> 'w State" where
  "handleSendAction env ctx st =
     (case prepareSend env ctx st of
        (Inl err, st1) \<Rightarrow> (Inl err, st1)
      | (Inr args, st1) \<Rightarrow> dispatchSend env ctx args st1)"

definition handlePollAction ::
  "'w Env \<Rightarrow> ResolvedActionContext \<Rightarrow> 'w State \<Rightarrow> (Thrown + MessageActionRunResult) \<times> 'w State" where
  "handlePollAction env ctx st =
     (let params = ctx_params ctx
      in case readStringParamRequired env params ''to'' of
           Inl err \<Rightarrow> (Inl err, st)
         | Inr to \<Rightarrow>
        (case readStringParamRequired env params ''pollQuestion'' of
           Inl err \<Rightarrow> (Inl err, st)
         | Inr question \<Rightarrow>
        (case readStringArrayParamRequired env params ''pollOption'' of
           Inl err \<Rightarrow> (Inl err, st)
         | Inr read \<Rightarrow>
             let options = (case read of Some xs \<Rightarrow> xs | None \<Rightarrow> [])
             in if length options < 2 then
                  (Inl (Error ''pollOption requires at least two values''), st)
                else
                  let allowMultiselect =
                        (case readBooleanParam params ''pollMulti'' of Some b \<Rightarrow> b | None \<Rightarrow> False)
                  in case readIntegerParam env params ''pollDurationHours'' of
                       Inl err \<Rightarrow> (Inl err, st)
                     | Inr durationHours \<Rightarrow>
                         let maxSelections = (if allowMultiselect then max 2 (length options) else 1)
                         in case buildDecoration env ''poll'' ctx to st of
                              (Inl err, st1) \<Rightarrow> (Inl err, st1)
                            | (Inr decoration, st1) \<Rightarrow>
                                let params1 =
                                      (case decoration of
                                         Some d \<Rightarrow>
                                           let base = (case getProp params ''message'' of
                                                         JStr m \<Rightarrow> m | _ \<Rightarrow> [])
                                           in snd (applyCrossContextMessageDecoration env params base d True)
                                       | None \<Rightarrow> params);
                                    args = \<lparr>poll_cfg = ctx_cfg ctx, poll_channel = ctx_channel ctx,
                                            poll_params = params1, poll_accountId = ctx_accountId ctx,
                                            poll_gateway = ctx_gateway ctx,
                                            poll_toolContext = in_toolContext (ctx_input ctx),
                                            poll_dryRun = ctx_dryRun ctx, poll_to = to,
                                            poll_question = question, poll_options = options,
                                            poll_maxSelections = maxSelections,
                                            poll_durationHours = durationHours\<rparr>
                                in case await (executePollAction env args)
                                          (st1\<lparr>calls := calls st1 @ [CallExecutePoll args]\<rparr>) of
                                     (Inl err, st2) \<Rightarrow> (Inl err, st2)
                                   | (Inr poll, st2) \<Rightarrow>
                                       (Inr (RunPoll
                                          \<lparr>pr_channel = ctx_channel ctx, pr_to = to,
                                           pr_handledBy = po_handledBy poll, pr_payload = po_payload poll,
                                           pr_toolResult = po_toolResult poll,
                                           pr_pollResult = po_pollResult poll,
                                           pr_dryRun = ctx_dryRun ctx\<rparr>), st2))))"

definition handlePluginAction ::
  "'w Env \<Rightarrow> ResolvedActionContext \<Rightarrow> 'w State \<Rightarrow> (Thrown + MessageActionRunResult) \<times> 'w State" where
  "handlePluginAction env ctx st =
     (let channel = ctx_channel ctx;
          action = in_action (ctx_input ctx)
      in if ctx_dryRun ctx then
           (Inr (RunAction
              \<lparr>ar_channel = channel, ar_action = action, ar_handledBy = ByDryRun,
               ar_payload = JObj [(''ok'', JBool True), (''dryRun'', JBool True),
                                  (''channel'', JStr channel), (''action'', JStr action)],
               ar_toolResult = None, ar_dryRun = True\<rparr>), st)
         else
           let args = \<lparr>da_channel = channel, da_action = action, da_cfg = ctx_cfg ctx,
                       da_params = ctx_params ctx, da_accountId = ctx_accountId ctx,
                       da_gateway = ctx_gateway ctx,
                       da_toolContext = in_toolContext (ctx_input ctx), da_dryRun = ctx_dryRun ctx\<rparr>
           in case await (dispatchChannelMessageAction env args)
                     (st\<lparr>calls := calls st @ [CallDispatchAction args]\<rparr>) of
                (Inl err, st1) \<Rightarrow> (Inl err, st1)
              | (Inr None, st1) \<Rightarrow>
                  (Inl (Error (''Message action '' @ action @ '' not supported for channel ''
                               @ channel @ ''.'')), st1)
              | (Inr (Some handled), st1) \<Rightarrow>
                  (Inr (RunAction
                     \<lparr>ar_channel = channel, ar_action = action, ar_handledBy = ByPlugin,
                      ar_payload = extractToolPayload env handled, ar_toolResult = Some handled,
                      ar_dryRun = ctx_dryRun ctx\<rparr>), st1))"

definition hasTarget :: "Params \<Rightarrow> bool" where
  \<comment> \<open>the constant \<open>hasTarget\<close> of \<open>runMessageAction\<close>\<close>
  "hasTarget params = (trimmedStringProp params ''to'' \<noteq> [] \<or> trimmedStringProp params ''channelId'' \<noteq> [])"

definition resolveDryRun :: "RunMessageActionParams \<Rightarrow> Params \<Rightarrow> bool" where
  \<comment> \<open>\<open>Boolean(input.dryRun ?? readBooleanParam(params, "dryRun"))\<close>\<close>
  "resolveDryRun input params =
     (case in_dryRun input of
        Some b \<Rightarrow> b
      | None \<Rightarrow> (case readBooleanParam params ''dryRun'' of Some b \<Rightarrow> b | None \<Rightarrow> False))"

definition resolveActionContext ::
  "'w Env \<Rightarrow> RunMessageActionParams \<Rightarrow> Params \<Rightarrow> 'w State
   \<Rightarrow> (Thrown + ResolvedActionContext) \<times> 'w State" where
  \<comment> \<open>\<open>runMessageAction\<close> from \<open>applyTargetToParams\<close> to \<open>resolveGateway\<close>: the context handed
      to the handler\<close>
  "resolveActionContext env input params0 st =
     (let cfg = in_cfg input;
          action = in_action input
      in case applyTargetToParams env action params0 of
           Inl err \<Rightarrow> (Inl err, st)
         | Inr params \<Rightarrow>
             if actionRequiresTarget action \<and> \<not> hasTarget params then
               (Inl (Error (''Action '' @ action @ '' requires a target.'')), st)
             else
               (case resolveChannel env cfg params st of
                  (Inl err, st1) \<Rightarrow> (Inl err, st1)
                | (Inr channel, st1) \<Rightarrow>
               (case readStringParam env params ''accountId'' noOptions of
                  Inl err \<Rightarrow> (Inl err, st1)
                | Inr read \<Rightarrow>
                    let accountId = (case read of Some a \<Rightarrow> Some a | None \<Rightarrow> in_defaultAccountId input);
                        dryRun = resolveDryRun input params
                    in case resolveActionTarget env cfg channel action params accountId st1 of
                         (Inl err, st2) \<Rightarrow> (Inl err, st2)
                       | (Inr params1, st2) \<Rightarrow>
                           (case enforceCrossContextPolicy env
                                   \<lparr>pol_channel = channel, pol_action = action, pol_args = params1,
                                    pol_toolContext = in_toolContext input, pol_cfg = cfg\<rparr> of
                              Some err \<Rightarrow> (Inl err, st2)
                            | None \<Rightarrow>
                                (Inr \<lparr>ctx_cfg = cfg, ctx_params = params1, ctx_channel = channel,
                                      ctx_accountId = accountId, ctx_dryRun = dryRun,
                                      ctx_gateway = resolveGateway input, ctx_input = input\<rparr>,
                                 st2)))))"

definition runMessageActionRest ::
  "'w Env \<Rightarrow> RunMessageActionParams \<Rightarrow> Params \<Rightarrow> 'w State
   \<Rightarrow> (Thrown + MessageActionRunResult) \<times> 'w State" where
  \<comment> \<open>\<open>runMessageAction\<close> from \<open>applyTargetToParams\<close> on: every action but broadcast\<close>
  "runMessageActionRest env input params0 st =
     (case resolveActionContext env input params0 st of
        (Inl err, st1) \<Rightarrow> (Inl err, st1)
      | (Inr ctx, st1) \<Rightarrow>
          if in_action input = ''send'' then handleSendAction env ctx st1
          else if in_action input = ''poll'' then handlePollAction env ctx st1
          else handlePluginAction env ctx st1)"

definition validateSend ::
  "'w Env \<Rightarrow> RunMessageActionParams \<Rightarrow> 'w State
   \<Rightarrow> (Thrown + ResolvedActionContext \<times> SendActionArgs) \<times> 'w State" where
  \<comment> \<open>\<open>runMessageAction\<close> at a send, up to the call of \<open>executeSendAction\<close>: the error the run
      fails with, or the context and the argument of that call\<close>
  "validateSend env input st =
     (case parseButtonsParam env (in_params input) of
        Inl err \<Rightarrow> (Inl err, st)
      | Inr params \<Rightarrow>
          (case resolveActionContext env input params st of
             (Inl err, st1) \<Rightarrow> (Inl err, st1)
           | (Inr ctx, st1) \<Rightarrow>
               (case prepareSend env ctx st1 of
                  (Inl err, st2) \<Rightarrow> (Inl err, st2)
                | (Inr args, st2) \<Rightarrow> (Inr (ctx, args), st2))))"

definition runMessageActionNonBroadcast ::
  "'w Env \<Rightarrow> RunMessageActionParams \<Rightarrow> 'w State \<Rightarrow> (Thrown + MessageActionRunResult) \<times> 'w State" where
  \<comment> \<open>\<open>runMessageAction\<close> at an input whose action is not broadcast, as the broadcast calls it\<close>
  "runMessageActionNonBroadcast env input st =
     (case parseButtonsParam env (in_params input) of
        Inl err \<Rightarrow> (Inl err, st)
      | Inr params \<Rightarrow> runMessageActionRest env input params st)"

definition errorMessage :: "'w Env \<Rightarrow> Thrown \<Rightarrow> Thrown + string" where
  \<comment> \<open>\<open>err instanceof Error ? err.message : String(err)\<close>, where \<open>String(err)\<close> may throw\<close>
  "errorMessage env err =
     (case err of Error message \<Rightarrow> Inr message | NonError v \<Rightarrow> stringOf env v)"

definition failedOutcome ::
  "'w Env \<Rightarrow> ChannelId \<Rightarrow> string \<Rightarrow> Thrown \<Rightarrow> Thrown + BroadcastOutcome" where
  \<comment> \<open>the \<open>catch\<close> clause: the outcome it pushes, or what it throws itself\<close>
  "failedOutcome env targetChannel target err =
     (case errorMessage env err of
        Inl thrown \<Rightarrow> Inl thrown
      | Inr message \<Rightarrow>
          Inr \<lparr>bo_channel = targetChannel, bo_to = target, bo_ok = False,
                bo_error = Some message, bo_result = None\<rparr>)"

definition pairResolveParams :: "RunMessageActionParams \<Rightarrow> ChannelId \<Rightarrow> string \<Rightarrow> ResolveParams" where
  \<comment> \<open>the argument of \<open>resolveChannelTarget\<close> in the loop of the broadcast\<close>
  "pairResolveParams input targetChannel target =
     \<lparr>rp_cfg = in_cfg input, rp_channel = targetChannel, rp_input = target,
      rp_accountId = None, rp_preferredKind = None\<rparr>"

definition pairSendInput ::
  "RunMessageActionParams \<Rightarrow> Params \<Rightarrow> ChannelId \<Rightarrow> ResolvedMessagingTarget
   \<Rightarrow> RunMessageActionParams" where
  \<comment> \<open>the argument of the recursive \<open>runMessageAction\<close> in the loop of the broadcast\<close>
  "pairSendInput input params targetChannel resolved =
     input\<lparr>in_action := ''send'',
           in_params := params(''channel'' \<mapsto> JStr targetChannel,
                               ''target'' \<mapsto> JStr (target_to resolved))\<rparr>"

definition broadcastPair ::
  "'w Env \<Rightarrow> RunMessageActionParams \<Rightarrow> Params \<Rightarrow> ChannelId \<Rightarrow> string \<Rightarrow> 'w State
   \<Rightarrow> (Thrown + BroadcastOutcome) \<times> 'w State" where
  \<comment> \<open>the body of the inner loop: the \<open>try\<close> statement, returning the outcome it pushes, or
      what its \<open>catch\<close> clause throws\<close>
  "broadcastPair env input params targetChannel target st =
     (case resolveChannelTarget env (pairResolveParams input targetChannel target) st of
        (Inl err, st1) \<Rightarrow> (failedOutcome env targetChannel target err, st1)
      | (Inr (ResolveFail msg _), st1) \<Rightarrow> (failedOutcome env targetChannel target (Error msg), st1)
      | (Inr (ResolveOk resolved), st1) \<Rightarrow>
          (case runMessageActionNonBroadcast env (pairSendInput input params targetChannel resolved) st1 of
             (Inl err, st2) \<Rightarrow> (failedOutcome env targetChannel target err, st2)
           | (Inr sendResult, st2) \<Rightarrow>
               (Inr \<lparr>bo_channel = targetChannel, bo_to = target_to resolved, bo_ok = True,
                     bo_error = None,
                     bo_result = (case sendResult of RunSend r \<Rightarrow> sr_sendResult r | _ \<Rightarrow> None)\<rparr>,
                st2)))"

fun broadcastTargets ::
  "'w Env \<Rightarrow> RunMessageActionParams \<Rightarrow> Params \<Rightarrow> ChannelId \<Rightarrow> string list
   \<Rightarrow> BroadcastOutcome list \<Rightarrow> 'w State \<Rightarrow> (Thrown + BroadcastOutcome list) \<times> 'w State" where
  \<comment> \<open>\<open>for (const target of rawTargets)\<close>, with \<open>results\<close> as accumulator; what a \<open>catch\<close>
      clause throws ends the loop\<close>
  "broadcastTargets env input params targetChannel [] results st = (Inr results, st)"
| "broadcastTargets env input params targetChannel (target # rest) results st =
     (case broadcastPair env input params targetChannel target st of
        (Inl thrown, st1) \<Rightarrow> (Inl thrown, st1)
      | (Inr outcome, st1) \<Rightarrow>
          broadcastTargets env input params targetChannel rest (results @ [outcome]) st1)"

fun broadcastChannels ::
  "'w Env \<Rightarrow> RunMessageActionParams \<Rightarrow> Params \<Rightarrow> ChannelId list \<Rightarrow> string list
   \<Rightarrow> BroadcastOutcome list \<Rightarrow> 'w State \<Rightarrow> (Thrown + BroadcastOutcome list) \<times> 'w State" where
  \<comment> \<open>\<open>for (const targetChannel of targetChannels)\<close>\<close>
  "broadcastChannels env input params [] rawTargets results st = (Inr results, st)"
| "broadcastChannels env input params (targetChannel # rest) rawTargets results st =
     (case broadcastTargets env input params targetChannel rawTargets results st of
        (Inl thrown, st1) \<Rightarrow> (Inl thrown, st1)
      | (Inr results1, st1) \<Rightarrow> broadcastChannels env input params rest rawTargets results1 st1)"

definition broadcastTargetChannels ::
  "'w Env \<Rightarrow> RunMessageActionParams \<Rightarrow> string option \<Rightarrow> ChannelId list \<Rightarrow> 'w State
   \<Rightarrow> (Thrown + ChannelId list) \<times> 'w State" where
  \<comment> \<open>the constant \<open>targetChannels\<close> of \<open>handleBroadcastAction\<close>\<close>
  "broadcastTargetChannels env input channelHint configured st =
     (case channelHint of
        None \<Rightarrow> (Inr configured, st)
      | Some hint \<Rightarrow>
          if hint \<noteq> [] \<and> toLowerCase (trim hint) \<noteq> ''all'' then
            (case resolveChannel env (in_cfg input) (Map.empty(''channel'' \<mapsto> JStr hint)) st of
               (Inl err, st1) \<Rightarrow> (Inl err, st1)
             | (Inr channel, st1) \<Rightarrow> (Inr [channel], st1))
          else (Inr configured, st))"

definition handleBroadcastAction ::
  "'w Env \<Rightarrow> RunMessageActionParams \<Rightarrow> Params \<Rightarrow> 'w State
   \<Rightarrow> (Thrown + MessageActionRunResult) \<times> 'w State" where
  "handleBroadcastAction env input params st =
     (if broadcastEnabled (in_cfg input) = Some False then
        (Inl (Error ''Broadcast is disabled. Set tools.message.broadcast.enabled to true.''), st)
      else
        case readStringArrayParamRequired env params ''targets'' of
          Inl err \<Rightarrow> (Inl err, st)
        | Inr read \<Rightarrow>
            let rawTargets = (case read of Some xs \<Rightarrow> xs | None \<Rightarrow> [])
            in if rawTargets = [] then
                 (Inl (Error ''Broadcast requires at least one target in --targets.''), st)
               else
                 (case readStringParam env params ''channel'' noOptions of
                    Inl err \<Rightarrow> (Inl err, st)
                  | Inr channelHint \<Rightarrow>
                 (case await (listConfiguredMessageChannels env (in_cfg input)) st of
                    (Inl err, st1) \<Rightarrow> (Inl err, st1)
                  | (Inr configured, st1) \<Rightarrow>
                      if configured = [] then
                        (Inl (Error ''Broadcast requires at least one configured channel.''), st1)
                      else
                        (case broadcastTargetChannels env input channelHint configured st1 of
                           (Inl err, st2) \<Rightarrow> (Inl err, st2)
                         | (Inr targetChannels, st2) \<Rightarrow>
                             (case broadcastChannels env input params targetChannels rawTargets [] st2 of
                                (Inl thrown, st3) \<Rightarrow> (Inl thrown, st3)
                              | (Inr results, st3) \<Rightarrow>
                                  (Inr (RunBroadcast
                                     \<lparr>br_channel = (case targetChannels of
                                                      c # _ \<Rightarrow> c | [] \<Rightarrow> ''discord''),
                                      br_handledBy = (if in_dryRun input = Some True
                                                      then ByDryRun else ByCore),
                                      br_results = results,
                                      br_dryRun = (in_dryRun input = Some True)\<rparr>), st3))))))"

definition runMessageAction ::
  "'w Env \<Rightarrow> RunMessageActionParams \<Rightarrow> 'w State \<Rightarrow> (Thrown + MessageActionRunResult) \<times> 'w State" where
  "runMessageAction env input st =
     (case parseButtonsParam env (in_params input) of
        Inl err \<Rightarrow> (Inl err, st)
      | Inr params \<Rightarrow>
          if in_action input = ''broadcast'' then handleBroadcastAction env input params st
          else runMessageActionRest env input params st)"

section \<open>A test double for the collaborators\<close>

text \<open>
  The examples run the code against stand-ins for the collaborators. The world is the
  clock, in milliseconds; every directory query and every dispatch takes one millisecond.
\<close>

definition exampleNormalizer :: Normalizer where
  \<comment> \<open>trims and lower-cases; nothing for an empty result\<close>
  "exampleNormalizer channel raw =
     (let n = toLowerCase (trim raw) in if n = [] then None else Some n)"

definition exampleLister :: "ChannelDirectoryEntry list \<Rightarrow> int DirectoryLister" where
  "exampleLister entries args w = (Inr entries, w + 1)"

definition examplePlugin :: "ChannelDirectoryEntry list \<Rightarrow> int ChannelPlugin" where
  "examplePlugin groups =
     \<lparr>directory = Some \<lparr>listPeers = Some (exampleLister []), listPeersLive = None,
                         listGroups = Some (exampleLister groups),
                         listGroupsLive = Some (exampleLister groups)\<rparr>\<rparr>"

definition exampleReadStringParam :: "Params \<Rightarrow> string \<Rightarrow> StringParamOptions \<Rightarrow> Thrown + string option" where
  "exampleReadStringParam params key options =
     (let missing = (if opt_required options = Some True
                     then Inl (Error (key @ '' required'')) else Inr None)
      in case getProp params key of
           JStr raw \<Rightarrow>
             let v = (if opt_trim options = Some False then raw else trim raw)
             in if v = [] \<and> opt_allowEmpty options \<noteq> Some True then missing else Inr (Some v)
         | _ \<Rightarrow> missing)"

definition exampleReadStringParamRequired :: "Params \<Rightarrow> string \<Rightarrow> Thrown + string" where
  "exampleReadStringParamRequired params key =
     (case exampleReadStringParam params key (noOptions\<lparr>opt_required := Some True\<rparr>) of
        Inr (Some v) \<Rightarrow> Inr v
      | Inr None \<Rightarrow> Inl (Error (key @ '' required''))
      | Inl err \<Rightarrow> Inl err)"

definition exampleReadStringArrayParam :: "Params \<Rightarrow> string \<Rightarrow> Thrown + string list option" where
  "exampleReadStringArrayParam params key =
     (case getProp params key of
        JArr vs \<Rightarrow>
          let xs = concat (map (\<lambda>v. case v of JStr s \<Rightarrow> [s] | _ \<Rightarrow> []) vs)
          in if xs = [] then Inl (Error (key @ '' required'')) else Inr (Some xs)
      | _ \<Rightarrow> Inl (Error (key @ '' required'')))"

definition exampleApplyTargetToParams :: "string \<Rightarrow> Params \<Rightarrow> Thrown + Params" where
  "exampleApplyTargetToParams action params =
     (let target = trimmedStringProp params ''target''
      in if target = [] then Inr params
         else case map_of MESSAGE_ACTION_TARGET_MODE action of
                Some ModeTo \<Rightarrow> Inr (params(''to'' \<mapsto> JStr target))
              | Some ModeChannelId \<Rightarrow> Inr (params(''channelId'' \<mapsto> JStr target))
              | _ \<Rightarrow> Inl (Error (''Action '' @ action @ '' does not accept a target.'')))"

definition exampleSelectChannel ::
  "ChannelId list \<Rightarrow> ClawdbotConfig \<Rightarrow> string option \<Rightarrow> (int, ChannelId) Async" where
  \<comment> \<open>a channel that the request names is selected, configured or not (the tests of the
      runner send to imessage with only whatsapp configured); without a name, the one
      configured channel is selected, and the error "Channel is required" is thrown when
      there is not exactly one (message.test.ts)\<close>
  "exampleSelectChannel configured cfg hint w =
     (case hint of
        Some h \<Rightarrow> (Inr h, w)
      | None \<Rightarrow>
          (case configured of
             [c] \<Rightarrow> (Inr c, w)
           | _ \<Rightarrow> (Inl (Error ''Channel is required''), w)))"

definition exampleSendDispatch :: "SendActionArgs \<Rightarrow> (int, SendActionOutcome) Async" where
  "exampleSendDispatch args w =
     (Inr \<lparr>so_handledBy = ByCore, so_payload = JObj [(''to'', JStr (send_to args))],
           so_toolResult = None, so_sendResult = Some (JStr (send_to args))\<rparr>,
      w + 1)"

definition exampleDryRunSend :: "SendActionArgs \<Rightarrow> SendActionOutcome" where
  "exampleDryRunSend args =
     \<lparr>so_handledBy = ByCore,
      so_payload = JObj [(''to'', JStr (send_to args)), (''dryRun'', JBool True)],
      so_toolResult = None, so_sendResult = None\<rparr>"

definition bareObject :: jv where
  \<comment> \<open>\<open>{ __proto__: null }\<close>, as \<open>Object.create(null)\<close> returns it: an object without prototype,
      hence without \<open>toString\<close> and \<open>valueOf\<close>\<close>
  "bareObject = JObj [(''__proto__'', JNull)]"

fun showNat :: "nat \<Rightarrow> string" where
  "showNat n =
     (if n < 10 then [char_of (48 + n)] else showNat (n div 10) @ [char_of (48 + n mod 10)])"

definition showInt :: "int \<Rightarrow> string" where
  "showInt i = (if i < 0 then ''-'' @ showNat (nat (- i)) else showNat (nat i))"

definition joinStrings :: "(Thrown + string) list \<Rightarrow> Thrown + string" where
  \<comment> \<open>the items separated by commas; the first item that throws makes the whole throw\<close>
  "joinStrings items =
     (case foldr (\<lambda>item rest.
                    case item of
                      Inl thrown \<Rightarrow> Inl thrown
                    | Inr text \<Rightarrow>
                        (case rest of
                           Inl thrown \<Rightarrow> Inl thrown
                         | Inr None \<Rightarrow> Inr (Some text)
                         | Inr (Some others) \<Rightarrow> Inr (Some (text @ '','' @ others))))
             items (Inr None) of
        Inl thrown \<Rightarrow> Inl thrown
      | Inr None \<Rightarrow> Inr []
      | Inr (Some text) \<Rightarrow> Inr text)"

fun exampleStringOf :: "jv \<Rightarrow> Thrown + string" where
  \<comment> \<open>\<open>String(v)\<close>; the numbers are integers\<close>
  "exampleStringOf JUndefined = Inr ''undefined''"
| "exampleStringOf JNull = Inr ''null''"
| "exampleStringOf (JBool b) = Inr (if b then ''true'' else ''false'')"
| "exampleStringOf (JNum n) = Inr (showInt n)"
| "exampleStringOf (JStr s) = Inr s"
| "exampleStringOf (JArr vs) =
     joinStrings (map (\<lambda>v. if v = JUndefined \<or> v = JNull then Inr [] else exampleStringOf v) vs)"
| "exampleStringOf (JObj props) =
     (if map_of props ''__proto__'' = Some JNull
      then Inl (Error ''Cannot convert object to primitive value'')
      else Inr ''[object Object]'')"

definition exampleExecutePoll :: "PollActionArgs \<Rightarrow> (int, PollActionOutcome) Async" where
  "exampleExecutePoll args w =
     (Inr \<lparr>po_handledBy = ByCore, po_payload = JObj [(''to'', JStr (poll_to args))],
           po_toolResult = None, po_pollResult = None\<rparr>, w + 1)"

definition exampleEnv :: "(ChannelId \<rightharpoonup> ChannelDirectoryEntry list) \<Rightarrow> ChannelId list \<Rightarrow> int Env" where
  \<comment> \<open>the group directory of each channel that has a plugin, and the configured channels\<close>
  "exampleEnv directories configured =
     \<lparr>dateNow = (\<lambda>w. w),
      getChannelPlugin = (\<lambda>channel. map_option examplePlugin (directories channel)),
      normalizeTargetForProvider = exampleNormalizer,
      normalizeChannelTargetInput = trim,
      jsonParse = (\<lambda>text. if text = ''[]'' then Some (JArr []) else None),
      stringOf = exampleStringOf,
      readStringParam = exampleReadStringParam,
      readStringParamRequired = exampleReadStringParamRequired,
      readStringArrayParamRequired = exampleReadStringArrayParam,
      readIntegerParam = (\<lambda>params key. case getProp params key of
                                          JNum n \<Rightarrow> Inr (Some n) | _ \<Rightarrow> Inr None),
      parseReplyDirectives = (\<lambda>text. \<lparr>rd_text = text, rd_replyToId = None,
                                         rd_mediaUrls = None, rd_mediaUrl = None\<rparr>),
      applyTargetToParams = exampleApplyTargetToParams,
      enforceCrossContextPolicy = (\<lambda>args. None),
      shouldApplyCrossContextMarker = (\<lambda>action. False),
      applyCrossContextDecoration =
        (\<lambda>message decoration preferEmbeds. \<lparr>applied_message = message, applied_embeds = None\<rparr>),
      buildCrossContextDecoration = (\<lambda>args w. (Inr None, w)),
      listConfiguredMessageChannels = (\<lambda>cfg w. (Inr configured, w)),
      resolveMessageChannelSelection = exampleSelectChannel configured,
      sendDispatch = exampleSendDispatch,
      describeDryRunSend = exampleDryRunSend,
      executePollAction = exampleExecutePoll,
      dispatchChannelMessageAction = (\<lambda>args w. (Inr None, w + 1))\<rparr>"

definition exampleConfig :: "nat \<Rightarrow> ClawdbotConfig" where
  "exampleConfig r = \<lparr>ref = r, broadcastEnabled = None\<rparr>"

definition exampleGroup :: "string \<Rightarrow> string \<Rightarrow> ChannelDirectoryEntry" where
  "exampleGroup ident name =
     \<lparr>entry_kind = Group, entry_id = ident, entry_name = Some name, entry_handle = None\<rparr>"

definition exampleDirectories :: "ChannelId \<rightharpoonup> ChannelDirectoryEntry list" where
  "exampleDirectories =
     [''discord'' \<mapsto> [exampleGroup ''100001'' ''general'', exampleGroup ''100002'' ''general-chat'',
                       exampleGroup ''100003'' ''ops''],
      ''slack'' \<mapsto> [exampleGroup ''C00000001'' ''ops'']]"

definition exampleInput :: "string \<Rightarrow> Params \<Rightarrow> bool option \<Rightarrow> RunMessageActionParams" where
  "exampleInput action params dry =
     \<lparr>in_cfg = exampleConfig 1, in_action = action, in_params = params,
      in_defaultAccountId = None, in_toolContext = None, in_gateway = None, in_deps = None,
      in_sessionKey = None, in_agentId = None, in_dryRun = dry\<rparr>"

definition testEnv :: "int Env" where
  "testEnv = exampleEnv exampleDirectories [''discord'', ''slack'']"

definition emptyDirectoryEnv :: "int Env" where
  \<comment> \<open>a discord plugin whose directory lists no group\<close>
  "emptyDirectoryEnv = exampleEnv [''discord'' \<mapsto> []] [''discord'']"

definition exampleResolveParams :: "nat \<Rightarrow> ChannelId \<Rightarrow> string \<Rightarrow> ResolveParams" where
  "exampleResolveParams r channel input =
     \<lparr>rp_cfg = exampleConfig r, rp_channel = channel, rp_input = input,
      rp_accountId = None, rp_preferredKind = None\<rparr>"

definition exampleLookup :: GetDirectoryParams where
  "exampleLookup =
     \<lparr>gd_cfg = exampleConfig 1, gd_channel = ''discord'', gd_accountId = None, gd_kind = Group,
      gd_query = Some ''general'', gd_preferLiveOnMiss = True\<rparr>"

definition exampleCache :: "ChannelDirectoryEntry list DirectoryCache" where
  \<comment> \<open>the resolver's cache after one group was stored for discord at time 0\<close>
  "exampleCache =
     DirectoryCache_set 0 (directoryKey exampleLookup SourceCache) [exampleGroup ''100003'' ''ops'']
       (exampleConfig 1) (newDirectoryCache CACHE_TTL_MS)"

definition directoryFetchOf :: "Call \<Rightarrow> DirectoryFetch option" where
  \<comment> \<open>reads a logged call as a directory fetch, if it is one\<close>
  "directoryFetchOf c = (case c of CallDirectory f \<Rightarrow> Some f | _ \<Rightarrow> None)"

definition exampleFetch :: "DirectorySource \<Rightarrow> DirectoryFn \<Rightarrow> DirectoryFetch" where
  \<comment> \<open>a group fetch on discord for the query "general"\<close>
  "exampleFetch source invoked =
     \<lparr>fetch_source = source, fetch_kind = Group, fetch_channel = ''discord'',
      fetch_args = \<lparr>dq_cfg = exampleConfig 1, dq_accountId = None, dq_query = Some ''general''\<rparr>,
      fetch_invoked = Some invoked\<rparr>"

definition broadcastEnv :: "int Env" where
  \<comment> \<open>discord lists the groups a and b, slack lists the group a only\<close>
  "broadcastEnv =
     exampleEnv [''discord'' \<mapsto> [exampleGroup ''100001'' ''a'', exampleGroup ''100002'' ''b''],
                 ''slack'' \<mapsto> [exampleGroup ''C00000001'' ''a'']]
       [''discord'', ''slack'']"

definition broadcastParams :: Params where
  "broadcastParams = [''targets'' \<mapsto> JArr [JStr ''a'', JStr ''b''], ''message'' \<mapsto> JStr ''hi'']"

definition failingPlugin :: "int ChannelPlugin" where
  \<comment> \<open>a plugin whose group directory is out of reach\<close>
  "failingPlugin =
     \<lparr>directory = Some \<lparr>listPeers = None, listPeersLive = None,
                         listGroups = Some (\<lambda>args w. (Inl (Error ''directory unavailable''), w + 1)),
                         listGroupsLive = None\<rparr>\<rparr>"

definition failingDirectoryEnv :: "int Env" where
  \<comment> \<open>as \<open>broadcastEnv\<close>, but the directory of slack throws\<close>
  "failingDirectoryEnv =
     broadcastEnv\<lparr>getChannelPlugin :=
        (\<lambda>channel. if channel = ''slack'' then Some failingPlugin
                    else getChannelPlugin broadcastEnv channel)\<rparr>"

definition throwingPlugin :: "int ChannelPlugin" where
  \<comment> \<open>a plugin whose group directory rejects with a value that is no \<open>Error\<close>:
      \<open>throw Object.create(null)\<close>\<close>
  "throwingPlugin =
     \<lparr>directory = Some \<lparr>listPeers = None, listPeersLive = None,
                         listGroups = Some (\<lambda>args w. (Inl (NonError bareObject), w + 1)),
                         listGroupsLive = None\<rparr>\<rparr>"

definition throwingDirectoryEnv :: "int Env" where
  \<comment> \<open>as \<open>broadcastEnv\<close>, but the directory of slack throws an object without prototype\<close>
  "throwingDirectoryEnv =
     broadcastEnv\<lparr>getChannelPlugin :=
        (\<lambda>channel. if channel = ''slack'' then Some throwingPlugin
                    else getChannelPlugin broadcastEnv channel)\<rparr>"

definition dispatchedTo :: "Call \<Rightarrow> string option" where
  \<comment> \<open>reads a logged call as the dispatch of a send, giving its destination\<close>
  "dispatchedTo c = (case c of CallSendDispatch args \<Rightarrow> Some (send_to args) | _ \<Rightarrow> None)"

definition noMessageParams :: Params where
  \<comment> \<open>a broadcast with neither message nor media\<close>
  "noMessageParams = [''targets'' \<mapsto> JArr [JStr ''a'', JStr ''b'']]"

definition silentSendParams :: Params where
  \<comment> \<open>the parameters of a send with a target, and neither message nor media\<close>
  "silentSendParams = [''channel'' \<mapsto> JStr ''slack'', ''target'' \<mapsto> JStr ''ops'']"

definition helloSendParams :: Params where
  "helloSendParams = silentSendParams(''message'' \<mapsto> JStr ''hi'')"

definition flaggedSendParams :: Params where
  \<comment> \<open>a send that asks for a dry run through its parameters\<close>
  "flaggedSendParams = helloSendParams(''dryRun'' \<mapsto> JStr ''true'')"

section \<open>The directory cache\<close>

lemma resetIfConfigChanged_same:
  "lastConfigRef c = Some (ref cfg) \<Longrightarrow> resetIfConfigChanged cfg c = c"
  by (simp add: resetIfConfigChanged_def)

lemma resetIfConfigChanged_other:
  "lastConfigRef c = Some r \<Longrightarrow> r \<noteq> ref cfg \<Longrightarrow>
   resetIfConfigChanged cfg c = c\<lparr>cache := Map.empty, lastConfigRef := Some (ref cfg)\<rparr>"
  by (simp add: resetIfConfigChanged_def)

lemma resetIfConfigChanged_fields:
  "lastConfigRef (resetIfConfigChanged cfg c) = Some (ref cfg)"
  "ttlMs (resetIfConfigChanged cfg c) = ttlMs c"
  by (simp_all add: resetIfConfigChanged_def Let_def split: option.splits)

lemma set_fields:
  "lastConfigRef (DirectoryCache_set now key v cfg c) = Some (ref cfg)"
  "ttlMs (DirectoryCache_set now key v cfg c) = ttlMs c"
  "cache (DirectoryCache_set now key v cfg c) key = Some \<lparr>entryValue = v, fetchedAt = now\<rparr>"
  by (simp_all add: DirectoryCache_set_def Let_def resetIfConfigChanged_fields)

lemma get_fresh:
  assumes "lastConfigRef c = Some (ref cfg)" "cache c key = Some e" "now - fetchedAt e \<le> ttlMs c"
  shows "DirectoryCache_get now key cfg c = (Some (entryValue e), c)"
  using assms by (simp add: DirectoryCache_get_def resetIfConfigChanged_same)


lemma get_result_fields:
  assumes "DirectoryCache_get now key cfg c = (r, c')"
  shows "lastConfigRef c' = Some (ref cfg)" "ttlMs c' = ttlMs c"
    "r = None \<Longrightarrow> cache c' key = None"
  using assms
  by (auto simp: DirectoryCache_get_def Let_def resetIfConfigChanged_fields
           split: option.splits if_splits)

lemma directoryKey_sources: "directoryKey p SourceCache \<noteq> directoryKey p SourceLive"
  by (simp add: directoryKey_def buildDirectoryCacheKey_def sourceString_def)

section \<open>Directory lookups\<close>

lemma await_fields:
  "await f st = (r, st') \<Longrightarrow> directoryCache st' = directoryCache st \<and> calls st' = calls st"
  by (auto simp: await_def split: prod.splits)

lemma listDirectoryEntries_effect:
  assumes "listDirectoryEntries env lp st = (r, st')"
  shows "directoryCache st' = directoryCache st"
    and "\<exists>f. calls st' = calls st @ [CallDirectory f] \<and> fetch_source f = ld_source lp
           \<and> fetch_kind f = ld_kind lp \<and> fetch_channel f = ld_channel lp
           \<and> fetch_invoked f
               = map_option fst (pickLister env (ld_channel lp) (ld_kind lp) (ld_source lp = SourceLive))"
    and "r = Inr entries \<Longrightarrow> entries \<noteq> [] \<Longrightarrow>
           pickLister env (ld_channel lp) (ld_kind lp) (ld_source lp = SourceLive) \<noteq> None"
  using assms
  by (auto simp: listDirectoryEntries_def Let_def split: option.splits prod.splits
           dest!: await_fields)

lemma cacheGet_miss:
  assumes "cacheGet env key cfg st = (None, st1)"
  shows "cache (directoryCache st1) key = None"
    "lastConfigRef (directoryCache st1) = Some (ref cfg)"
    "ttlMs (directoryCache st1) = ttlMs (directoryCache st)"
    "world st1 = world st" "calls st1 = calls st"
  using assms get_result_fields[of "dateNow env (world st)" key cfg "directoryCache st"]
  by (auto simp: cacheGet_def split: prod.splits)


lemma cacheGet_fresh:
  assumes "lastConfigRef (directoryCache st) = Some (ref cfg)"
    and "cache (directoryCache st) key = Some e"
    and "dateNow env (world st) - fetchedAt e \<le> ttlMs (directoryCache st)"
  shows "cacheGet env key cfg st = (Some (entryValue e), st)"
  using assms by (simp add: cacheGet_def get_fresh)

lemma getDirectoryEntries_hit:
  assumes "cacheGet env (directoryKey p SourceCache) (gd_cfg p) st = (Some v, st1)"
  shows "getDirectoryEntries env p st = (Inr v, st1)"
  using assms by (simp add: getDirectoryEntries_def)

lemma getDirectoryEntries_miss_calls:
  assumes "cacheGet env (directoryKey p SourceCache) (gd_cfg p) st = (None, st1)"
  shows "\<exists>f rest. calls (snd (getDirectoryEntries env p st)) = calls st @ CallDirectory f # rest
            \<and> fetch_source f = SourceCache
            \<and> fetch_invoked f = map_option fst (pickLister env (gd_channel p) (gd_kind p) False)"
proof -
  obtain r st2 where l: "listDirectoryEntries env (listParams p SourceCache) st1 = (r, st2)"
    by (cases "listDirectoryEntries env (listParams p SourceCache) st1")
  from listDirectoryEntries_effect(2)[OF l] obtain f where
    f: "calls st2 = calls st1 @ [CallDirectory f]" "fetch_source f = SourceCache"
       "fetch_invoked f = map_option fst (pickLister env (gd_channel p) (gd_kind p) False)"
    by (auto simp: listParams_def)
  have c1: "calls st1 = calls st" using cacheGet_miss(5)[OF assms] .
  show ?thesis
  proof (cases r)
    case (Inl e)
    then show ?thesis using assms l f c1 by (auto simp: getDirectoryEntries_def)
  next
    case (Inr entries)
    show ?thesis
    proof (cases "length entries > 0 \<or> \<not> gd_preferLiveOnMiss p")
      case True
      then show ?thesis using assms l f c1 Inr
        by (auto simp: getDirectoryEntries_def cacheSet_def)
    next
      case False
      obtain r3 st3 where l3: "listDirectoryEntries env (listParams p SourceLive) st2 = (r3, st3)"
        by (cases "listDirectoryEntries env (listParams p SourceLive) st2")
      from listDirectoryEntries_effect(2)[OF l3] obtain g where
        g: "calls st3 = calls st2 @ [CallDirectory g]" by auto
      show ?thesis using assms l f c1 Inr False l3 g
        by (cases r3) (auto simp: getDirectoryEntries_def cacheSet_def Let_def)
    qed
  qed
qed

lemma resolveMatch_ambiguous:
  assumes "1 < length (filter (\<lambda>e. matchesDirectoryEntry nz ch e q) entries)"
  shows "resolveMatch nz ch entries q
           = MatchAmbiguous (filter (\<lambda>e. matchesDirectoryEntry nz ch e q) entries)"
proof -
  obtain a b rest where "filter (\<lambda>e. matchesDirectoryEntry nz ch e q) entries = a # b # rest"
    using assms
    by (cases "filter (\<lambda>e. matchesDirectoryEntry nz ch e q) entries" rule: remdups_adj.cases) auto
  then show ?thesis by (simp add: resolveMatch_def)
qed

section \<open>Ambiguous targets\<close>

text \<open>
  Claim C1. Whenever \<open>resolveMessagingTarget\<close> looks the target up in the directory (the
  input is not empty and does not look like an identifier) and more than one of the
  entries that the lookup returns matches the query, the result is the failure
  "Ambiguous target", and its candidates are all the matching entries, in the order of
  the entries returned; it is never a success.
\<close>

theorem ambiguous_lists_all_matches:
  assumes raw: "normalizeChannelTargetInput env (rp_input p) = raw"
    and nonempty: "raw \<noteq> []"
    and noid: "\<not> looksLikeId (rp_channel p)
                 (case normalizeTargetForProvider env (rp_channel p) raw of
                    Some n \<Rightarrow> n | None \<Rightarrow> raw)"
    and lookup: "getDirectoryEntries env (directoryLookupParams p raw) st = (Inr entries, st1)"
    and matches: "matches = filter (\<lambda>entry. matchesDirectoryEntry (normalizeTargetForProvider env)
                                        (rp_channel p) entry (stripTargetPrefixes raw)) entries"
    and many: "1 < length matches"
  shows \<open>resolveMessagingTarget env p st =
           (Inr (ResolveFail
                   (''Ambiguous target "'' @ raw @ ''". Provide a unique name or an explicit id.'')
                   (Some matches)), st1)\<close>
proof -
  have "resolveMatch (normalizeTargetForProvider env) (rp_channel p) entries (stripTargetPrefixes raw)
          = MatchAmbiguous matches"
    using many unfolding matches by (rule resolveMatch_ambiguous)
  then show ?thesis
    using raw nonempty noid lookup by (simp add: resolveMessagingTarget_def Let_def)
qed

lemma general_input: "normalizeChannelTargetInput testEnv (rp_input (exampleResolveParams 1 ''discord'' ''general''))
                        = ''general''"
  by code_simp

lemma general_not_id:
  "\<not> looksLikeId (rp_channel (exampleResolveParams 1 ''discord'' ''general''))
       (case normalizeTargetForProvider testEnv
               (rp_channel (exampleResolveParams 1 ''discord'' ''general'')) ''general'' of
          Some n \<Rightarrow> n | None \<Rightarrow> ''general'')"
  by code_simp

lemma general_lookup:
  "fst (getDirectoryEntries testEnv
          (directoryLookupParams (exampleResolveParams 1 ''discord'' ''general'') ''general'')
          (initialState 0))
     = Inr [exampleGroup ''100001'' ''general'', exampleGroup ''100002'' ''general-chat'',
            exampleGroup ''100003'' ''ops'']"
  by code_simp

lemma general_matches:
  "[exampleGroup ''100001'' ''general'', exampleGroup ''100002'' ''general-chat'']
     = filter (\<lambda>entry. matchesDirectoryEntry (normalizeTargetForProvider testEnv)
                 (rp_channel (exampleResolveParams 1 ''discord'' ''general'')) entry
                 (stripTargetPrefixes ''general''))
         [exampleGroup ''100001'' ''general'', exampleGroup ''100002'' ''general-chat'',
          exampleGroup ''100003'' ''ops'']"
  by code_simp

theorem ambiguous_lists_all_matches_witness:
  \<open>fst (resolveMessagingTarget testEnv (exampleResolveParams 1 ''discord'' ''general'') (initialState 0))
     = Inr (ResolveFail ''Ambiguous target "general". Provide a unique name or an explicit id.''
              (Some [exampleGroup ''100001'' ''general'', exampleGroup ''100002'' ''general-chat'']))\<close>
proof -
  have lookup:
    "getDirectoryEntries testEnv
       (directoryLookupParams (exampleResolveParams 1 ''discord'' ''general'') ''general'')
       (initialState 0)
     = (Inr [exampleGroup ''100001'' ''general'', exampleGroup ''100002'' ''general-chat'',
             exampleGroup ''100003'' ''ops''],
        snd (getDirectoryEntries testEnv
               (directoryLookupParams (exampleResolveParams 1 ''discord'' ''general'') ''general'')
               (initialState 0)))"
    using general_lookup by (simp add: prod_eq_iff)
  show ?thesis
    using ambiguous_lists_all_matches[OF general_input _ general_not_id lookup general_matches]
    by simp
qed

section \<open>Inputs that look like identifiers\<close>

text \<open>
  Claim C4. When the input is not empty after \<open>normalizeChannelTargetInput\<close> and its
  normalized form satisfies \<open>looksLikeId\<close> for the channel, \<open>resolveMessagingTarget\<close>
  returns a success whose source is \<open>normalized\<close> and leaves the state as it was: the
  cache is not read, no directory query of either source is made, and the world is
  untouched.
\<close>

theorem normalized_skips_directory:
  assumes raw: "normalizeChannelTargetInput env (rp_input p) = raw"
    and nonempty: "raw \<noteq> []"
    and norm: "normalized = (case normalizeTargetForProvider env (rp_channel p) raw of
                               Some n \<Rightarrow> n | None \<Rightarrow> raw)"
    and ident: "looksLikeId (rp_channel p) normalized"
  shows "resolveMessagingTarget env p st =
           (Inr (ResolveOk \<lparr>target_to = preserveTargetCase (rp_channel p) raw normalized,
                            target_kind = detectTargetKind raw (rp_preferredKind p),
                            target_display = Some (stripTargetPrefixes raw),
                            target_source = Normalized\<rparr>), st)"
  using assms by (simp add: resolveMessagingTarget_def Let_def)

lemma snowflake_input:
  "normalizeChannelTargetInput testEnv (rp_input (exampleResolveParams 1 ''discord'' '' 123456789''))
     = ''123456789''"
  by code_simp

lemma snowflake_normalized:
  "''123456789'' = (case normalizeTargetForProvider testEnv
                           (rp_channel (exampleResolveParams 1 ''discord'' '' 123456789''))
                           ''123456789'' of
                      Some n \<Rightarrow> n | None \<Rightarrow> ''123456789'')"
  by code_simp

lemma snowflake_is_id:
  "looksLikeId (rp_channel (exampleResolveParams 1 ''discord'' '' 123456789'')) ''123456789''"
  by code_simp

lemma snowflake_target:
  "preserveTargetCase (rp_channel (exampleResolveParams 1 ''discord'' '' 123456789''))
     ''123456789'' ''123456789'' = ''123456789''"
  "detectTargetKind ''123456789''
     (rp_preferredKind (exampleResolveParams 1 ''discord'' '' 123456789'')) = KindGroup"
  "stripTargetPrefixes ''123456789'' = ''123456789''"
  by code_simp+

theorem normalized_skips_directory_witness:
  "resolveMessagingTarget testEnv (exampleResolveParams 1 ''discord'' '' 123456789'') (initialState 0)
     = (Inr (ResolveOk \<lparr>target_to = ''123456789'', target_kind = KindGroup,
                        target_display = Some ''123456789'', target_source = Normalized\<rparr>),
        initialState 0)"
proof -
  have nonempty: "''123456789'' \<noteq> []" by simp
  show ?thesis
    using normalized_skips_directory[OF snowflake_input nonempty snowflake_normalized snowflake_is_id,
            of "initialState 0"]
    by (simp only: snowflake_target)
qed

section \<open>Time to live\<close>



section \<open>What a lookup stores\<close>

lemma cacheSet_fields:
  "cache (directoryCache (cacheSet env key v cfg st)) key
     = Some \<lparr>entryValue = v, fetchedAt = dateNow env (world st)\<rparr>"
  "lastConfigRef (directoryCache (cacheSet env key v cfg st)) = Some (ref cfg)"
  "ttlMs (directoryCache (cacheSet env key v cfg st)) = ttlMs (directoryCache st)"
  "calls (cacheSet env key v cfg st) = calls st"
  "world (cacheSet env key v cfg st) = world st"
  by (simp_all add: cacheSet_def set_fields)

lemma cacheSet_other:
  assumes "lastConfigRef (directoryCache st) = Some (ref cfg)" "key' \<noteq> key"
  shows "cache (directoryCache (cacheSet env key v cfg st)) key' = cache (directoryCache st) key'"
  using assms by (simp add: cacheSet_def DirectoryCache_set_def resetIfConfigChanged_same Let_def)

lemma getDirectoryEntries_keep:
  assumes miss: "cacheGet env (directoryKey p SourceCache) (gd_cfg p) st = (None, st1)"
    and fetch: "listDirectoryEntries env (listParams p SourceCache) st1 = (Inr entries, st2)"
    and kept: "entries \<noteq> [] \<or> \<not> gd_preferLiveOnMiss p"
  shows "getDirectoryEntries env p st
           = (Inr entries, cacheSet env (directoryKey p SourceCache) entries (gd_cfg p) st2)"
  using assms by (auto simp: getDirectoryEntries_def)

lemma getDirectoryEntries_live:
  assumes miss: "cacheGet env (directoryKey p SourceCache) (gd_cfg p) st = (None, st1)"
    and fetch: "listDirectoryEntries env (listParams p SourceCache) st1 = (Inr [], st2)"
    and escalate: "gd_preferLiveOnMiss p"
    and live: "listDirectoryEntries env (listParams p SourceLive) st2 = (Inr liveEntries, st3)"
  shows "getDirectoryEntries env p st
           = (Inr liveEntries, cacheSet env (directoryKey p SourceLive) liveEntries (gd_cfg p) st3)"
  using assms by (auto simp: getDirectoryEntries_def Let_def)

text \<open>
  Claim C8, as the code has it. A lookup that misses the cache stores the entries it
  fetched under the cache-source key when there is at least one entry or live escalation
  is off, and then makes no live query. When the fetch returns no entry and live
  escalation is on, it makes exactly one live query, stores that result under the
  live-source key and stores nothing under the cache-source key.
\<close>

theorem fetched_entries_cached:
  assumes miss: "cacheGet env (directoryKey p SourceCache) (gd_cfg p) st = (None, st1)"
    and fetch: "listDirectoryEntries env (listParams p SourceCache) st1 = (Inr entries, st2)"
  shows "(entries \<noteq> [] \<or> \<not> gd_preferLiveOnMiss p \<longrightarrow>
            fst (getDirectoryEntries env p st) = Inr entries
          \<and> cache (directoryCache (snd (getDirectoryEntries env p st))) (directoryKey p SourceCache)
              = Some \<lparr>entryValue = entries, fetchedAt = dateNow env (world st2)\<rparr>
          \<and> (\<exists>f. calls (snd (getDirectoryEntries env p st)) = calls st @ [CallDirectory f]
                 \<and> fetch_source f = SourceCache))
       \<and> (entries = [] \<and> gd_preferLiveOnMiss p \<longrightarrow>
            (\<forall>liveEntries st3.
               listDirectoryEntries env (listParams p SourceLive) st2 = (Inr liveEntries, st3) \<longrightarrow>
                 fst (getDirectoryEntries env p st) = Inr liveEntries
               \<and> cache (directoryCache (snd (getDirectoryEntries env p st))) (directoryKey p SourceLive)
                   = Some \<lparr>entryValue = liveEntries, fetchedAt = dateNow env (world st3)\<rparr>
               \<and> cache (directoryCache (snd (getDirectoryEntries env p st))) (directoryKey p SourceCache)
                   = None
               \<and> (\<exists>f g. calls (snd (getDirectoryEntries env p st))
                            = calls st @ [CallDirectory f, CallDirectory g]
                          \<and> fetch_source f = SourceCache \<and> fetch_source g = SourceLive)))"
proof (intro conjI impI allI)
  from listDirectoryEntries_effect(2)[OF fetch] cacheGet_miss(5)[OF miss]
  obtain f where f: "calls st2 = calls st @ [CallDirectory f]" "fetch_source f = SourceCache"
    by (auto simp: listParams_def)
  {
    assume kept: "entries \<noteq> [] \<or> \<not> gd_preferLiveOnMiss p"
    note g = getDirectoryEntries_keep[OF miss fetch kept]
    show "fst (getDirectoryEntries env p st) = Inr entries" by (simp add: g)
    show "cache (directoryCache (snd (getDirectoryEntries env p st))) (directoryKey p SourceCache)
              = Some \<lparr>entryValue = entries, fetchedAt = dateNow env (world st2)\<rparr>"
      by (simp add: g cacheSet_fields)
    show "\<exists>f. calls (snd (getDirectoryEntries env p st)) = calls st @ [CallDirectory f]
                 \<and> fetch_source f = SourceCache"
      using f by (simp add: g cacheSet_fields)
  }
  {
    fix liveEntries st3
    assume empty: "entries = [] \<and> gd_preferLiveOnMiss p"
      and live: "listDirectoryEntries env (listParams p SourceLive) st2 = (Inr liveEntries, st3)"
    from fetch empty have fetch0: "listDirectoryEntries env (listParams p SourceCache) st1 = (Inr [], st2)"
      by simp
    note g = getDirectoryEntries_live[OF miss fetch0 _ live]
    from listDirectoryEntries_effect(2)[OF live]
    obtain h where h: "calls st3 = calls st2 @ [CallDirectory h]" "fetch_source h = SourceLive"
      by (auto simp: listParams_def)
    have dc: "directoryCache st3 = directoryCache st1"
      using listDirectoryEntries_effect(1)[OF live] listDirectoryEntries_effect(1)[OF fetch] by simp
    show "fst (getDirectoryEntries env p st) = Inr liveEntries" using empty by (simp add: g)
    show "cache (directoryCache (snd (getDirectoryEntries env p st))) (directoryKey p SourceLive)
                   = Some \<lparr>entryValue = liveEntries, fetchedAt = dateNow env (world st3)\<rparr>"
      using empty by (simp add: g cacheSet_fields)
    show "cache (directoryCache (snd (getDirectoryEntries env p st))) (directoryKey p SourceCache) = None"
      using empty cacheGet_miss(1,2)[OF miss] dc directoryKey_sources[of p]
      by (simp add: g cacheSet_other)
    show "\<exists>f g. calls (snd (getDirectoryEntries env p st))
                            = calls st @ [CallDirectory f, CallDirectory g]
                          \<and> fetch_source f = SourceCache \<and> fetch_source g = SourceLive"
      using empty f h by (simp add: g cacheSet_fields)
  }
qed

lemma full_miss:
  "fst (cacheGet testEnv (directoryKey exampleLookup SourceCache) (gd_cfg exampleLookup)
          (initialState 0)) = None"
  by code_simp

lemma full_fetch:
  "fst (listDirectoryEntries testEnv (listParams exampleLookup SourceCache)
          (snd (cacheGet testEnv (directoryKey exampleLookup SourceCache) (gd_cfg exampleLookup)
                  (initialState 0))))
     = Inr [exampleGroup ''100001'' ''general'', exampleGroup ''100002'' ''general-chat'',
            exampleGroup ''100003'' ''ops'']"
  by code_simp

lemma full_time:
  "dateNow testEnv (world (snd (listDirectoryEntries testEnv (listParams exampleLookup SourceCache)
          (snd (cacheGet testEnv (directoryKey exampleLookup SourceCache) (gd_cfg exampleLookup)
                  (initialState 0)))))) = 1"
  by code_simp

lemma empty_miss:
  "fst (cacheGet emptyDirectoryEnv (directoryKey exampleLookup SourceCache) (gd_cfg exampleLookup)
          (initialState 0)) = None"
  by code_simp

lemma empty_fetch:
  "fst (listDirectoryEntries emptyDirectoryEnv (listParams exampleLookup SourceCache)
          (snd (cacheGet emptyDirectoryEnv (directoryKey exampleLookup SourceCache)
                  (gd_cfg exampleLookup) (initialState 0)))) = Inr []"
  by code_simp

lemma empty_live:
  "fst (listDirectoryEntries emptyDirectoryEnv (listParams exampleLookup SourceLive)
          (snd (listDirectoryEntries emptyDirectoryEnv (listParams exampleLookup SourceCache)
             (snd (cacheGet emptyDirectoryEnv (directoryKey exampleLookup SourceCache)
                  (gd_cfg exampleLookup) (initialState 0)))))) = Inr []"
  by code_simp

lemma empty_time:
  "dateNow emptyDirectoryEnv (world (snd (listDirectoryEntries emptyDirectoryEnv (listParams exampleLookup SourceLive)
          (snd (listDirectoryEntries emptyDirectoryEnv (listParams exampleLookup SourceCache)
             (snd (cacheGet emptyDirectoryEnv (directoryKey exampleLookup SourceCache)
                  (gd_cfg exampleLookup) (initialState 0)))))))) = 2"
  by code_simp

lemma pair_of_fst: "fst x = a \<Longrightarrow> x = (a, snd x)"
  by (simp add: prod_eq_iff)

theorem fetched_entries_cached_witness:
  "(fst (getDirectoryEntries testEnv exampleLookup (initialState 0))
      = Inr [exampleGroup ''100001'' ''general'', exampleGroup ''100002'' ''general-chat'',
             exampleGroup ''100003'' ''ops'']
    \<and> cache (directoryCache (snd (getDirectoryEntries testEnv exampleLookup (initialState 0))))
        (directoryKey exampleLookup SourceCache)
      = Some \<lparr>entryValue = [exampleGroup ''100001'' ''general'', exampleGroup ''100002'' ''general-chat'',
                              exampleGroup ''100003'' ''ops''], fetchedAt = 1\<rparr>
    \<and> (\<exists>f. calls (snd (getDirectoryEntries testEnv exampleLookup (initialState 0))) = [CallDirectory f]
           \<and> fetch_source f = SourceCache))
   \<and> (fst (getDirectoryEntries emptyDirectoryEnv exampleLookup (initialState 0)) = Inr []
    \<and> cache (directoryCache (snd (getDirectoryEntries emptyDirectoryEnv exampleLookup (initialState 0))))
        (directoryKey exampleLookup SourceLive) = Some \<lparr>entryValue = [], fetchedAt = 2\<rparr>
    \<and> cache (directoryCache (snd (getDirectoryEntries emptyDirectoryEnv exampleLookup (initialState 0))))
        (directoryKey exampleLookup SourceCache) = None
    \<and> (\<exists>f g. calls (snd (getDirectoryEntries emptyDirectoryEnv exampleLookup (initialState 0)))
                = [CallDirectory f, CallDirectory g]
              \<and> fetch_source f = SourceCache \<and> fetch_source g = SourceLive))"
proof -
  have escalates: "gd_preferLiveOnMiss exampleLookup" by (simp add: exampleLookup_def)
  have start: "calls (initialState (0::int)) = []" by (simp add: initialState_def)
  have nonempty: "[exampleGroup ''100001'' ''general'', exampleGroup ''100002'' ''general-chat'',
             exampleGroup ''100003'' ''ops''] \<noteq> []" by simp
  from fetched_entries_cached[OF pair_of_fst[OF full_miss] pair_of_fst[OF full_fetch]] nonempty
  have full: "fst (getDirectoryEntries testEnv exampleLookup (initialState 0))
      = Inr [exampleGroup ''100001'' ''general'', exampleGroup ''100002'' ''general-chat'',
             exampleGroup ''100003'' ''ops'']
    \<and> cache (directoryCache (snd (getDirectoryEntries testEnv exampleLookup (initialState 0))))
        (directoryKey exampleLookup SourceCache)
      = Some \<lparr>entryValue = [exampleGroup ''100001'' ''general'', exampleGroup ''100002'' ''general-chat'',
                              exampleGroup ''100003'' ''ops''], fetchedAt = 1\<rparr>
    \<and> (\<exists>f. calls (snd (getDirectoryEntries testEnv exampleLookup (initialState 0))) = [CallDirectory f]
           \<and> fetch_source f = SourceCache)"
    unfolding full_time start append_Nil by blast
  from fetched_entries_cached[OF pair_of_fst[OF empty_miss] pair_of_fst[OF empty_fetch]]
    escalates pair_of_fst[OF empty_live]
  have empty: "fst (getDirectoryEntries emptyDirectoryEnv exampleLookup (initialState 0)) = Inr []
    \<and> cache (directoryCache (snd (getDirectoryEntries emptyDirectoryEnv exampleLookup (initialState 0))))
        (directoryKey exampleLookup SourceLive) = Some \<lparr>entryValue = [], fetchedAt = 2\<rparr>
    \<and> cache (directoryCache (snd (getDirectoryEntries emptyDirectoryEnv exampleLookup (initialState 0))))
        (directoryKey exampleLookup SourceCache) = None
    \<and> (\<exists>f g. calls (snd (getDirectoryEntries emptyDirectoryEnv exampleLookup (initialState 0)))
                = [CallDirectory f, CallDirectory g]
              \<and> fetch_source f = SourceCache \<and> fetch_source g = SourceLive)"
    unfolding empty_time[symmetric] start append_Nil by blast
  show ?thesis using full empty by (rule conjI)
qed


text \<open>
  Claim C8 as stated fails: with a directory that lists no group and live escalation on,
  the lookup misses the cache, the fetch returns no entry, and afterwards nothing is
  stored under the cache-source key.
\<close>

theorem empty_fetch_not_cached_counterexample:
  "fst (cacheGet emptyDirectoryEnv (directoryKey exampleLookup SourceCache)
              (gd_cfg exampleLookup) (initialState 0)) = None
   \<and> fst (listDirectoryEntries emptyDirectoryEnv (listParams exampleLookup SourceCache)
           (snd (cacheGet emptyDirectoryEnv (directoryKey exampleLookup SourceCache)
              (gd_cfg exampleLookup) (initialState 0)))) = Inr []
   \<and> cache (directoryCache (snd (getDirectoryEntries emptyDirectoryEnv exampleLookup (initialState 0))))
        (directoryKey exampleLookup SourceCache) = None"
  by code_simp

section \<open>Configuration identity\<close>

lemma resolve_state:
  assumes "normalizeChannelTargetInput env (rp_input p) = raw" "raw \<noteq> []"
    "\<not> looksLikeId (rp_channel p)
        (case normalizeTargetForProvider env (rp_channel p) raw of Some n \<Rightarrow> n | None \<Rightarrow> raw)"
  shows "snd (resolveMessagingTarget env p st) = snd (getDirectoryEntries env (directoryLookupParams p raw) st)"
  using assms
  by (auto simp: resolveMessagingTarget_def Let_def split: prod.splits sum.splits MatchResult.splits)

lemma resolve_without_lookup:
  assumes "normalizeChannelTargetInput env (rp_input p) = raw"
    "raw = [] \<or> looksLikeId (rp_channel p)
        (case normalizeTargetForProvider env (rp_channel p) raw of Some n \<Rightarrow> n | None \<Rightarrow> raw)"
  shows "snd (resolveMessagingTarget env p st) = st"
  using assms by (auto simp: resolveMessagingTarget_def Let_def)

lemma cacheGet_other_config:
  assumes "lastConfigRef (directoryCache st) = Some seen" "seen \<noteq> ref cfg"
  shows "fst (cacheGet env key cfg st) = None"
  using assms by (simp add: cacheGet_def DirectoryCache_get_def resetIfConfigChanged_other)

lemma directoryKey_same:
  assumes "gd_channel a = gd_channel b" "gd_accountId a = gd_accountId b" "gd_kind a = gd_kind b"
  shows "directoryKey a source = directoryKey b source"
  using assms by (simp add: directoryKey_def)

text \<open>
  Claim C6, as the code has it. A \<open>get\<close> or a \<open>set\<close> with a configuration object other
  than the one last seen first clears the whole cache. Hence, when a resolve goes through
  the directory, misses the cache and its fetch returns at least one entry, any second
  resolve for the same channel, account and kind of directory under the same configuration
  object, no later than 30 minutes after the fetch, makes no further fetch (one fetch in
  all, by a lister of the plugin), whatever target it asks for; a second resolve for the
  same channel, account and kind that goes through the directory under a different
  configuration object fetches again, through the same lister.
\<close>

theorem config_change_clears_cache:
  fixes c :: "ChannelDirectoryEntry list DirectoryCache" and env :: "'w Env"
    and p :: ResolveParams
  shows "(\<forall>seen. lastConfigRef c = Some seen \<and> seen \<noteq> ref cfg \<longrightarrow>
            DirectoryCache_get now key cfg c
              = (None, c\<lparr>cache := Map.empty, lastConfigRef := Some (ref cfg)\<rparr>)
          \<and> DirectoryCache_set now key v cfg c
              = c\<lparr>cache := [key \<mapsto> \<lparr>entryValue = v, fetchedAt = now\<rparr>],
                  lastConfigRef := Some (ref cfg)\<rparr>)
       \<and> (\<forall>raw stm entries st2.
            normalizeChannelTargetInput env (rp_input p) = raw \<and> raw \<noteq> []
          \<and> \<not> looksLikeId (rp_channel p)
                 (case normalizeTargetForProvider env (rp_channel p) raw of
                    Some n \<Rightarrow> n | None \<Rightarrow> raw)
          \<and> ttlMs (directoryCache st) = CACHE_TTL_MS
          \<and> cacheGet env (directoryKey (directoryLookupParams p raw) SourceCache) (rp_cfg p) st
              = (None, stm)
          \<and> listDirectoryEntries env (listParams (directoryLookupParams p raw) SourceCache) stm
              = (Inr entries, st2)
          \<and> entries \<noteq> [] \<longrightarrow>
            (\<exists>f. calls (snd (resolveMessagingTarget env p st)) = calls st @ [CallDirectory f]
               \<and> fetch_source f = SourceCache \<and> fetch_invoked f \<noteq> None
               \<and> (\<forall>(q :: ResolveParams) w.
                      rp_channel q = rp_channel p \<and> rp_accountId q = rp_accountId p
                    \<and> gd_kind (directoryLookupParams q (normalizeChannelTargetInput env (rp_input q)))
                        = gd_kind (directoryLookupParams p raw)
                    \<and> ref (rp_cfg q) = ref (rp_cfg p)
                    \<and> dateNow env w - dateNow env (world st2) \<le> CACHE_TTL_MS \<longrightarrow>
                    calls (snd (resolveMessagingTarget env q
                                  ((snd (resolveMessagingTarget env p st))\<lparr>world := w\<rparr>)))
                      = calls st @ [CallDirectory f])
               \<and> (\<forall>(q :: ResolveParams) w raw2.
                      rp_channel q = rp_channel p \<and> rp_accountId q = rp_accountId p
                    \<and> normalizeChannelTargetInput env (rp_input q) = raw2 \<and> raw2 \<noteq> []
                    \<and> \<not> looksLikeId (rp_channel q)
                           (case normalizeTargetForProvider env (rp_channel q) raw2 of
                              Some n \<Rightarrow> n | None \<Rightarrow> raw2)
                    \<and> gd_kind (directoryLookupParams q raw2) = gd_kind (directoryLookupParams p raw)
                    \<and> ref (rp_cfg q) \<noteq> ref (rp_cfg p) \<longrightarrow>
                    (\<exists>g rest.
                       calls (snd (resolveMessagingTarget env q
                                     ((snd (resolveMessagingTarget env p st))\<lparr>world := w\<rparr>)))
                         = calls st @ CallDirectory f # CallDirectory g # rest
                       \<and> fetch_source g = SourceCache \<and> fetch_invoked g = fetch_invoked f))))"
proof (intro conjI allI impI)
  fix seen
  assume a: "lastConfigRef c = Some seen \<and> seen \<noteq> ref cfg"
  then show "DirectoryCache_get now key cfg c
              = (None, c\<lparr>cache := Map.empty, lastConfigRef := Some (ref cfg)\<rparr>)"
    by (simp add: DirectoryCache_get_def resetIfConfigChanged_other)
  from a show "DirectoryCache_set now key v cfg c
              = c\<lparr>cache := [key \<mapsto> \<lparr>entryValue = v, fetchedAt = now\<rparr>],
                  lastConfigRef := Some (ref cfg)\<rparr>"
    by (simp add: DirectoryCache_set_def resetIfConfigChanged_other)
next
  fix raw stm entries st2
  assume h: "normalizeChannelTargetInput env (rp_input p) = raw \<and> raw \<noteq> []
          \<and> \<not> looksLikeId (rp_channel p)
                 (case normalizeTargetForProvider env (rp_channel p) raw of
                    Some n \<Rightarrow> n | None \<Rightarrow> raw)
          \<and> ttlMs (directoryCache st) = CACHE_TTL_MS
          \<and> cacheGet env (directoryKey (directoryLookupParams p raw) SourceCache) (rp_cfg p) st
              = (None, stm)
          \<and> listDirectoryEntries env (listParams (directoryLookupParams p raw) SourceCache) stm
              = (Inr entries, st2)
          \<and> entries \<noteq> []"
  define gp where "gp = directoryLookupParams p raw"
  define key where "key = directoryKey gp SourceCache"
  have cfg: "gd_cfg gp = rp_cfg p" by (simp add: gp_def directoryLookupParams_def)
  from h have raw: "normalizeChannelTargetInput env (rp_input p) = raw" "raw \<noteq> []"
    and noid: "\<not> looksLikeId (rp_channel p)
                 (case normalizeTargetForProvider env (rp_channel p) raw of
                    Some n \<Rightarrow> n | None \<Rightarrow> raw)"
    and ttl: "ttlMs (directoryCache st) = CACHE_TTL_MS"
    and miss: "cacheGet env key (gd_cfg gp) st = (None, stm)"
    and fetch: "listDirectoryEntries env (listParams gp SourceCache) stm = (Inr entries, st2)"
    and nonempty: "entries \<noteq> []"
    by (simp_all add: gp_def key_def cfg[unfolded gp_def])
  define st1 where "st1 = cacheSet env key entries (gd_cfg gp) st2"
  have first: "getDirectoryEntries env gp st = (Inr entries, st1)"
    unfolding st1_def key_def
    by (rule getDirectoryEntries_keep[OF miss[unfolded key_def] fetch]) (simp add: nonempty)
  have s1: "snd (resolveMessagingTarget env p st) = st1"
    using resolve_state[OF raw noid, of st] first by (simp add: gp_def)
  from listDirectoryEntries_effect(2)[OF fetch] obtain f where
    f: "calls st2 = calls stm @ [CallDirectory f]" "fetch_source f = SourceCache"
       "fetch_invoked f = map_option fst (pickLister env (gd_channel gp) (gd_kind gp) False)"
    by (auto simp: listParams_def)
  have lister: "pickLister env (gd_channel gp) (gd_kind gp) False \<noteq> None"
    using listDirectoryEntries_effect(3)[OF fetch refl nonempty] by (simp add: listParams_def)
  have calls1: "calls st1 = calls st @ [CallDirectory f]"
    using f(1) cacheGet_miss(5)[OF miss] by (simp add: st1_def cacheSet_fields)
  have dc2: "directoryCache st2 = directoryCache stm"
    using listDirectoryEntries_effect(1)[OF fetch] .
  have cache1: "cache (directoryCache st1) key
                  = Some \<lparr>entryValue = entries, fetchedAt = dateNow env (world st2)\<rparr>"
    and last1: "lastConfigRef (directoryCache st1) = Some (ref (rp_cfg p))"
    and ttl1: "ttlMs (directoryCache st1) = CACHE_TTL_MS"
    using cacheGet_miss(3)[OF miss] ttl dc2 by (simp_all add: st1_def cacheSet_fields cfg)
  have same_key: "directoryKey (directoryLookupParams q raw2) SourceCache = key"
    and same_lister: "pickLister env (gd_channel (directoryLookupParams q raw2))
                        (gd_kind (directoryLookupParams q raw2)) False
                      = pickLister env (gd_channel gp) (gd_kind gp) False"
    if "rp_channel q = rp_channel p" "rp_accountId q = rp_accountId p"
       "gd_kind (directoryLookupParams q raw2) = gd_kind (directoryLookupParams p raw)"
    for q :: ResolveParams and raw2
  proof -
    have fields: "gd_channel (directoryLookupParams q raw2) = gd_channel gp"
      "gd_accountId (directoryLookupParams q raw2) = gd_accountId gp"
      "gd_kind (directoryLookupParams q raw2) = gd_kind gp"
      using that by (simp_all add: gp_def directoryLookupParams_def)
    show "directoryKey (directoryLookupParams q raw2) SourceCache = key"
      unfolding key_def by (rule directoryKey_same[OF fields])
    show "pickLister env (gd_channel (directoryLookupParams q raw2))
                        (gd_kind (directoryLookupParams q raw2)) False
                      = pickLister env (gd_channel gp) (gd_kind gp) False"
      by (simp add: fields)
  qed
  show "\<exists>f. calls (snd (resolveMessagingTarget env p st)) = calls st @ [CallDirectory f]
               \<and> fetch_source f = SourceCache \<and> fetch_invoked f \<noteq> None
               \<and> (\<forall>(q :: ResolveParams) w.
                      rp_channel q = rp_channel p \<and> rp_accountId q = rp_accountId p
                    \<and> gd_kind (directoryLookupParams q (normalizeChannelTargetInput env (rp_input q)))
                        = gd_kind (directoryLookupParams p raw)
                    \<and> ref (rp_cfg q) = ref (rp_cfg p)
                    \<and> dateNow env w - dateNow env (world st2) \<le> CACHE_TTL_MS \<longrightarrow>
                    calls (snd (resolveMessagingTarget env q
                                  ((snd (resolveMessagingTarget env p st))\<lparr>world := w\<rparr>)))
                      = calls st @ [CallDirectory f])
               \<and> (\<forall>(q :: ResolveParams) w raw2.
                      rp_channel q = rp_channel p \<and> rp_accountId q = rp_accountId p
                    \<and> normalizeChannelTargetInput env (rp_input q) = raw2 \<and> raw2 \<noteq> []
                    \<and> \<not> looksLikeId (rp_channel q)
                           (case normalizeTargetForProvider env (rp_channel q) raw2 of
                              Some n \<Rightarrow> n | None \<Rightarrow> raw2)
                    \<and> gd_kind (directoryLookupParams q raw2) = gd_kind (directoryLookupParams p raw)
                    \<and> ref (rp_cfg q) \<noteq> ref (rp_cfg p) \<longrightarrow>
                    (\<exists>g rest.
                       calls (snd (resolveMessagingTarget env q
                                     ((snd (resolveMessagingTarget env p st))\<lparr>world := w\<rparr>)))
                         = calls st @ CallDirectory f # CallDirectory g # rest
                       \<and> fetch_source g = SourceCache \<and> fetch_invoked g = fetch_invoked f))"
  proof (rule exI[where x = f], intro conjI allI impI)
    show "calls (snd (resolveMessagingTarget env p st)) = calls st @ [CallDirectory f]"
      by (simp add: s1 calls1)
    show "fetch_source f = SourceCache" by (rule f(2))
    show "fetch_invoked f \<noteq> None" using lister f(3) by simp
  next
    fix q :: ResolveParams and w
    assume a: "rp_channel q = rp_channel p \<and> rp_accountId q = rp_accountId p
                    \<and> gd_kind (directoryLookupParams q (normalizeChannelTargetInput env (rp_input q)))
                        = gd_kind (directoryLookupParams p raw)
                    \<and> ref (rp_cfg q) = ref (rp_cfg p)
                    \<and> dateNow env w - dateNow env (world st2) \<le> CACHE_TTL_MS"
    define raw2 where "raw2 = normalizeChannelTargetInput env (rp_input q)"
    define gq where "gq = directoryLookupParams q raw2"
    from a have same: "rp_channel q = rp_channel p" "rp_accountId q = rp_accountId p"
      "gd_kind (directoryLookupParams q raw2) = gd_kind (directoryLookupParams p raw)"
      and same_ref: "ref (rp_cfg q) = ref (rp_cfg p)"
      and within: "dateNow env w - dateNow env (world st2) \<le> CACHE_TTL_MS"
      by (simp_all add: raw2_def)
    have after: "snd (resolveMessagingTarget env q (st1\<lparr>world := w\<rparr>)) = st1\<lparr>world := w\<rparr>"
    proof (cases "raw2 = [] \<or> looksLikeId (rp_channel q)
                     (case normalizeTargetForProvider env (rp_channel q) raw2 of
                        Some n \<Rightarrow> n | None \<Rightarrow> raw2)")
      case True
      show ?thesis by (rule resolve_without_lookup[OF raw2_def[symmetric] True])
    next
      case False
      then have through: "raw2 \<noteq> []"
        "\<not> looksLikeId (rp_channel q)
             (case normalizeTargetForProvider env (rp_channel q) raw2 of
                Some n \<Rightarrow> n | None \<Rightarrow> raw2)"
        by simp_all
      have cfgq: "gd_cfg gq = rp_cfg q" by (simp add: gq_def directoryLookupParams_def)
      have "cacheGet env key (gd_cfg gq) (st1\<lparr>world := w\<rparr>) = (Some entries, st1\<lparr>world := w\<rparr>)"
        using cacheGet_fresh[of "st1\<lparr>world := w\<rparr>" "gd_cfg gq" key
                "\<lparr>entryValue = entries, fetchedAt = dateNow env (world st2)\<rparr>" env]
          cache1 last1 ttl1 within same_ref by (simp add: cfgq)
      then have "getDirectoryEntries env gq (st1\<lparr>world := w\<rparr>) = (Inr entries, st1\<lparr>world := w\<rparr>)"
        using same_key[OF same] getDirectoryEntries_hit[of env gq "st1\<lparr>world := w\<rparr>" entries]
        by (simp add: gq_def)
      then show ?thesis
        using resolve_state[OF raw2_def[symmetric] through, of "st1\<lparr>world := w\<rparr>"]
        by (simp add: gq_def)
    qed
    show "calls (snd (resolveMessagingTarget env q
                                  ((snd (resolveMessagingTarget env p st))\<lparr>world := w\<rparr>)))
                      = calls st @ [CallDirectory f]"
      by (simp add: s1 after calls1)
  next
    fix q :: ResolveParams and w raw2
    assume a: "rp_channel q = rp_channel p \<and> rp_accountId q = rp_accountId p
                    \<and> normalizeChannelTargetInput env (rp_input q) = raw2 \<and> raw2 \<noteq> []
                    \<and> \<not> looksLikeId (rp_channel q)
                           (case normalizeTargetForProvider env (rp_channel q) raw2 of
                              Some n \<Rightarrow> n | None \<Rightarrow> raw2)
                    \<and> gd_kind (directoryLookupParams q raw2) = gd_kind (directoryLookupParams p raw)
                    \<and> ref (rp_cfg q) \<noteq> ref (rp_cfg p)"
    define gq where "gq = directoryLookupParams q raw2"
    from a have same: "rp_channel q = rp_channel p" "rp_accountId q = rp_accountId p"
      "gd_kind (directoryLookupParams q raw2) = gd_kind (directoryLookupParams p raw)"
      and raw2: "normalizeChannelTargetInput env (rp_input q) = raw2" "raw2 \<noteq> []"
      and noid2: "\<not> looksLikeId (rp_channel q)
                           (case normalizeTargetForProvider env (rp_channel q) raw2 of
                              Some n \<Rightarrow> n | None \<Rightarrow> raw2)"
      and other: "ref (rp_cfg q) \<noteq> ref (rp_cfg p)"
      by blast+
    have cfgq: "gd_cfg gq = rp_cfg q" by (simp add: gq_def directoryLookupParams_def)
    have keyq: "directoryKey gq SourceCache = key"
      unfolding gq_def by (rule same_key[OF same])
    have "fst (cacheGet env (directoryKey gq SourceCache) (gd_cfg gq) (st1\<lparr>world := w\<rparr>)) = None"
      using cacheGet_other_config[of "st1\<lparr>world := w\<rparr>" "ref (rp_cfg p)" "rp_cfg q" env key]
        last1 other by (simp add: keyq cfgq)
    then have "cacheGet env (directoryKey gq SourceCache) (gd_cfg gq) (st1\<lparr>world := w\<rparr>)
                 = (None, snd (cacheGet env (directoryKey gq SourceCache) (gd_cfg gq) (st1\<lparr>world := w\<rparr>)))"
      by (simp add: prod_eq_iff)
    from getDirectoryEntries_miss_calls[OF this] obtain g rest where
      g: "calls (snd (getDirectoryEntries env gq (st1\<lparr>world := w\<rparr>)))
            = calls (st1\<lparr>world := w\<rparr>) @ CallDirectory g # rest"
         "fetch_source g = SourceCache"
         "fetch_invoked g = map_option fst (pickLister env (gd_channel gq) (gd_kind gq) False)"
      by blast
    have "calls (snd (resolveMessagingTarget env q (st1\<lparr>world := w\<rparr>)))
            = calls st @ CallDirectory f # CallDirectory g # rest"
      using resolve_state[OF raw2 noid2, of "st1\<lparr>world := w\<rparr>"] g(1)
      by (simp add: gq_def[symmetric] calls1)
    moreover have "fetch_invoked g = fetch_invoked f"
      using g(3) f(3) same_lister[OF same] by (simp add: gq_def)
    ultimately show "\<exists>g rest.
                       calls (snd (resolveMessagingTarget env q
                                     ((snd (resolveMessagingTarget env p st))\<lparr>world := w\<rparr>)))
                         = calls st @ CallDirectory f # CallDirectory g # rest
                       \<and> fetch_source g = SourceCache \<and> fetch_invoked g = fetch_invoked f"
      using g(2) by (auto simp: s1)
  qed
qed

lemma general_miss:
  "fst (cacheGet testEnv
          (directoryKey (directoryLookupParams (exampleResolveParams 1 ''discord'' ''general'') ''general'')
             SourceCache)
          (rp_cfg (exampleResolveParams 1 ''discord'' ''general'')) (initialState 0)) = None"
  by code_simp

lemma general_fetch:
  "fst (listDirectoryEntries testEnv
          (listParams (directoryLookupParams (exampleResolveParams 1 ''discord'' ''general'') ''general'')
             SourceCache)
          (snd (cacheGet testEnv
                  (directoryKey (directoryLookupParams (exampleResolveParams 1 ''discord'' ''general'')
                                   ''general'') SourceCache)
                  (rp_cfg (exampleResolveParams 1 ''discord'' ''general'')) (initialState 0))))
     = Inr [exampleGroup ''100001'' ''general'', exampleGroup ''100002'' ''general-chat'',
            exampleGroup ''100003'' ''ops'']"
  by code_simp

lemma general_within:
  "dateNow testEnv 1000
     - dateNow testEnv (world (snd (listDirectoryEntries testEnv
          (listParams (directoryLookupParams (exampleResolveParams 1 ''discord'' ''general'') ''general'')
             SourceCache)
          (snd (cacheGet testEnv
                  (directoryKey (directoryLookupParams (exampleResolveParams 1 ''discord'' ''general'')
                                   ''general'') SourceCache)
                  (rp_cfg (exampleResolveParams 1 ''discord'' ''general'')) (initialState 0))))))
     \<le> CACHE_TTL_MS"
  by code_simp

lemma ops_same_key:
  "rp_channel (exampleResolveParams r ''discord'' ''ops'')
     = rp_channel (exampleResolveParams 1 ''discord'' ''general'')"
  "rp_accountId (exampleResolveParams r ''discord'' ''ops'')
     = rp_accountId (exampleResolveParams 1 ''discord'' ''general'')"
  by (simp_all add: exampleResolveParams_def)

lemma ops_input:
  "normalizeChannelTargetInput testEnv (rp_input (exampleResolveParams r ''discord'' ''ops'')) = ''ops''"
  by (simp add: exampleResolveParams_def testEnv_def exampleEnv_def trim_def isWhiteSpace_def)

lemma ops_same_kind:
  "gd_kind (directoryLookupParams (exampleResolveParams r ''discord'' ''ops'') ''ops'')
     = gd_kind (directoryLookupParams (exampleResolveParams 1 ''discord'' ''general'') ''general'')"
proof -
  have "detectTargetKind ''ops'' None = detectTargetKind ''general'' None" by code_simp
  then show ?thesis by (simp add: directoryLookupParams_def exampleResolveParams_def)
qed

lemma ops_not_id:
  "\<not> looksLikeId (rp_channel (exampleResolveParams r ''discord'' ''ops''))
        (case normalizeTargetForProvider testEnv (rp_channel (exampleResolveParams r ''discord'' ''ops''))
                ''ops'' of
           Some n \<Rightarrow> n | None \<Rightarrow> ''ops'')"
proof -
  have "\<not> looksLikeId ''discord''
          (case normalizeTargetForProvider testEnv ''discord'' ''ops'' of
             Some n \<Rightarrow> n | None \<Rightarrow> ''ops'')"
    by code_simp
  then show ?thesis by (simp add: exampleResolveParams_def)
qed

theorem config_change_clears_cache_witness:
  "DirectoryCache_get 5 (directoryKey exampleLookup SourceCache) (exampleConfig 2) exampleCache
     = (None, exampleCache\<lparr>cache := Map.empty, lastConfigRef := Some (ref (exampleConfig 2))\<rparr>)
   \<and> (\<exists>f. calls (snd (resolveMessagingTarget testEnv (exampleResolveParams 1 ''discord'' ''general'')
                         (initialState 0))) = [CallDirectory f]
         \<and> calls (snd (resolveMessagingTarget testEnv (exampleResolveParams 1 ''discord'' ''ops'')
                    ((snd (resolveMessagingTarget testEnv (exampleResolveParams 1 ''discord'' ''general'')
                             (initialState 0)))\<lparr>world := 1000\<rparr>))) = [CallDirectory f]
         \<and> (\<exists>g rest.
               calls (snd (resolveMessagingTarget testEnv (exampleResolveParams 2 ''discord'' ''ops'')
                    ((snd (resolveMessagingTarget testEnv (exampleResolveParams 1 ''discord'' ''general'')
                             (initialState 0)))\<lparr>world := 1000\<rparr>)))
                 = CallDirectory f # CallDirectory g # rest
               \<and> fetch_source g = SourceCache))"
proof -
  have seen: "lastConfigRef exampleCache = Some 1 \<and> 1 \<noteq> ref (exampleConfig 2)"
    by (simp add: exampleCache_def set_fields exampleConfig_def)
  have ttl: "ttlMs (directoryCache (initialState (0::int))) = CACHE_TTL_MS"
    by (simp add: initialState_def newDirectoryCache_def)
  have start: "calls (initialState (0::int)) = []" by (simp add: initialState_def)
  have same_ref: "ref (rp_cfg (exampleResolveParams 1 ''discord'' ''ops''))
                    = ref (rp_cfg (exampleResolveParams 1 ''discord'' ''general''))"
    and other: "ref (rp_cfg (exampleResolveParams 2 ''discord'' ''ops''))
                  \<noteq> ref (rp_cfg (exampleResolveParams 1 ''discord'' ''general''))"
    by (simp_all add: exampleConfig_def exampleResolveParams_def)
  have nonempty: "[exampleGroup ''100001'' ''general'', exampleGroup ''100002'' ''general-chat'',
            exampleGroup ''100003'' ''ops''] \<noteq> []" "''general'' \<noteq> []" "''ops'' \<noteq> []" by simp_all
  note th = config_change_clears_cache[where c = exampleCache and cfg = "exampleConfig 2"
      and now = 5 and key = "directoryKey exampleLookup SourceCache" and v = "[]"
      and env = testEnv and p = "exampleResolveParams 1 ''discord'' ''general''"
      and st = "initialState 0"]
  from th seen have 1: "DirectoryCache_get 5 (directoryKey exampleLookup SourceCache) (exampleConfig 2)
       exampleCache
     = (None, exampleCache\<lparr>cache := Map.empty, lastConfigRef := Some (ref (exampleConfig 2))\<rparr>)"
    by blast
  from th general_input nonempty(1,2) general_not_id ttl pair_of_fst[OF general_miss]
    pair_of_fst[OF general_fetch]
  obtain f where f:
    "calls (snd (resolveMessagingTarget testEnv (exampleResolveParams 1 ''discord'' ''general'')
                         (initialState 0))) = calls (initialState (0::int)) @ [CallDirectory f]"
    "\<forall>(q :: ResolveParams) w.
        rp_channel q = rp_channel (exampleResolveParams 1 ''discord'' ''general'')
      \<and> rp_accountId q = rp_accountId (exampleResolveParams 1 ''discord'' ''general'')
      \<and> gd_kind (directoryLookupParams q (normalizeChannelTargetInput testEnv (rp_input q)))
          = gd_kind (directoryLookupParams (exampleResolveParams 1 ''discord'' ''general'') ''general'')
      \<and> ref (rp_cfg q) = ref (rp_cfg (exampleResolveParams 1 ''discord'' ''general''))
      \<and> dateNow testEnv w - dateNow testEnv (world (snd (listDirectoryEntries testEnv
          (listParams (directoryLookupParams (exampleResolveParams 1 ''discord'' ''general'') ''general'')
             SourceCache)
          (snd (cacheGet testEnv
                  (directoryKey (directoryLookupParams (exampleResolveParams 1 ''discord'' ''general'')
                                   ''general'') SourceCache)
                  (rp_cfg (exampleResolveParams 1 ''discord'' ''general'')) (initialState 0))))))
          \<le> CACHE_TTL_MS \<longrightarrow>
        calls (snd (resolveMessagingTarget testEnv q
                    ((snd (resolveMessagingTarget testEnv (exampleResolveParams 1 ''discord'' ''general'')
                             (initialState 0)))\<lparr>world := w\<rparr>)))
          = calls (initialState (0::int)) @ [CallDirectory f]"
    "\<forall>(q :: ResolveParams) w raw2.
        rp_channel q = rp_channel (exampleResolveParams 1 ''discord'' ''general'')
      \<and> rp_accountId q = rp_accountId (exampleResolveParams 1 ''discord'' ''general'')
      \<and> normalizeChannelTargetInput testEnv (rp_input q) = raw2 \<and> raw2 \<noteq> []
      \<and> \<not> looksLikeId (rp_channel q)
             (case normalizeTargetForProvider testEnv (rp_channel q) raw2 of
                Some n \<Rightarrow> n | None \<Rightarrow> raw2)
      \<and> gd_kind (directoryLookupParams q raw2)
          = gd_kind (directoryLookupParams (exampleResolveParams 1 ''discord'' ''general'') ''general'')
      \<and> ref (rp_cfg q) \<noteq> ref (rp_cfg (exampleResolveParams 1 ''discord'' ''general'')) \<longrightarrow>
        (\<exists>g rest.
               calls (snd (resolveMessagingTarget testEnv q
                    ((snd (resolveMessagingTarget testEnv (exampleResolveParams 1 ''discord'' ''general'')
                             (initialState 0)))\<lparr>world := w\<rparr>)))
                 = calls (initialState (0::int)) @ CallDirectory f # CallDirectory g # rest
               \<and> fetch_source g = SourceCache \<and> fetch_invoked g = fetch_invoked f)"
    by blast
  from f(2)[rule_format, of "exampleResolveParams 1 ''discord'' ''ops''" 1000]
    ops_same_key[of 1] ops_same_kind[of 1] ops_input[of 1] same_ref general_within
  have 2:
    "calls (snd (resolveMessagingTarget testEnv (exampleResolveParams 1 ''discord'' ''ops'')
                    ((snd (resolveMessagingTarget testEnv (exampleResolveParams 1 ''discord'' ''general'')
                             (initialState 0)))\<lparr>world := 1000\<rparr>))) = [CallDirectory f]"
    unfolding start by simp
  from f(3)[rule_format, of "exampleResolveParams 2 ''discord'' ''ops''" "''ops''" 1000]
    ops_same_key[of 2] ops_same_kind[of 2] ops_input[of 2] ops_not_id[of 2] other nonempty(3)
  have 3: "\<exists>g rest.
               calls (snd (resolveMessagingTarget testEnv (exampleResolveParams 2 ''discord'' ''ops'')
                    ((snd (resolveMessagingTarget testEnv (exampleResolveParams 1 ''discord'' ''general'')
                             (initialState 0)))\<lparr>world := 1000\<rparr>)))
                 = CallDirectory f # CallDirectory g # rest
               \<and> fetch_source g = SourceCache"
    unfolding start by simp blast
  show ?thesis using 1 f(1) 2 3 unfolding start by auto
qed

text \<open>
  Claim C6 as stated fails where the directory lists no entry: nothing is stored under
  the cache-source key, so two resolves of the same target under the same configuration
  object make four directory fetches.
\<close>

theorem empty_directory_refetched_counterexample:
  "map directoryFetchOf
     (calls (snd (resolveMessagingTarget emptyDirectoryEnv (exampleResolveParams 1 ''discord'' ''general'')
                    (snd (resolveMessagingTarget emptyDirectoryEnv
                            (exampleResolveParams 1 ''discord'' ''general'') (initialState 0))))))
     = [Some (exampleFetch SourceCache ListGroups), Some (exampleFetch SourceLive ListGroupsLive),
        Some (exampleFetch SourceCache ListGroups), Some (exampleFetch SourceLive ListGroupsLive)]"
  by code_simp

section \<open>The loop of a broadcast\<close>

lemma failedOutcome_fields:
  assumes "failedOutcome env c t err = Inr outcome"
  shows "bo_channel outcome = c" "bo_to outcome = t" "\<not> bo_ok outcome"
    "\<exists>message. errorMessage env err = Inr message \<and> bo_error outcome = Some message"
  using assms by (auto simp: failedOutcome_def split: sum.splits)

lemma failedOutcome_raises:
  assumes "failedOutcome env c t err = Inl thrown"
  shows "\<exists>v. err = NonError v \<and> stringOf env v = Inl thrown"
  using assms by (auto simp: failedOutcome_def errorMessage_def split: sum.splits Thrown.splits)

lemma broadcastPair_channel:
  "broadcastPair env input params c t s = (Inr outcome, s') \<Longrightarrow> bo_channel outcome = c"
  by (auto simp: broadcastPair_def
           split: prod.splits sum.splits ResolveMessagingTargetResult.splits
           dest: failedOutcome_fields(1))

lemma broadcastPair_raises:
  assumes "broadcastPair env input params c t s = (Inl thrown, s')"
  shows "\<exists>v. stringOf env v = Inl thrown
            \<and> (fst (resolveChannelTarget env (pairResolveParams input c t) s) = Inl (NonError v)
               \<or> (\<exists>resolved s1.
                     resolveChannelTarget env (pairResolveParams input c t) s
                       = (Inr (ResolveOk resolved), s1)
                   \<and> fst (runMessageActionNonBroadcast env (pairSendInput input params c resolved) s1)
                       = Inl (NonError v)))"
  using assms
  by (auto simp: broadcastPair_def
           split: prod.splits sum.splits ResolveMessagingTargetResult.splits
           dest!: failedOutcome_raises)

lemma broadcastTargets_outcomes:
  "broadcastTargets env input params c ts acc st = (Inr res, st') \<Longrightarrow>
   \<exists>new. res = acc @ new
        \<and> list_all2 (\<lambda>t outcome. \<exists>s s'. broadcastPair env input params c t s = (Inr outcome, s'))
            ts new"
proof (induction ts arbitrary: acc st)
  case Nil
  then show ?case by simp
next
  case (Cons t ts)
  from Cons.prems obtain outcome st1 where
    step: "broadcastPair env input params c t st = (Inr outcome, st1)"
    and rest: "broadcastTargets env input params c ts (acc @ [outcome]) st1 = (Inr res, st')"
    by (auto split: prod.splits sum.splits)
  from Cons.IH[OF rest] obtain new where
    new: "res = (acc @ [outcome]) @ new"
         "list_all2 (\<lambda>t outcome. \<exists>s s'. broadcastPair env input params c t s = (Inr outcome, s'))
            ts new"
    by blast
  have "list_all2 (\<lambda>t outcome. \<exists>s s'. broadcastPair env input params c t s = (Inr outcome, s'))
               (t # ts) (outcome # new)"
    using new(2) step by blast
  then show ?case using new(1) by (intro exI[where x = "outcome # new"]) simp
qed

lemma broadcastChannels_outcomes:
  "broadcastChannels env input params cs ts acc st = (Inr res, st') \<Longrightarrow>
   \<exists>new. res = acc @ new
        \<and> list_all2 (\<lambda>(c, t) outcome.
                        \<exists>s s'. broadcastPair env input params c t s = (Inr outcome, s'))
             (List.product cs ts) new"
proof (induction cs arbitrary: acc st)
  case Nil
  then show ?case by simp
next
  case (Cons c cs)
  from Cons.prems obtain res1 st1 where
    inner: "broadcastTargets env input params c ts acc st = (Inr res1, st1)"
    and outer: "broadcastChannels env input params cs ts res1 st1 = (Inr res, st')"
    by (auto split: prod.splits sum.splits)
  from broadcastTargets_outcomes[OF inner] obtain new1 where
    new1: "res1 = acc @ new1"
          "list_all2 (\<lambda>t outcome. \<exists>s s'. broadcastPair env input params c t s = (Inr outcome, s'))
             ts new1"
    by blast
  from Cons.IH[OF outer] obtain new2 where
    new2: "res = res1 @ new2"
          "list_all2 (\<lambda>(c, t) outcome.
                        \<exists>s s'. broadcastPair env input params c t s = (Inr outcome, s'))
             (List.product cs ts) new2"
    by blast
  have "list_all2 (\<lambda>(c, t) outcome.
                     \<exists>s s'. broadcastPair env input params c t s = (Inr outcome, s'))
          (map (Pair c) ts) new1"
    using new1(2) by (simp add: list_all2_map1)
  then have "list_all2 (\<lambda>(c, t) outcome.
                          \<exists>s s'. broadcastPair env input params c t s = (Inr outcome, s'))
          (List.product (c # cs) ts) (new1 @ new2)"
    using new2(2) by (simp add: list_all2_appendI)
  then show ?case using new1(1) new2(1) by (intro exI[where x = "new1 @ new2"]) simp
qed

lemma broadcastChannels_pairs:
  assumes "broadcastChannels env input params cs ts [] st = (Inr res, st')"
  shows "list_all2 (\<lambda>(c, t) outcome.
                      \<exists>s s'. broadcastPair env input params c t s = (Inr outcome, s'))
           (List.product cs ts) res"
  using broadcastChannels_outcomes[OF assms] by simp

lemma broadcastTargets_raises:
  "broadcastTargets env input params c ts acc st = (Inl thrown, st') \<Longrightarrow>
   \<exists>t s s'. t \<in> set ts \<and> broadcastPair env input params c t s = (Inl thrown, s')"
proof (induction ts arbitrary: acc st)
  case Nil
  then show ?case by simp
next
  case (Cons t ts)
  show ?case
  proof (cases "broadcastPair env input params c t st")
    case (Pair r st1)
    show ?thesis
    proof (cases r)
      case (Inl e)
      with Pair Cons.prems show ?thesis by auto
    next
      case (Inr outcome)
      with Pair Cons.prems
      have "broadcastTargets env input params c ts (acc @ [outcome]) st1 = (Inl thrown, st')"
        by simp
      from Cons.IH[OF this] show ?thesis by auto
    qed
  qed
qed

lemma broadcastChannels_raises:
  "broadcastChannels env input params cs ts acc st = (Inl thrown, st') \<Longrightarrow>
   \<exists>c t s s'. c \<in> set cs \<and> t \<in> set ts \<and> broadcastPair env input params c t s = (Inl thrown, s')"
proof (induction cs arbitrary: acc st)
  case Nil
  then show ?case by simp
next
  case (Cons c cs)
  show ?case
  proof (cases "broadcastTargets env input params c ts acc st")
    case (Pair r st1)
    show ?thesis
    proof (cases r)
      case (Inl e)
      with Pair Cons.prems have "broadcastTargets env input params c ts acc st = (Inl thrown, st')"
        by simp
      from broadcastTargets_raises[OF this] show ?thesis by auto
    next
      case (Inr res1)
      with Pair Cons.prems
      have "broadcastChannels env input params cs ts res1 st1 = (Inl thrown, st')" by simp
      from Cons.IH[OF this] show ?thesis by auto
    qed
  qed
qed

lemma broadcastChannels_returns:
  assumes "\<And>v. \<exists>text. stringOf env v = Inr text"
  shows "\<exists>res st'. broadcastChannels env input params cs ts acc st = (Inr res, st')"
proof (cases "broadcastChannels env input params cs ts acc st")
  case (Pair r st')
  show ?thesis
  proof (cases r)
    case (Inl thrown)
    from broadcastChannels_raises[OF Pair[unfolded Inl]] obtain c t s s' where
      "broadcastPair env input params c t s = (Inl thrown, s')" by blast
    from broadcastPair_raises[OF this] assms show ?thesis by (metis Inl_Inr_False)
  next
    case (Inr res)
    with Pair show ?thesis by simp
  qed
qed

text \<open>
  What holds of the order: when the conversion \<open>String(v)\<close> throws for no value, a broadcast
  that passes its preconditions, with target channels \<open>C\<close> and raw targets \<open>T\<close>, returns a
  result with \<open>|C| \<times> |T|\<close> outcomes that follow the pairs \<open>List.product C T\<close> (channels in
  order and, within a channel, targets in order).
\<close>

lemma broadcast_outcomes_when_printable:
  assumes printable: "\<And>v. \<exists>text. stringOf env v = Inr text"
    and enabled: "broadcastEnabled (in_cfg input) \<noteq> Some False"
    and targets: "readStringArrayParamRequired env params ''targets'' = Inr (Some T)"
    and some_target: "T \<noteq> []"
    and hint: "readStringParam env params ''channel'' noOptions = Inr channelHint"
    and configured: "await (listConfiguredMessageChannels env (in_cfg input)) st = (Inr configured, st1)"
    and some_channel: "configured \<noteq> []"
    and channels: "broadcastTargetChannels env input channelHint configured st1 = (Inr C, st2)"
  shows "\<exists>res st3. handleBroadcastAction env input params st = (Inr (RunBroadcast res), st3)
           \<and> length (br_results res) = length C * length T
           \<and> list_all2 (\<lambda>(c, t) outcome.
                  bo_channel outcome = c
                  \<and> (\<exists>s s'. broadcastPair env input params c t s = (Inr outcome, s')))
               (List.product C T) (br_results res)"
proof -
  from broadcastChannels_returns[OF printable] obtain results st3 where
    loop: "broadcastChannels env input params C T [] st2 = (Inr results, st3)"
    by blast
  have run: "handleBroadcastAction env input params st
               = (Inr (RunBroadcast
                    \<lparr>br_channel = (case C of c # _ \<Rightarrow> c | [] \<Rightarrow> ''discord''),
                     br_handledBy = (if in_dryRun input = Some True then ByDryRun else ByCore),
                     br_results = results,
                     br_dryRun = (in_dryRun input = Some True)\<rparr>), st3)"
    using enabled targets some_target hint configured some_channel channels loop
    by (simp add: handleBroadcastAction_def)
  have pairs: "list_all2 (\<lambda>(c, t) outcome.
                   \<exists>s s'. broadcastPair env input params c t s = (Inr outcome, s'))
                 (List.product C T) results"
    using broadcastChannels_pairs[OF loop] .
  then have "length results = length C * length T"
    by (auto dest: list_all2_lengthD)
  moreover have "list_all2 (\<lambda>(c, t) outcome.
                  bo_channel outcome = c
                  \<and> (\<exists>s s'. broadcastPair env input params c t s = (Inr outcome, s')))
               (List.product C T) results"
    using pairs by (rule list_all2_mono) (auto simp: broadcastPair_channel)
  ultimately show ?thesis using run by simp
qed

text \<open>
  The only way out of the loop but its end: for some pair, the resolution of the target or
  the recursive send threw a value \<open>v\<close> that is no \<open>Error\<close>, and \<open>String(v)\<close> threw in the
  \<open>catch\<close> clause.
\<close>

lemma handleBroadcastAction_raises:
  assumes "handleBroadcastAction env input params st = (Inl err, st')"
  shows "broadcastEnabled (in_cfg input) = Some False
       \<or> readStringArrayParamRequired env params ''targets'' = Inl err
       \<or> readStringArrayParamRequired env params ''targets'' = Inr None
       \<or> readStringArrayParamRequired env params ''targets'' = Inr (Some [])
       \<or> readStringParam env params ''channel'' noOptions = Inl err
       \<or> fst (await (listConfiguredMessageChannels env (in_cfg input)) st) = Inl err
       \<or> fst (await (listConfiguredMessageChannels env (in_cfg input)) st) = Inr []
       \<or> (\<exists>hint configured s1.
             readStringParam env params ''channel'' noOptions = Inr (Some hint)
           \<and> await (listConfiguredMessageChannels env (in_cfg input)) st = (Inr configured, s1)
           \<and> resolveChannel env (in_cfg input) [''channel'' \<mapsto> JStr hint] s1 = (Inl err, st'))
       \<or> (\<exists>v. stringOf env v = Inl err)"
proof -
  have loop: "\<exists>v. stringOf env v = Inl err"
    if "broadcastChannels env input params C T [] s = (Inl err, st')" for C T s
  proof -
    from broadcastChannels_raises[OF that] obtain c t s1 s2 where
      "broadcastPair env input params c t s1 = (Inl err, s2)" by blast
    from broadcastPair_raises[OF this] show ?thesis by blast
  qed
  show ?thesis
    using assms
    unfolding handleBroadcastAction_def broadcastTargetChannels_def Let_def
    by (auto split: if_splits sum.splits option.splits prod.splits list.splits dest: loop)
qed

section \<open>The order of the outcomes of a broadcast\<close>

text \<open>
  Claim C2 fails on the code. The broadcast of the targets a and b over the configured
  channels discord and slack passes its preconditions; the directory of slack rejects
  with an object that has no prototype. The \<open>catch\<close> clause of the loop calls \<open>String(err)\<close>
  on it, which throws, so the broadcast raises from inside the loop and returns no outcome
  at all, where four are due. With a directory of slack that answers, the same request
  returns its four outcomes in the order of the claim.
\<close>

theorem unprintable_error_ends_broadcast:
  "readStringArrayParamRequired throwingDirectoryEnv broadcastParams ''targets''
     = Inr (Some [''a'', ''b''])
   \<and> fst (await (listConfiguredMessageChannels throwingDirectoryEnv
                   (in_cfg (exampleInput ''broadcast'' broadcastParams None))) (initialState 0))
       = Inr [''discord'', ''slack'']
   \<and> fst (runMessageAction throwingDirectoryEnv (exampleInput ''broadcast'' broadcastParams None)
            (initialState 0))
       = Inl (Error ''Cannot convert object to primitive value'')
   \<and> (case fst (runMessageAction broadcastEnv (exampleInput ''broadcast'' broadcastParams None)
                  (initialState 0)) of
         Inr (RunBroadcast res) \<Rightarrow>
           map (\<lambda>outcome. (bo_channel outcome, bo_to outcome, bo_ok outcome)) (br_results res)
             = [(''discord'', ''100001'', True), (''discord'', ''100002'', True),
                (''slack'', ''c00000001'', True), (''slack'', ''b'', False)]
       | _ \<Rightarrow> False)"
  by code_simp

section \<open>The destination of an outcome\<close>

lemma broadcastPair_destination:
  assumes "broadcastPair env input params c t s = (Inr outcome, s')"
  shows "if bo_ok outcome
         then \<exists>s1 resolved.
                resolveChannelTarget env (pairResolveParams input c t) s = (Inr (ResolveOk resolved), s1)
                \<and> bo_to outcome = target_to resolved
         else bo_to outcome = t"
  using assms
  by (auto simp: broadcastPair_def
           split: prod.splits sum.splits ResolveMessagingTargetResult.splits
           dest: failedOutcome_fields)

text \<open>
  Claim C10. In the outcomes of a broadcast, following the pairs in order, a successful
  outcome records the \<open>to\<close> of the target that \<open>resolveChannelTarget\<close> returned for the pair,
  and a failed outcome records the raw target of the pair. The example has both in one
  list: the identifiers of the three resolved groups, and the raw text "b".
\<close>

theorem broadcast_destination_fields:
  assumes "broadcastChannels env input params C T [] st = (Inr results, st')"
  shows "list_all2 (\<lambda>(c, t) outcome.
            if bo_ok outcome
            then \<exists>s s1 resolved.
                   resolveChannelTarget env (pairResolveParams input c t) s
                     = (Inr (ResolveOk resolved), s1)
                   \<and> bo_to outcome = target_to resolved
            else bo_to outcome = t)
           (List.product C T) results"
proof -
  have step: "(\<lambda>(c, t) outcome.
            if bo_ok outcome
            then \<exists>s s1 resolved.
                   resolveChannelTarget env (pairResolveParams input c t) s
                     = (Inr (ResolveOk resolved), s1)
                   \<and> bo_to outcome = target_to resolved
            else bo_to outcome = t) pair outcome"
    if a: "(\<lambda>(c, t) outcome. \<exists>s s'. broadcastPair env input params c t s = (Inr outcome, s'))
             pair outcome"
    for pair outcome
  proof -
    obtain c t where pair: "pair = (c, t)" by (cases pair)
    with a obtain s s' where "broadcastPair env input params c t s = (Inr outcome, s')" by auto
    from broadcastPair_destination[OF this] show ?thesis
      by (auto simp: pair split: if_splits)
  qed
  show ?thesis
    by (rule list_all2_mono[OF broadcastChannels_pairs[OF assms]]) (rule step)
qed

lemma broadcast_example_loop:
  \<open>fst (broadcastChannels broadcastEnv (exampleInput ''broadcast'' broadcastParams None) broadcastParams
          [''discord'', ''slack''] [''a'', ''b''] [] (initialState 0))
     = Inr [\<lparr>bo_channel = ''discord'', bo_to = ''100001'', bo_ok = True, bo_error = None,
              bo_result = Some (JStr ''100001'')\<rparr>,
            \<lparr>bo_channel = ''discord'', bo_to = ''100002'', bo_ok = True, bo_error = None,
              bo_result = Some (JStr ''100002'')\<rparr>,
            \<lparr>bo_channel = ''slack'', bo_to = ''c00000001'', bo_ok = True, bo_error = None,
              bo_result = Some (JStr ''c00000001'')\<rparr>,
            \<lparr>bo_channel = ''slack'', bo_to = ''b'', bo_ok = False,
              bo_error = Some ''Unknown target "b" for slack.'', bo_result = None\<rparr>]\<close>
  by code_simp

theorem broadcast_destination_fields_witness:
  \<open>list_all2 (\<lambda>(c, t) outcome.
            if bo_ok outcome
            then \<exists>s s1 resolved.
                   resolveChannelTarget broadcastEnv
                     (pairResolveParams (exampleInput ''broadcast'' broadcastParams None) c t) s
                     = (Inr (ResolveOk resolved), s1)
                   \<and> bo_to outcome = target_to resolved
            else bo_to outcome = t)
     [(''discord'', ''a''), (''discord'', ''b''), (''slack'', ''a''), (''slack'', ''b'')]
     [\<lparr>bo_channel = ''discord'', bo_to = ''100001'', bo_ok = True, bo_error = None,
          bo_result = Some (JStr ''100001'')\<rparr>,
        \<lparr>bo_channel = ''discord'', bo_to = ''100002'', bo_ok = True, bo_error = None,
          bo_result = Some (JStr ''100002'')\<rparr>,
        \<lparr>bo_channel = ''slack'', bo_to = ''c00000001'', bo_ok = True, bo_error = None,
          bo_result = Some (JStr ''c00000001'')\<rparr>,
        \<lparr>bo_channel = ''slack'', bo_to = ''b'', bo_ok = False,
          bo_error = Some ''Unknown target "b" for slack.'', bo_result = None\<rparr>]\<close>
proof -
  have pairs: "List.product [''discord'', ''slack''] [''a'', ''b'']
                 = [(''discord'', ''a''), (''discord'', ''b''), (''slack'', ''a''), (''slack'', ''b'')]"
    by simp
  from broadcast_destination_fields[OF pair_of_fst[OF broadcast_example_loop]]
  show ?thesis unfolding pairs .
qed

section \<open>Failures inside and outside the loop of a broadcast\<close>

text \<open>
  What holds of the failures of a pair: an \<open>Error\<close> thrown by the resolution of the target,
  a failed resolution, and an \<open>Error\<close> thrown by the recursive send each become an outcome
  with \<open>ok: false\<close>, the raw target and the message of the error, in the state the failure
  left. A thrown value that is no \<open>Error\<close> becomes such an outcome when \<open>String\<close> converts it,
  and is replaced by what \<open>String\<close> throws otherwise.
\<close>

lemma broadcastPair_failures:
  fixes env :: "'w Env"
  shows
    "resolveChannelTarget env (pairResolveParams input c t) s = (Inl err, s1) \<Longrightarrow>
     broadcastPair env input params c t s = (failedOutcome env c t err, s1)"
    "resolveChannelTarget env (pairResolveParams input c t) s = (Inr (ResolveFail msg candidates), s1) \<Longrightarrow>
     broadcastPair env input params c t s
       = (Inr \<lparr>bo_channel = c, bo_to = t, bo_ok = False, bo_error = Some msg, bo_result = None\<rparr>, s1)"
    "resolveChannelTarget env (pairResolveParams input c t) s = (Inr (ResolveOk resolved), s1) \<Longrightarrow>
     runMessageActionNonBroadcast env (pairSendInput input params c resolved) s1 = (Inl err, s2) \<Longrightarrow>
     broadcastPair env input params c t s = (failedOutcome env c t err, s2)"
    "failedOutcome env c t (Error message)
       = Inr \<lparr>bo_channel = c, bo_to = t, bo_ok = False, bo_error = Some message, bo_result = None\<rparr>"
    "failedOutcome env c t (NonError v)
       = (case stringOf env v of
            Inl thrown \<Rightarrow> Inl thrown
          | Inr text \<Rightarrow>
              Inr \<lparr>bo_channel = c, bo_to = t, bo_ok = False, bo_error = Some text, bo_result = None\<rparr>)"
  by (simp_all add: broadcastPair_def failedOutcome_def errorMessage_def)

text \<open>
  Three failures that are recorded: a directory that throws an \<open>Error\<close>, a target that the
  directory does not list, and a send without message.
\<close>

lemma recorded_failures_example:
  \<open>fst (broadcastPair failingDirectoryEnv (exampleInput ''broadcast'' broadcastParams None)
          broadcastParams ''slack'' ''a'' (initialState 0))
     = Inr \<lparr>bo_channel = ''slack'', bo_to = ''a'', bo_ok = False,
            bo_error = Some ''directory unavailable'', bo_result = None\<rparr>
   \<and> fst (broadcastPair broadcastEnv (exampleInput ''broadcast'' broadcastParams None)
            broadcastParams ''slack'' ''b'' (initialState 0))
       = Inr \<lparr>bo_channel = ''slack'', bo_to = ''b'', bo_ok = False,
              bo_error = Some ''Unknown target "b" for slack.'', bo_result = None\<rparr>
   \<and> fst (broadcastPair broadcastEnv (exampleInput ''broadcast'' noMessageParams None)
            noMessageParams ''discord'' ''a'' (initialState 0))
       = Inr \<lparr>bo_channel = ''discord'', bo_to = ''a'', bo_ok = False,
              bo_error = Some ''message required'', bo_result = None\<rparr>\<close>
  by code_simp

text \<open>
  Claim C3 fails on the code. In the broadcast of the targets a and b over discord and
  slack, which is enabled, has targets and has configured channels, the resolution of
  the pair (slack, a) throws an object that has no prototype. The \<open>catch\<close> clause does not
  record it: \<open>String(err)\<close> throws there, and the broadcast raises that \<open>TypeError\<close>. The log
  of calls ends with the directory fetch of slack that threw: the two sends of discord
  were dispatched before, and the pair (slack, b) is never tried.
\<close>

theorem unprintable_error_not_recorded:
  "broadcastEnabled (in_cfg (exampleInput ''broadcast'' broadcastParams None)) = None
   \<and> readStringArrayParamRequired throwingDirectoryEnv broadcastParams ''targets''
       = Inr (Some [''a'', ''b''])
   \<and> fst (await (listConfiguredMessageChannels throwingDirectoryEnv
                   (in_cfg (exampleInput ''broadcast'' broadcastParams None))) (initialState 0))
       = Inr [''discord'', ''slack'']
   \<and> fst (resolveChannelTarget throwingDirectoryEnv
            (pairResolveParams (exampleInput ''broadcast'' broadcastParams None) ''slack'' ''a'')
            (initialState 0)) = Inl (NonError bareObject)
   \<and> stringOf throwingDirectoryEnv bareObject = Inl (Error ''Cannot convert object to primitive value'')
   \<and> (case handleBroadcastAction throwingDirectoryEnv (exampleInput ''broadcast'' broadcastParams None)
              broadcastParams (initialState 0) of
         (result, final) \<Rightarrow>
           result = Inl (Error ''Cannot convert object to primitive value'')
           \<and> map dispatchedTo (calls final) = [None, Some ''100001'', Some ''100002'', None])"
  by code_simp

section \<open>The action target spec\<close>

lemma table_distinct: "distinct (map fst MESSAGE_ACTION_TARGET_MODE)"
  by code_simp

lemma table_requires:
  "list_all (\<lambda>(action, mode). actionRequiresTarget action = (mode \<noteq> ModeNone))
     MESSAGE_ACTION_TARGET_MODE"
  by code_simp

lemma broadcast_needs_no_target: "\<not> actionRequiresTarget ''broadcast''"
  by code_simp

lemma no_target:
  assumes "\<forall>s. getProp params ''to'' = JStr s \<longrightarrow> trim s = []"
    and "\<forall>s. getProp params ''channelId'' = JStr s \<longrightarrow> trim s = []"
  shows "\<not> hasTarget params"
  using assms by (auto simp: hasTarget_def trimmedStringProp_def split: jv.splits)

text \<open>
  Claim C7. No action name occurs twice in \<open>MESSAGE_ACTION_TARGET_MODE\<close>, so every
  supported action has exactly one entry; \<open>actionRequiresTarget\<close> holds of an action iff its
  entry is not \<open>none\<close>; and a run of an action that requires a target, once \<open>buttons\<close> is
  parsed and \<open>target\<close> is mapped onto the parameters, fails with "Action ... requires a
  target." when neither \<open>to\<close> nor \<open>channelId\<close> is a string that is not empty after trimming.
  Nothing else has happened by then: the state is unchanged.
\<close>

theorem action_target_spec:
  "distinct (map fst MESSAGE_ACTION_TARGET_MODE)
   \<and> (\<forall>(action, mode) \<in> set MESSAGE_ACTION_TARGET_MODE.
        (\<forall>mode'. (action, mode') \<in> set MESSAGE_ACTION_TARGET_MODE \<longrightarrow> mode' = mode)
        \<and> (actionRequiresTarget action \<longleftrightarrow> mode \<noteq> ModeNone))
   \<and> (\<forall>(env :: 'w Env) input st params0 params.
        actionRequiresTarget (in_action input)
        \<and> parseButtonsParam env (in_params input) = Inr params0
        \<and> applyTargetToParams env (in_action input) params0 = Inr params
        \<and> (\<forall>s. getProp params ''to'' = JStr s \<longrightarrow> trim s = [])
        \<and> (\<forall>s. getProp params ''channelId'' = JStr s \<longrightarrow> trim s = [])
        \<longrightarrow> runMessageAction env input st
              = (Inl (Error (''Action '' @ in_action input @ '' requires a target.'')), st))"
proof (intro conjI)
  show "distinct (map fst MESSAGE_ACTION_TARGET_MODE)" by (rule table_distinct)
  show "\<forall>(action, mode) \<in> set MESSAGE_ACTION_TARGET_MODE.
        (\<forall>mode'. (action, mode') \<in> set MESSAGE_ACTION_TARGET_MODE \<longrightarrow> mode' = mode)
        \<and> (actionRequiresTarget action \<longleftrightarrow> mode \<noteq> ModeNone)"
  proof (clarify, intro conjI allI impI)
    fix action mode mode'
    assume "(action, mode) \<in> set MESSAGE_ACTION_TARGET_MODE"
      and "(action, mode') \<in> set MESSAGE_ACTION_TARGET_MODE"
    then show "mode' = mode" using table_distinct by (metis eq_key_imp_eq_value)
  next
    fix action mode
    assume "(action, mode) \<in> set MESSAGE_ACTION_TARGET_MODE"
    with table_requires show "actionRequiresTarget action \<longleftrightarrow> mode \<noteq> ModeNone"
      by (auto simp: list_all_iff)
  qed
  show "\<forall>(env :: 'w Env) input st params0 params.
        actionRequiresTarget (in_action input)
        \<and> parseButtonsParam env (in_params input) = Inr params0
        \<and> applyTargetToParams env (in_action input) params0 = Inr params
        \<and> (\<forall>s. getProp params ''to'' = JStr s \<longrightarrow> trim s = [])
        \<and> (\<forall>s. getProp params ''channelId'' = JStr s \<longrightarrow> trim s = [])
        \<longrightarrow> runMessageAction env input st
              = (Inl (Error (''Action '' @ in_action input @ '' requires a target.'')), st)"
  proof (intro allI impI, elim conjE)
    fix env :: "'w Env" and input :: RunMessageActionParams and st params0 params
    assume req: "actionRequiresTarget (in_action input)"
      and buttons: "parseButtonsParam env (in_params input) = Inr params0"
      and mapped: "applyTargetToParams env (in_action input) params0 = Inr params"
      and a: "\<forall>s. getProp params ''to'' = JStr s \<longrightarrow> trim s = []"
      and b: "\<forall>s. getProp params ''channelId'' = JStr s \<longrightarrow> trim s = []"
    have nb: "in_action input \<noteq> ''broadcast''"
      using req broadcast_needs_no_target by auto
    have "resolveActionContext env input params0 st
            = (Inl (Error (''Action '' @ in_action input @ '' requires a target.'')), st)"
      using req mapped no_target[OF a b] by (simp add: resolveActionContext_def)
    then show "runMessageAction env input st
              = (Inl (Error (''Action '' @ in_action input @ '' requires a target.'')), st)"
      using buttons nb by (simp add: runMessageAction_def runMessageActionRest_def)
  qed
qed

lemma pin_requires:
  "actionRequiresTarget (in_action (exampleInput ''pin'' [''channel'' \<mapsto> JStr ''slack''] None))"
  by code_simp

lemma pin_mapped:
  "applyTargetToParams testEnv (in_action (exampleInput ''pin'' [''channel'' \<mapsto> JStr ''slack''] None))
     [''channel'' \<mapsto> JStr ''slack''] = Inr [''channel'' \<mapsto> JStr ''slack'']"
  by (simp add: testEnv_def exampleEnv_def exampleApplyTargetToParams_def trimmedStringProp_def
        getProp_def)

theorem action_target_spec_witness:
  "(''channel-info'', ModeChannelId) \<in> set MESSAGE_ACTION_TARGET_MODE
   \<and> actionRequiresTarget ''channel-info''
   \<and> (''search'', ModeNone) \<in> set MESSAGE_ACTION_TARGET_MODE
   \<and> \<not> actionRequiresTarget ''search''
   \<and> runMessageAction testEnv (exampleInput ''pin'' [''channel'' \<mapsto> JStr ''slack''] None)
        (initialState 0)
       = (Inl (Error ''Action pin requires a target.''), initialState 0)"
proof -
  have m1: "(''channel-info'', ModeChannelId) \<in> set MESSAGE_ACTION_TARGET_MODE"
    and m2: "(''search'', ModeNone) \<in> set MESSAGE_ACTION_TARGET_MODE"
    by (simp_all add: MESSAGE_ACTION_TARGET_MODE_def)
  note th = action_target_spec[where 'w = int]
  from th m1 have 1: "actionRequiresTarget ''channel-info''" by fastforce
  from th m2 have 2: "\<not> actionRequiresTarget ''search''" by fastforce
  have buttons: "parseButtonsParam testEnv
                   (in_params (exampleInput ''pin'' [''channel'' \<mapsto> JStr ''slack''] None))
                 = Inr [''channel'' \<mapsto> JStr ''slack'']"
    by (simp add: parseButtonsParam_def exampleInput_def getProp_def)
  have none: "\<forall>s. getProp [''channel'' \<mapsto> JStr ''slack''] ''to'' = JStr s \<longrightarrow> trim s = []"
    "\<forall>s. getProp [''channel'' \<mapsto> JStr ''slack''] ''channelId'' = JStr s \<longrightarrow> trim s = []"
    by (simp_all add: getProp_def)
  from th pin_requires pin_mapped buttons none
  have "runMessageAction testEnv (exampleInput ''pin'' [''channel'' \<mapsto> JStr ''slack''] None)
          (initialState 0)
        = (Inl (Error (''Action ''
                        @ in_action (exampleInput ''pin'' [''channel'' \<mapsto> JStr ''slack''] None)
                        @ '' requires a target.'')), initialState 0)"
    by blast
  then have 3: "runMessageAction testEnv (exampleInput ''pin'' [''channel'' \<mapsto> JStr ''slack''] None)
        (initialState 0)
       = (Inl (Error ''Action pin requires a target.''), initialState 0)"
    by (simp add: exampleInput_def)
  show ?thesis using m1 1 m2 2 3 by simp
qed

section \<open>Dispatches\<close>

text \<open>
  Resolving and validating log directory fetches only: the dispatches logged stay as they
  were until a handler dispatches.
\<close>

lemma await_dispatches: "await f st = (r, s) \<Longrightarrow> dispatches s = dispatches st"
  by (auto simp: await_def dispatches_def split: prod.splits)

lemma cacheGet_dispatches: "cacheGet env key cfg st = (r, s) \<Longrightarrow> dispatches s = dispatches st"
  by (auto simp: cacheGet_def dispatches_def split: prod.splits)

lemma cacheSet_dispatches: "dispatches (cacheSet env key v cfg st) = dispatches st"
  by (simp add: cacheSet_def dispatches_def)

lemma listDirectoryEntries_dispatches:
  assumes "listDirectoryEntries env lp st = (r, s)"
  shows "dispatches s = dispatches st"
  using listDirectoryEntries_effect(2)[OF assms]
  by (auto simp: dispatches_def isDispatch_def)

lemma getDirectoryEntries_dispatches:
  assumes "getDirectoryEntries env p st = (r, s)"
  shows "dispatches s = dispatches st"
  using assms
  by (auto simp: getDirectoryEntries_def Let_def cacheSet_dispatches
           split: prod.splits option.splits sum.splits if_splits
           dest!: cacheGet_dispatches listDirectoryEntries_dispatches)

lemma resolveChannelTarget_dispatches:
  assumes "resolveChannelTarget env p st = (r, s)"
  shows "dispatches s = dispatches st"
  using assms
  by (auto simp: resolveChannelTarget_def resolveMessagingTarget_def Let_def
           split: prod.splits sum.splits if_splits MatchResult.splits
           dest!: getDirectoryEntries_dispatches)

lemma resolveChannel_dispatches:
  assumes "resolveChannel env cfg params st = (r, s)"
  shows "dispatches s = dispatches st"
  using assms
  by (auto simp: resolveChannel_def split: sum.splits dest!: await_dispatches)

lemma resolveActionTarget_dispatches:
  assumes "resolveActionTarget env cfg channel action args accountId st = (r, s)"
  shows "dispatches s = dispatches st"
  using assms
  by (auto simp: resolveActionTarget_def Let_def
           split: prod.splits sum.splits if_splits ResolveMessagingTargetResult.splits
           dest!: resolveChannelTarget_dispatches)

lemma resolveActionContext_dispatches:
  assumes "resolveActionContext env input params0 st = (r, s)"
  shows "dispatches s = dispatches st"
  using assms
  by (auto simp: resolveActionContext_def Let_def
           split: prod.splits sum.splits if_splits option.splits
           dest!: resolveChannel_dispatches resolveActionTarget_dispatches)

lemma buildDecoration_dispatches:
  assumes "buildDecoration env action ctx to st = (r, s)"
  shows "dispatches s = dispatches st"
  using assms
  by (auto simp: buildDecoration_def split: option.splits if_splits dest!: await_dispatches)

lemma prepareSend_dispatches:
  assumes "prepareSend env ctx st = (r, s)"
  shows "dispatches s = dispatches st"
  using assms
  by (auto simp: prepareSend_def Let_def
           split: prod.splits sum.splits
           dest!: buildDecoration_dispatches)

lemma prepareSend_dryRun:
  assumes "prepareSend env ctx st = (Inr args, s)"
  shows "send_dryRun args = ctx_dryRun ctx"
  using assms
  by (auto simp: prepareSend_def Let_def sendActionArgs_def
           split: prod.splits sum.splits)

lemma validateSend_dispatches:
  assumes "validateSend env input st = (r, s)"
  shows "dispatches s = dispatches st"
  using assms
  by (auto simp: validateSend_def
           split: prod.splits sum.splits
           dest!: resolveActionContext_dispatches prepareSend_dispatches)

lemma executeSendAction_dry:
  "send_dryRun args \<Longrightarrow> executeSendAction env args st = (Inr (describeDryRunSend env args), st)"
  by (simp add: executeSendAction_def)

lemma executeSendAction_live:
  assumes "\<not> send_dryRun args"
  shows "dispatches (snd (executeSendAction env args st)) = dispatches st @ [CallSendDispatch args]"
proof -
  obtain r s where a: "await (sendDispatch env args) (st\<lparr>calls := calls st @ [CallSendDispatch args]\<rparr>)
                         = (r, s)"
    by (cases "await (sendDispatch env args) (st\<lparr>calls := calls st @ [CallSendDispatch args]\<rparr>)")
  from await_dispatches[OF a] have "dispatches s = dispatches st @ [CallSendDispatch args]"
    by (simp add: dispatches_def isDispatch_def)
  with a assms show ?thesis by (simp add: executeSendAction_def)
qed

lemma dispatchSend_state:
  "snd (dispatchSend env ctx args st) = snd (executeSendAction env args st)"
  by (simp add: dispatchSend_def split: prod.splits sum.splits)

section \<open>Dry runs\<close>

lemma resolveDryRun_param:
  "getProp p ''dryRun'' = getProp q ''dryRun'' \<Longrightarrow> resolveDryRun input p = resolveDryRun input q"
  by (simp add: resolveDryRun_def readBooleanParam_def split: option.splits)

lemma resolveActionTarget_keeps_dryRun:
  assumes "resolveActionTarget env cfg channel action args accountId st = (Inr args1, s)"
  shows "getProp args1 ''dryRun'' = getProp args ''dryRun''"
  using assms
  by (auto simp: resolveActionTarget_def Let_def getProp_def
           split: if_splits prod.splits sum.splits ResolveMessagingTargetResult.splits)

lemma resolveActionContext_steps:
  assumes "resolveActionContext env input params0 st = (Inr ctx, s)"
  shows "ctx_input ctx = input
       \<and> (\<exists>params channel accountId s1.
             ctx_dryRun ctx = resolveDryRun input params
           \<and> resolveActionTarget env (in_cfg input) channel (in_action input) params accountId s1
               = (Inr (ctx_params ctx), s))"
  using assms
  apply (auto simp: resolveActionContext_def Let_def
           split: sum.splits prod.splits option.splits if_splits)
     apply blast+
  done

lemma resolveActionContext_fields:
  assumes "resolveActionContext env input params0 st = (Inr ctx, s)"
  shows "ctx_input ctx = input" and "ctx_dryRun ctx = resolveDryRun input (ctx_params ctx)"
proof -
  from resolveActionContext_steps[OF assms] obtain params channel accountId s1 where
    i: "ctx_input ctx = input" and d: "ctx_dryRun ctx = resolveDryRun input params"
    and t: "resolveActionTarget env (in_cfg input) channel (in_action input) params accountId s1
              = (Inr (ctx_params ctx), s)"
    by blast
  show "ctx_input ctx = input" by (rule i)
  show "ctx_dryRun ctx = resolveDryRun input (ctx_params ctx)"
    using d resolveDryRun_param[OF resolveActionTarget_keeps_dryRun[OF t]] by simp
qed

lemma resolveActionContext_live:
  fixes input :: RunMessageActionParams
  shows "resolveActionContext env (input\<lparr>in_dryRun := Some False\<rparr>) params st =
     (case resolveActionContext env (input\<lparr>in_dryRun := d\<rparr>) params st of
        (Inl err, s) \<Rightarrow> (Inl err, s)
      | (Inr ctx, s) \<Rightarrow>
          (Inr (ctx\<lparr>ctx_dryRun := False, ctx_input := input\<lparr>in_dryRun := Some False\<rparr>\<rparr>), s))"
  by (simp add: resolveActionContext_def Let_def resolveGateway_def resolveDryRun_def
           split: sum.splits prod.splits option.splits)

lemma resolveActionContext_dry:
  fixes input :: RunMessageActionParams
  shows "resolveActionContext env (input\<lparr>in_dryRun := d\<rparr>) params st =
     (case resolveActionContext env (input\<lparr>in_dryRun := Some False\<rparr>) params st of
        (Inl err, s) \<Rightarrow> (Inl err, s)
      | (Inr ctx, s) \<Rightarrow>
          (Inr (ctx\<lparr>ctx_dryRun := resolveDryRun (input\<lparr>in_dryRun := d\<rparr>) (ctx_params ctx),
                     ctx_input := input\<lparr>in_dryRun := d\<rparr>\<rparr>), s))"
proof (cases "resolveActionContext env (input\<lparr>in_dryRun := d\<rparr>) params st")
  case (Pair r s)
  show ?thesis
  proof (cases r)
    case (Inl err)
    with Pair show ?thesis by (simp add: resolveActionContext_live[where d = d])
  next
    case (Inr ctx)
    with Pair have c: "resolveActionContext env (input\<lparr>in_dryRun := d\<rparr>) params st = (Inr ctx, s)"
      by simp
    note f = resolveActionContext_fields[OF c]
    show ?thesis using c f by (simp add: resolveActionContext_live[where d = d])
  qed
qed


lemma buildDecoration_dry:
  fixes ctx :: ResolvedActionContext
  shows "buildDecoration env action
           (ctx\<lparr>ctx_dryRun := flag, ctx_input := (ctx_input ctx)\<lparr>in_dryRun := d\<rparr>\<rparr>) to st
         = buildDecoration env action ctx to st"
  by (simp add: buildDecoration_def split: option.splits)

lemma sendActionArgs_dry:
  fixes ctx :: ResolvedActionContext
  assumes "\<not> ctx_dryRun ctx"
  shows "sendActionArgs (ctx\<lparr>ctx_dryRun := flag, ctx_input := (ctx_input ctx)\<lparr>in_dryRun := d\<rparr>\<rparr>)
           params to message mediaUrl
         = (sendActionArgs ctx params to message mediaUrl)
             \<lparr>send_dryRun := flag,
              send_mirror := (if flag then None
                              else send_mirror (sendActionArgs ctx params to message mediaUrl))\<rparr>"
  using assms by (simp add: sendActionArgs_def split: option.splits)

lemma prepareSend_dry:
  fixes ctx :: ResolvedActionContext
  assumes "\<not> ctx_dryRun ctx"
  shows "prepareSend env (ctx\<lparr>ctx_dryRun := flag, ctx_input := (ctx_input ctx)\<lparr>in_dryRun := d\<rparr>\<rparr>) st =
     (case prepareSend env ctx st of
        (Inl err, s) \<Rightarrow> (Inl err, s)
      | (Inr args, s) \<Rightarrow>
          (Inr (args\<lparr>send_dryRun := flag,
                     send_mirror := (if flag then None else send_mirror args)\<rparr>), s))"
  unfolding prepareSend_def buildDecoration_dry sendActionArgs_dry[OF assms]
  by (simp add: Let_def split: sum.splits prod.splits option.splits)

lemma run_send:
  assumes "in_action input = ''send''"
  shows "runMessageAction env input st =
           (case validateSend env input st of
              (Inl err, s) \<Rightarrow> (Inl err, s)
            | (Inr (ctx, args), s) \<Rightarrow> dispatchSend env ctx args s)"
  using assms
  by (simp add: runMessageAction_def runMessageActionRest_def validateSend_def handleSendAction_def
           split: sum.splits prod.splits)

lemma validateSend_dry:
  fixes input :: RunMessageActionParams
  shows "validateSend env (input\<lparr>in_dryRun := d\<rparr>) st =
     (case validateSend env (input\<lparr>in_dryRun := Some False\<rparr>) st of
        (Inl err, s) \<Rightarrow> (Inl err, s)
      | (Inr (ctx, args), s) \<Rightarrow>
          (Inr (ctx\<lparr>ctx_dryRun := resolveDryRun (input\<lparr>in_dryRun := d\<rparr>) (ctx_params ctx),
                     ctx_input := input\<lparr>in_dryRun := d\<rparr>\<rparr>,
                args\<lparr>send_dryRun := resolveDryRun (input\<lparr>in_dryRun := d\<rparr>) (ctx_params ctx),
                     send_mirror := (if resolveDryRun (input\<lparr>in_dryRun := d\<rparr>) (ctx_params ctx)
                                     then None else send_mirror args)\<rparr>), s))"
proof (cases "parseButtonsParam env (in_params input)")
  case (Inl err)
  then show ?thesis by (simp add: validateSend_def)
next
  case (Inr params)
  show ?thesis
  proof (cases "resolveActionContext env (input\<lparr>in_dryRun := Some False\<rparr>) params st")
    case (Pair r s)
    show ?thesis
    proof (cases r)
      case (Inl err)
      then show ?thesis using Inr Pair
        by (simp add: validateSend_def resolveActionContext_dry[where d = d])
    next
      case ctx: (Inr ctx)
      have c: "resolveActionContext env (input\<lparr>in_dryRun := Some False\<rparr>) params st = (Inr ctx, s)"
        using Pair ctx by simp
      have i: "ctx_input ctx = input\<lparr>in_dryRun := Some False\<rparr>"
        and live: "\<not> ctx_dryRun ctx"
        using resolveActionContext_fields[OF c] by (simp_all add: resolveDryRun_def)
      have "prepareSend env
              (ctx\<lparr>ctx_dryRun := resolveDryRun (input\<lparr>in_dryRun := d\<rparr>) (ctx_params ctx),
                   ctx_input := input\<lparr>in_dryRun := d\<rparr>\<rparr>) s
              = (case prepareSend env ctx s of
                   (Inl err, s') \<Rightarrow> (Inl err, s')
                 | (Inr args, s') \<Rightarrow>
                     (Inr (args\<lparr>send_dryRun := resolveDryRun (input\<lparr>in_dryRun := d\<rparr>) (ctx_params ctx),
                                send_mirror :=
                                  (if resolveDryRun (input\<lparr>in_dryRun := d\<rparr>) (ctx_params ctx)
                                   then None else send_mirror args)\<rparr>), s'))"
        using prepareSend_dry[OF live, where env = env and d = d and st = s
                and flag = "resolveDryRun (input\<lparr>in_dryRun := d\<rparr>) (ctx_params ctx)"]
        by (simp add: i)
      then show ?thesis using Inr c
        by (simp add: validateSend_def resolveActionContext_dry[where d = d]
                 split: sum.splits prod.splits)
    qed
  qed
qed

lemma run_plugin:
  assumes "in_action input \<noteq> ''send''" "in_action input \<noteq> ''poll''"
    "in_action input \<noteq> ''broadcast''"
    and "parseButtonsParam env (in_params input) = Inr params0"
  shows "runMessageAction env input st =
           (case resolveActionContext env input params0 st of
              (Inl err, s) \<Rightarrow> (Inl err, s)
            | (Inr ctx, s) \<Rightarrow> handlePluginAction env ctx s)"
  using assms
  by (simp add: runMessageAction_def runMessageActionRest_def split: prod.splits sum.splits)

lemma handlePluginAction_dry:
  assumes "ctx_dryRun ctx"
  shows "handlePluginAction env ctx s
           = (Inr (RunAction
                \<lparr>ar_channel = ctx_channel ctx, ar_action = in_action (ctx_input ctx),
                 ar_handledBy = ByDryRun,
                 ar_payload = JObj [(''ok'', JBool True), (''dryRun'', JBool True),
                                    (''channel'', JStr (ctx_channel ctx)),
                                    (''action'', JStr (in_action (ctx_input ctx)))],
                 ar_toolResult = None, ar_dryRun = True\<rparr>), s)"
  using assms by (simp add: handlePluginAction_def Let_def)

lemma handlePluginAction_live:
  assumes "\<not> ctx_dryRun ctx"
  shows "dispatches (snd (handlePluginAction env ctx s))
           = dispatches s
             @ [CallDispatchAction
                  \<lparr>da_channel = ctx_channel ctx, da_action = in_action (ctx_input ctx),
                   da_cfg = ctx_cfg ctx, da_params = ctx_params ctx,
                   da_accountId = ctx_accountId ctx, da_gateway = ctx_gateway ctx,
                   da_toolContext = in_toolContext (ctx_input ctx), da_dryRun = False\<rparr>]"
proof -
  define args where "args = \<lparr>da_channel = ctx_channel ctx, da_action = in_action (ctx_input ctx),
                   da_cfg = ctx_cfg ctx, da_params = ctx_params ctx,
                   da_accountId = ctx_accountId ctx, da_gateway = ctx_gateway ctx,
                   da_toolContext = in_toolContext (ctx_input ctx), da_dryRun = False\<rparr>"
  obtain r s1 where a: "await (dispatchChannelMessageAction env args)
                          (s\<lparr>calls := calls s @ [CallDispatchAction args]\<rparr>) = (r, s1)"
    by (cases "await (dispatchChannelMessageAction env args)
                 (s\<lparr>calls := calls s @ [CallDispatchAction args]\<rparr>)")
  from await_dispatches[OF a] have "dispatches s1 = dispatches s @ [CallDispatchAction args]"
    by (simp add: dispatches_def isDispatch_def)
  with a assms show ?thesis
    by (simp add: handlePluginAction_def Let_def args_def split: sum.splits option.splits)
qed

text \<open>
  Claim C9. Compare a request with the same request whose dry-run flag is explicitly off.

  For a send: whatever error the live request fails with before the call of
  \<open>executeSendAction\<close> (a missing message with no media hint is one), the request fails with
  the same error in the same state, however its dry-run flag is set. When the live request
  reaches that call, nothing was dispatched on the way; the live request then dispatches the
  send once, and a request that resolves to a dry run (by its flag or by its \<open>dryRun\<close>
  parameter) returns in the state that the validation left, so without a dispatch, what the
  send service reports for the same argument but for the dry-run flag (and no mirror).

  For any other plugin action: the request fails as the live request does while the
  context is resolved; where the live request calls the dispatcher of plugin actions, a
  request that resolves to a dry run returns the synthesized payload in the state that the
  resolution left, so without a dispatch.
\<close>

theorem dry_run_validates_like_live:
  fixes env :: "'w Env" and input :: RunMessageActionParams
  shows
   "(in_action input = ''send'' \<longrightarrow>
       (\<forall>err s. validateSend env (input\<lparr>in_dryRun := Some False\<rparr>) st = (Inl err, s) \<longrightarrow>
          (\<forall>d. runMessageAction env (input\<lparr>in_dryRun := d\<rparr>) st = (Inl err, s)))
     \<and> (\<forall>ctx args s. validateSend env (input\<lparr>in_dryRun := Some False\<rparr>) st = (Inr (ctx, args), s) \<longrightarrow>
          dispatches s = dispatches st
        \<and> runMessageAction env (input\<lparr>in_dryRun := Some False\<rparr>) st = dispatchSend env ctx args s
        \<and> dispatches (snd (runMessageAction env (input\<lparr>in_dryRun := Some False\<rparr>) st))
            = dispatches st @ [CallSendDispatch args]
        \<and> (\<forall>d. resolveDryRun (input\<lparr>in_dryRun := d\<rparr>) (ctx_params ctx) \<longrightarrow>
              runMessageAction env (input\<lparr>in_dryRun := d\<rparr>) st
                = (let report = describeDryRunSend env (args\<lparr>send_dryRun := True, send_mirror := None\<rparr>)
                   in (Inr (RunSend
                         \<lparr>sr_channel = ctx_channel ctx, sr_to = send_to args,
                          sr_handledBy = so_handledBy report, sr_payload = so_payload report,
                          sr_toolResult = so_toolResult report,
                          sr_sendResult = so_sendResult report, sr_dryRun = True\<rparr>), s)))))
    \<and> (in_action input \<noteq> ''send'' \<and> in_action input \<noteq> ''poll'' \<and> in_action input \<noteq> ''broadcast'' \<longrightarrow>
        (\<forall>params0. parseButtonsParam env (in_params input) = Inr params0 \<longrightarrow>
           (\<forall>err s. resolveActionContext env (input\<lparr>in_dryRun := Some False\<rparr>) params0 st = (Inl err, s) \<longrightarrow>
              (\<forall>d. runMessageAction env (input\<lparr>in_dryRun := d\<rparr>) st = (Inl err, s)))
         \<and> (\<forall>ctx s. resolveActionContext env (input\<lparr>in_dryRun := Some False\<rparr>) params0 st = (Inr ctx, s) \<longrightarrow>
              dispatches s = dispatches st
            \<and> dispatches (snd (runMessageAction env (input\<lparr>in_dryRun := Some False\<rparr>) st))
                = dispatches st
                  @ [CallDispatchAction
                       \<lparr>da_channel = ctx_channel ctx, da_action = in_action input,
                        da_cfg = ctx_cfg ctx, da_params = ctx_params ctx,
                        da_accountId = ctx_accountId ctx, da_gateway = ctx_gateway ctx,
                        da_toolContext = in_toolContext input, da_dryRun = False\<rparr>]
            \<and> (\<forall>d. resolveDryRun (input\<lparr>in_dryRun := d\<rparr>) (ctx_params ctx) \<longrightarrow>
                  runMessageAction env (input\<lparr>in_dryRun := d\<rparr>) st
                    = (Inr (RunAction
                         \<lparr>ar_channel = ctx_channel ctx, ar_action = in_action input,
                          ar_handledBy = ByDryRun,
                          ar_payload = JObj [(''ok'', JBool True), (''dryRun'', JBool True),
                                             (''channel'', JStr (ctx_channel ctx)),
                                             (''action'', JStr (in_action input))],
                          ar_toolResult = None, ar_dryRun = True\<rparr>), s)))))"
proof (intro conjI impI allI)
  fix err s d
  assume send: "in_action input = ''send''"
    and v: "validateSend env (input\<lparr>in_dryRun := Some False\<rparr>) st = (Inl err, s)"
  show "runMessageAction env (input\<lparr>in_dryRun := d\<rparr>) st = (Inl err, s)"
    using run_send[of "input\<lparr>in_dryRun := d\<rparr>" env st] send v
    by (simp add: validateSend_dry[where d = d])
next
  fix ctx args s
  assume send: "in_action input = ''send''"
    and v: "validateSend env (input\<lparr>in_dryRun := Some False\<rparr>) st = (Inr (ctx, args), s)"
  show quiet: "dispatches s = dispatches st" by (rule validateSend_dispatches[OF v])
  show live: "runMessageAction env (input\<lparr>in_dryRun := Some False\<rparr>) st = dispatchSend env ctx args s"
    using run_send[of "input\<lparr>in_dryRun := Some False\<rparr>" env st] send v by simp
  from v obtain params0 s0 where
    c: "resolveActionContext env (input\<lparr>in_dryRun := Some False\<rparr>) params0 st = (Inr ctx, s0)"
    and p: "prepareSend env ctx s0 = (Inr args, s)"
    by (auto simp: validateSend_def split: sum.splits prod.splits)
  have "\<not> ctx_dryRun ctx"
    using resolveActionContext_fields(2)[OF c] by (simp add: resolveDryRun_def)
  then have "\<not> send_dryRun args" using prepareSend_dryRun[OF p] by simp
  from executeSendAction_live[OF this, of env s]
  show "dispatches (snd (runMessageAction env (input\<lparr>in_dryRun := Some False\<rparr>) st))
            = dispatches st @ [CallSendDispatch args]"
    by (simp add: live dispatchSend_state quiet)
next
  fix ctx args s d
  assume send: "in_action input = ''send''"
    and v: "validateSend env (input\<lparr>in_dryRun := Some False\<rparr>) st = (Inr (ctx, args), s)"
    and dry: "resolveDryRun (input\<lparr>in_dryRun := d\<rparr>) (ctx_params ctx)"
  have "runMessageAction env (input\<lparr>in_dryRun := d\<rparr>) st
                = dispatchSend env (ctx\<lparr>ctx_dryRun := True, ctx_input := input\<lparr>in_dryRun := d\<rparr>\<rparr>)
                    (args\<lparr>send_dryRun := True, send_mirror := None\<rparr>) s"
    using run_send[of "input\<lparr>in_dryRun := d\<rparr>" env st] send v dry
    by (simp add: validateSend_dry[where d = d])
  then show "runMessageAction env (input\<lparr>in_dryRun := d\<rparr>) st
                = (let report = describeDryRunSend env (args\<lparr>send_dryRun := True, send_mirror := None\<rparr>)
                   in (Inr (RunSend
                         \<lparr>sr_channel = ctx_channel ctx, sr_to = send_to args,
                          sr_handledBy = so_handledBy report, sr_payload = so_payload report,
                          sr_toolResult = so_toolResult report,
                          sr_sendResult = so_sendResult report, sr_dryRun = True\<rparr>), s))"
    by (simp add: dispatchSend_def executeSendAction_dry Let_def)
next
  fix params0 err s d
  assume other: "in_action input \<noteq> ''send'' \<and> in_action input \<noteq> ''poll''
                 \<and> in_action input \<noteq> ''broadcast''"
    and b: "parseButtonsParam env (in_params input) = Inr params0"
    and c: "resolveActionContext env (input\<lparr>in_dryRun := Some False\<rparr>) params0 st = (Inl err, s)"
  show "runMessageAction env (input\<lparr>in_dryRun := d\<rparr>) st = (Inl err, s)"
    using run_plugin[of "input\<lparr>in_dryRun := d\<rparr>" env params0 st] other b c
    by (simp add: resolveActionContext_dry[where d = d])
next
  fix params0 ctx s
  assume other: "in_action input \<noteq> ''send'' \<and> in_action input \<noteq> ''poll''
                 \<and> in_action input \<noteq> ''broadcast''"
    and b: "parseButtonsParam env (in_params input) = Inr params0"
    and c: "resolveActionContext env (input\<lparr>in_dryRun := Some False\<rparr>) params0 st = (Inr ctx, s)"
  show quiet: "dispatches s = dispatches st" by (rule resolveActionContext_dispatches[OF c])
  have i: "ctx_input ctx = input\<lparr>in_dryRun := Some False\<rparr>" and live: "\<not> ctx_dryRun ctx"
    using resolveActionContext_fields[OF c] by (simp_all add: resolveDryRun_def)
  have "runMessageAction env (input\<lparr>in_dryRun := Some False\<rparr>) st = handlePluginAction env ctx s"
    using run_plugin[of "input\<lparr>in_dryRun := Some False\<rparr>" env params0 st] other b c by simp
  then show "dispatches (snd (runMessageAction env (input\<lparr>in_dryRun := Some False\<rparr>) st))
                = dispatches st
                  @ [CallDispatchAction
                       \<lparr>da_channel = ctx_channel ctx, da_action = in_action input,
                        da_cfg = ctx_cfg ctx, da_params = ctx_params ctx,
                        da_accountId = ctx_accountId ctx, da_gateway = ctx_gateway ctx,
                        da_toolContext = in_toolContext input, da_dryRun = False\<rparr>]"
    using handlePluginAction_live[OF live, of env s] by (simp add: i quiet)
next
  fix params0 ctx s d
  assume other: "in_action input \<noteq> ''send'' \<and> in_action input \<noteq> ''poll''
                 \<and> in_action input \<noteq> ''broadcast''"
    and b: "parseButtonsParam env (in_params input) = Inr params0"
    and c: "resolveActionContext env (input\<lparr>in_dryRun := Some False\<rparr>) params0 st = (Inr ctx, s)"
    and dry: "resolveDryRun (input\<lparr>in_dryRun := d\<rparr>) (ctx_params ctx)"
  have "runMessageAction env (input\<lparr>in_dryRun := d\<rparr>) st
          = handlePluginAction env
              (ctx\<lparr>ctx_dryRun := True, ctx_input := input\<lparr>in_dryRun := d\<rparr>\<rparr>) s"
    using run_plugin[of "input\<lparr>in_dryRun := d\<rparr>" env params0 st] other b c dry
    by (simp add: resolveActionContext_dry[where d = d])
  then show "runMessageAction env (input\<lparr>in_dryRun := d\<rparr>) st
                    = (Inr (RunAction
                         \<lparr>ar_channel = ctx_channel ctx, ar_action = in_action input,
                          ar_handledBy = ByDryRun,
                          ar_payload = JObj [(''ok'', JBool True), (''dryRun'', JBool True),
                                             (''channel'', JStr (ctx_channel ctx)),
                                             (''action'', JStr (in_action input))],
                          ar_toolResult = None, ar_dryRun = True\<rparr>), s)"
    by (simp add: handlePluginAction_dry)
qed

lemma silent_send_check:
  "case fst (validateSend testEnv ((exampleInput ''send'' silentSendParams None)\<lparr>in_dryRun := Some False\<rparr>)
               (initialState 0)) of
     Inl err \<Rightarrow> err = Error ''message required''
   | Inr _ \<Rightarrow> False"
  by code_simp

lemma silent_send_invalid:
  "fst (validateSend testEnv ((exampleInput ''send'' silentSendParams None)\<lparr>in_dryRun := Some False\<rparr>)
          (initialState 0)) = Inl (Error ''message required'')"
  using silent_send_check by (auto split: sum.splits)

lemma flagged_send_valid:
  "case fst (validateSend testEnv ((exampleInput ''send'' flaggedSendParams None)\<lparr>in_dryRun := Some False\<rparr>)
               (initialState 0)) of
     Inl err \<Rightarrow> False
   | Inr (ctx, args) \<Rightarrow>
       ctx_channel ctx = ''slack''
       \<and> send_to args = ''c00000001'' \<and> send_message args = ''hi'' \<and> \<not> send_dryRun args
       \<and> resolveDryRun ((exampleInput ''send'' flaggedSendParams None)\<lparr>in_dryRun := None\<rparr>)
            (ctx_params ctx)"
  by code_simp

lemma pin_buttons:
  "parseButtonsParam testEnv (in_params (exampleInput ''pin'' silentSendParams None))
     = Inr silentSendParams"
  by (simp add: parseButtonsParam_def exampleInput_def getProp_def silentSendParams_def)

lemma pin_context:
  "case fst (resolveActionContext testEnv
               ((exampleInput ''pin'' silentSendParams None)\<lparr>in_dryRun := Some False\<rparr>)
               silentSendParams (initialState 0)) of
     Inl err \<Rightarrow> False
   | Inr ctx \<Rightarrow> ctx_channel ctx = ''slack'' \<and> getProp (ctx_params ctx) ''to'' = JStr ''c00000001''"
  by code_simp

theorem dry_run_validates_like_live_witness:
  "(runMessageAction testEnv ((exampleInput ''send'' silentSendParams None)\<lparr>in_dryRun := Some True\<rparr>)
      (initialState 0)
    = runMessageAction testEnv ((exampleInput ''send'' silentSendParams None)\<lparr>in_dryRun := Some False\<rparr>)
        (initialState 0)
    \<and> fst (runMessageAction testEnv
             ((exampleInput ''send'' silentSendParams None)\<lparr>in_dryRun := Some True\<rparr>) (initialState 0))
        = Inl (Error ''message required''))
   \<and> (\<exists>ctx args s.
         validateSend testEnv ((exampleInput ''send'' flaggedSendParams None)\<lparr>in_dryRun := Some False\<rparr>)
           (initialState 0) = (Inr (ctx, args), s)
       \<and> send_to args = ''c00000001'' \<and> send_message args = ''hi'' \<and> \<not> send_dryRun args
       \<and> dispatches (snd (runMessageAction testEnv
                             ((exampleInput ''send'' flaggedSendParams None)\<lparr>in_dryRun := Some False\<rparr>)
                             (initialState 0)))
           = [CallSendDispatch args]
       \<and> runMessageAction testEnv ((exampleInput ''send'' flaggedSendParams None)\<lparr>in_dryRun := None\<rparr>)
           (initialState 0)
          = (Inr (RunSend
                \<lparr>sr_channel = ''slack'', sr_to = ''c00000001'', sr_handledBy = ByCore,
                 sr_payload = JObj [(''to'', JStr ''c00000001''), (''dryRun'', JBool True)],
                 sr_toolResult = None, sr_sendResult = None, sr_dryRun = True\<rparr>), s)
       \<and> dispatches s = [])
   \<and> (\<exists>s. runMessageAction testEnv ((exampleInput ''pin'' silentSendParams None)\<lparr>in_dryRun := Some True\<rparr>)
             (initialState 0)
            = (Inr (RunAction
                  \<lparr>ar_channel = ''slack'', ar_action = ''pin'', ar_handledBy = ByDryRun,
                   ar_payload = JObj [(''ok'', JBool True), (''dryRun'', JBool True),
                                      (''channel'', JStr ''slack''), (''action'', JStr ''pin'')],
                   ar_toolResult = None, ar_dryRun = True\<rparr>), s)
          \<and> dispatches s = [])"
proof -
  note silent = dry_run_validates_like_live[where env = testEnv
      and input = "exampleInput ''send'' silentSendParams None" and st = "initialState 0"]
  note flagged = dry_run_validates_like_live[where env = testEnv
      and input = "exampleInput ''send'' flaggedSendParams None" and st = "initialState 0"]
  note pin = dry_run_validates_like_live[where env = testEnv
      and input = "exampleInput ''pin'' silentSendParams None" and st = "initialState 0"]
  have send: "in_action (exampleInput ''send'' silentSendParams None) = ''send''"
    "in_action (exampleInput ''send'' flaggedSendParams None) = ''send''"
    and other: "in_action (exampleInput ''pin'' silentSendParams None) \<noteq> ''send''
       \<and> in_action (exampleInput ''pin'' silentSendParams None) \<noteq> ''poll''
       \<and> in_action (exampleInput ''pin'' silentSendParams None) \<noteq> ''broadcast''"
    and action: "in_action (exampleInput ''pin'' silentSendParams None) = ''pin''"
    by (simp_all add: exampleInput_def)
  have start: "dispatches (initialState (0::int)) = []"
    by (simp add: dispatches_def initialState_def)
  from silent send(1) pair_of_fst[OF silent_send_invalid]
  have both:
    "\<forall>d. runMessageAction testEnv ((exampleInput ''send'' silentSendParams None)\<lparr>in_dryRun := d\<rparr>)
       (initialState 0)
     = (Inl (Error ''message required''),
        snd (validateSend testEnv ((exampleInput ''send'' silentSendParams None)\<lparr>in_dryRun := Some False\<rparr>)
               (initialState 0)))"
    by blast
  obtain ctx args s where v:
    "validateSend testEnv ((exampleInput ''send'' flaggedSendParams None)\<lparr>in_dryRun := Some False\<rparr>)
       (initialState 0) = (Inr (ctx, args), s)"
    and a: "ctx_channel ctx = ''slack''"
      "send_to args = ''c00000001''" "send_message args = ''hi''" "\<not> send_dryRun args"
    and flag: "resolveDryRun ((exampleInput ''send'' flaggedSendParams None)\<lparr>in_dryRun := None\<rparr>)
                 (ctx_params ctx)"
    using flagged_send_valid
    by (cases "validateSend testEnv
                 ((exampleInput ''send'' flaggedSendParams None)\<lparr>in_dryRun := Some False\<rparr>)
                 (initialState 0)")
       (auto split: sum.splits)
  from flagged send(2) v
  have quiet: "dispatches s = dispatches (initialState (0::int))"
    and live: "dispatches (snd (runMessageAction testEnv
                             ((exampleInput ''send'' flaggedSendParams None)\<lparr>in_dryRun := Some False\<rparr>)
                             (initialState 0)))
                 = dispatches (initialState (0::int)) @ [CallSendDispatch args]"
    by blast+
  from flagged send(2) v flag
  have "runMessageAction testEnv ((exampleInput ''send'' flaggedSendParams None)\<lparr>in_dryRun := None\<rparr>)
           (initialState 0)
          = (let report = describeDryRunSend testEnv (args\<lparr>send_dryRun := True, send_mirror := None\<rparr>)
             in (Inr (RunSend
                   \<lparr>sr_channel = ctx_channel ctx, sr_to = send_to args,
                    sr_handledBy = so_handledBy report, sr_payload = so_payload report,
                    sr_toolResult = so_toolResult report,
                    sr_sendResult = so_sendResult report, sr_dryRun = True\<rparr>), s))"
    by blast
  then have dry: "runMessageAction testEnv
           ((exampleInput ''send'' flaggedSendParams None)\<lparr>in_dryRun := None\<rparr>) (initialState 0)
          = (Inr (RunSend
                \<lparr>sr_channel = ''slack'', sr_to = ''c00000001'', sr_handledBy = ByCore,
                 sr_payload = JObj [(''to'', JStr ''c00000001''), (''dryRun'', JBool True)],
                 sr_toolResult = None, sr_sendResult = None, sr_dryRun = True\<rparr>), s)"
    by (simp add: Let_def a testEnv_def exampleEnv_def exampleDryRunSend_def)
  obtain pctx ps where c:
    "resolveActionContext testEnv
       ((exampleInput ''pin'' silentSendParams None)\<lparr>in_dryRun := Some False\<rparr>)
       silentSendParams (initialState 0) = (Inr pctx, ps)"
    and pc: "ctx_channel pctx = ''slack''"
    using pin_context
    by (cases "resolveActionContext testEnv
                 ((exampleInput ''pin'' silentSendParams None)\<lparr>in_dryRun := Some False\<rparr>)
                 silentSendParams (initialState 0)")
       (auto split: sum.splits)
  have pdry: "resolveDryRun ((exampleInput ''pin'' silentSendParams None)\<lparr>in_dryRun := Some True\<rparr>)
                (ctx_params pctx)"
    by (simp add: resolveDryRun_def)
  from pin other pin_buttons c
  have pquiet: "dispatches ps = dispatches (initialState (0::int))"
    by blast
  from pin other pin_buttons c pdry
  have "runMessageAction testEnv ((exampleInput ''pin'' silentSendParams None)\<lparr>in_dryRun := Some True\<rparr>)
          (initialState 0)
        = (Inr (RunAction
              \<lparr>ar_channel = ctx_channel pctx,
               ar_action = in_action (exampleInput ''pin'' silentSendParams None),
               ar_handledBy = ByDryRun,
               ar_payload = JObj [(''ok'', JBool True), (''dryRun'', JBool True),
                                  (''channel'', JStr (ctx_channel pctx)),
                                  (''action'', JStr (in_action (exampleInput ''pin'' silentSendParams None)))],
               ar_toolResult = None, ar_dryRun = True\<rparr>), ps)"
    by blast
  then have plugin: "runMessageAction testEnv
          ((exampleInput ''pin'' silentSendParams None)\<lparr>in_dryRun := Some True\<rparr>) (initialState 0)
        = (Inr (RunAction
              \<lparr>ar_channel = ''slack'', ar_action = ''pin'', ar_handledBy = ByDryRun,
               ar_payload = JObj [(''ok'', JBool True), (''dryRun'', JBool True),
                                  (''channel'', JStr ''slack''), (''action'', JStr ''pin'')],
               ar_toolResult = None, ar_dryRun = True\<rparr>), ps)"
    by (simp add: pc action)
  show ?thesis
    using both v a live dry quiet plugin pquiet unfolding start by auto
qed

end
